theory Spec2Isabelle
  imports Main "HOL-Library.Word" "HOL-Library.AList" "HOL-Library.Sublist"
begin

unbundle bit_operations_syntax

section \<open>JavaScript strings\<close>

text \<open>
  A JavaScript string is a sequence of UTF-16 code units. The model uses \<^typ>\<open>string\<close>,
  that is, the program's strings whose code units lie in the range 0..255 (ASCII and
  Latin-1). On these strings the functions below compute what the JavaScript built-ins
  compute; code units from 256 upwards (among them the bullet U+2022 that one regular
  expression of the validator mentions) are outside the alphabet of the model.
\<close>

definition code_unit :: "char \<Rightarrow> nat" where
  "code_unit c = of_char c"


definition is_digit :: "char \<Rightarrow> bool" where
  "is_digit c = (48 \<le> code_unit c \<and> code_unit c \<le> 57)"

definition is_lower_alnum :: "char \<Rightarrow> bool" where
  "is_lower_alnum c = (is_digit c \<or> (97 \<le> code_unit c \<and> code_unit c \<le> 122))"


definition lower_char :: "char \<Rightarrow> char" where
  "lower_char c =
     (let n = code_unit c
      in if (65 \<le> n \<and> n \<le> 90) \<or> (192 \<le> n \<and> n \<le> 222 \<and> n \<noteq> 215)
         then char_of (n + 32) else c)"

definition toLowerCase :: "string \<Rightarrow> string" where
  "toLowerCase s = map lower_char s"

fun startsWith :: "string \<Rightarrow> string \<Rightarrow> bool" where
  "startsWith s [] = True"
| "startsWith [] (p # ps) = False"
| "startsWith (c # cs) (p # ps) = (c = p \<and> startsWith cs ps)"

definition endsWith :: "string \<Rightarrow> string \<Rightarrow> bool" where
  "endsWith s p = startsWith (rev s) (rev p)"

fun includes_str :: "string \<Rightarrow> string \<Rightarrow> bool" where
  "includes_str [] p = (p = [])"
| "includes_str (c # cs) p = (startsWith (c # cs) p \<or> includes_str cs p)"

text \<open>
  \<open>s.split(sep)\<close> for a non-empty separator string: the pieces between the
  occurrences of \<open>sep\<close>, found from left to right without overlap. \<open>cur\<close> holds the
  piece being read, reversed.
\<close>

function split_from :: "string \<Rightarrow> string \<Rightarrow> string \<Rightarrow> string list" where
  "split_from sep cur [] = [rev cur]"
| "split_from sep cur (c # cs) =
     (if sep \<noteq> [] \<and> startsWith (c # cs) sep
      then rev cur # split_from sep [] (drop (length sep) (c # cs))
      else split_from sep (c # cur) cs)"
  by pat_completeness auto
termination
  by (relation "measure (\<lambda>(sep, cur, s). length s)") auto

definition split :: "string \<Rightarrow> string \<Rightarrow> string list" where
  "split s sep = split_from sep [] s"

text \<open>\<open>xs.join(sep)\<close>\<close>

fun join_with :: "string \<Rightarrow> string list \<Rightarrow> string" where
  "join_with sep [] = []"
| "join_with sep [x] = x"
| "join_with sep (x # y # ys) = x @ sep @ join_with sep (y # ys)"

text \<open>A number inside a template literal: its decimal digits.\<close>

function show_nat :: "nat \<Rightarrow> string" where
  "show_nat n =
     (if n < 10 then [char_of (48 + n)] else show_nat (n div 10) @ [char_of (48 + n mod 10)])"
  by pat_completeness auto
termination
  by (relation "measure (\<lambda>n. n)") auto

text \<open>\<open>s.replace(pat, rep)\<close> for a string pattern: the first occurrence only.\<close>

fun replace_first :: "string \<Rightarrow> string \<Rightarrow> string \<Rightarrow> string" where
  "replace_first [] pat rep = (if pat = [] then rep else [])"
| "replace_first (c # cs) pat rep =
     (if startsWith (c # cs) pat then rep @ drop (length pat) (c # cs)
      else c # replace_first cs pat rep)"

section \<open>Paths (\<open>node:path\<close>, POSIX flavour)\<close>

text \<open>
  \<open>norm_segs absolute stack segments\<close> is the segment walk of \<open>path.normalize\<close>:
  empty and \<open>.\<close> segments vanish, \<open>..\<close> removes the segment before it (at the root it
  vanishes, at the start of a relative path it stays).
\<close>

fun norm_segs :: "bool \<Rightarrow> string list \<Rightarrow> string list \<Rightarrow> string list" where
  "norm_segs ab st [] = rev st"
| "norm_segs ab st (s # ss) =
     (if s = [] \<or> s = ''.'' then norm_segs ab st ss
      else if s = ''..'' then
        (case st of
           [] \<Rightarrow> if ab then norm_segs ab [] ss else norm_segs ab [''..''] ss
         | t # ts \<Rightarrow> if t = ''..'' then norm_segs ab (''..'' # st) ss else norm_segs ab ts ss)
      else norm_segs ab (s # st) ss)"

definition normalize :: "string \<Rightarrow> string" where
  "normalize p =
     (if p = [] then ''.''
      else
        let ab = (hd p = CHR ''/'');
            trailing = (last p = CHR ''/'');
            body = join_with ''/'' (norm_segs ab [] (split p ''/''))
        in if body = [] then (if ab then ''/'' else if trailing then ''./'' else ''.'')
           else (if ab then ''/'' else []) @ body @ (if trailing then ''/'' else []))"

definition join :: "string list \<Rightarrow> string" where
  "join parts =
     (let ps = filter (\<lambda>p. p \<noteq> []) parts
      in if ps = [] then ''.'' else normalize (join_with ''/'' ps))"

definition strip_slashes :: "string \<Rightarrow> string" where
  "strip_slashes p = rev (dropWhile (\<lambda>c. c = CHR ''/'') (rev p))"

definition last_component :: "string \<Rightarrow> string" where
  "last_component t = rev (takeWhile (\<lambda>c. c \<noteq> CHR ''/'') (rev t))"

definition dirname :: "string \<Rightarrow> string" where
  "dirname p =
     (if p = [] then ''.''
      else
        let hasRoot = (hd p = CHR ''/'');
            t = strip_slashes (tl p)
        in if CHR ''/'' \<notin> set t then (if hasRoot then ''/'' else ''.'')
           else
             let end = length t - length (last_component t)
             in if hasRoot \<and> end = 1 then ''//'' else take end p)"

text \<open>
  \<open>basename(p, ext)\<close>: the last component of the path, without \<open>ext\<close> when the
  component ends with it and is longer than it. The two odd cases of Node's loop are
  kept: a path of slashes only is returned whole, and a component that is a proper end
  piece of \<open>ext\<close> keeps the slashes that follow it.
\<close>

definition basename :: "string \<Rightarrow> string \<Rightarrow> string" where
  "basename p ext =
     (let t = strip_slashes p; comp = last_component t
      in if ext \<noteq> [] \<and> length ext \<le> length p then
           (if ext = p then []
            else if t = [] then p
            else if endsWith comp ext \<and> comp \<noteq> ext
              then take (length comp - length ext) comp
            else if endsWith ext comp \<and> comp \<noteq> ext
              then drop (length t - length comp) p
            else comp)
         else comp)"

section \<open>JSON values and the file system\<close>

datatype json =
    JNull
  | JBool bool
  | JNum int
  | JStr string
  | JArr "json list"
  | JObj "(string \<times> json) list"

datatype exn =
    SystemError string
  | SyntaxError
  | TypeError string
  | PlainError string

text \<open>
  The text of a file is kept up to what \<open>JSON.parse\<close> makes of it: \<open>JsonText v\<close> is
  a text that parses to the value \<open>v\<close>, \<open>PlainText s\<close> a text \<open>s\<close> that
  \<open>JSON.parse\<close> rejects (markdown files are kept as \<open>PlainText\<close> too; nothing parses them). \<open>JSON.stringify\<close> of a value built from objects, arrays,
  strings, numbers and booleans gives a text that parses back to that value; the
  values it refuses (cycles, BigInt) are not values of \<^typ>\<open>json\<close>.
\<close>

datatype file_text = JsonText json | PlainText string

definition JSON_stringify :: "json \<Rightarrow> exn + file_text" where
  "JSON_stringify v = Inr (JsonText v)"

fun JSON_parse :: "file_text \<Rightarrow> exn + json" where
  "JSON_parse (JsonText v) = Inr v"
| "JSON_parse (PlainText s) = Inl SyntaxError"

text \<open>
  Reading a property of a parsed value: \<open>null.k\<close> raises a TypeError, an object gives
  its member or \<open>undefined\<close> (\<open>None\<close>), and a boolean, number, string or array has
  none of the properties the cache reads.
\<close>

fun get_prop :: "json \<Rightarrow> string \<Rightarrow> exn + json option" where
  "get_prop JNull k = Inl (TypeError (''Cannot read properties of null (reading '' @ k @ '')''))"
| "get_prop (JObj kvs) k = Inr (map_of kvs k)"
| "get_prop v k = Inr None"

text \<open>
  What a failing \<open>writeFileSync\<close> leaves behind: nothing changed, or the file holding
  an incomplete text.
\<close>

datatype write_fault = Refused | Truncated string

datatype diag = Warn string | Success string | Info string

text \<open>
  The world a call runs in: the regular files with their texts, the directories, the
  operations the operating system will refuse, the \<open>DEBUG\<close> environment variable and
  what was printed so far.
\<close>

record sys =
  files :: "(string \<times> file_text) list"
  dirs :: "string list"
  mkdir_fails :: "string \<Rightarrow> bool"
  write_fault :: "string \<Rightarrow> write_fault option"
  read_fails :: "string \<Rightarrow> bool"
  unlink_fails :: "string \<Rightarrow> bool"
  env_DEBUG :: "string option"
  console :: "diag list"

type_synonym 'a io = "sys \<Rightarrow> (exn + 'a) \<times> sys"

definition return :: "'a \<Rightarrow> 'a io" where
  "return x = (\<lambda>s. (Inr x, s))"

definition throw :: "exn \<Rightarrow> 'a io" where
  "throw e = (\<lambda>s. (Inl e, s))"

definition bind :: "'a io \<Rightarrow> ('a \<Rightarrow> 'b io) \<Rightarrow> 'b io" where
  "bind m f = (\<lambda>s. case m s of (Inl e, s') \<Rightarrow> (Inl e, s') | (Inr x, s') \<Rightarrow> f x s')"

definition try_catch :: "'a io \<Rightarrow> (exn \<Rightarrow> 'a io) \<Rightarrow> 'a io" where
  "try_catch m h = (\<lambda>s. case m s of (Inl e, s') \<Rightarrow> h e s' | (Inr x, s') \<Rightarrow> (Inr x, s'))"

definition lift :: "exn + 'a \<Rightarrow> 'a io" where
  "lift r = (\<lambda>s. (r, s))"

definition is_file :: "sys \<Rightarrow> string \<Rightarrow> bool" where
  "is_file s p = (map_of (files s) p \<noteq> None)"

text \<open>A path exists when it is a file, a directory, or lies above one of them.\<close>

definition existsSync :: "sys \<Rightarrow> string \<Rightarrow> bool" where
  "existsSync s p =
     (is_file s p \<or> p \<in> set (dirs s)
      \<or> (\<exists>q \<in> set (map fst (files s)) \<union> set (dirs s). startsWith q (p @ ''/'')))"

definition mkdirSync :: "string \<Rightarrow> unit io" where
  "mkdirSync p = (\<lambda>s.
     if mkdir_fails s p then (Inl (SystemError ''mkdir''), s)
     else (Inr (), s\<lparr>dirs := List.insert p (dirs s)\<rparr>))"

definition writeFileSync :: "string \<Rightarrow> file_text \<Rightarrow> unit io" where
  "writeFileSync p t = (\<lambda>s.
     case write_fault s p of
       None \<Rightarrow> (Inr (), s\<lparr>files := AList.update p t (files s)\<rparr>)
     | Some Refused \<Rightarrow> (Inl (SystemError ''open''), s)
     | Some (Truncated part) \<Rightarrow>
         (Inl (SystemError ''write''), s\<lparr>files := AList.update p (PlainText part) (files s)\<rparr>))"

definition readFileSync :: "string \<Rightarrow> file_text io" where
  "readFileSync p = (\<lambda>s.
     case map_of (files s) p of
       None \<Rightarrow> (Inl (SystemError ''ENOENT''), s)
     | Some t \<Rightarrow> if read_fails s p then (Inl (SystemError ''read''), s) else (Inr t, s))"

definition unlinkSync :: "string \<Rightarrow> unit io" where
  "unlinkSync p = (\<lambda>s.
     if \<not> is_file s p then (Inl (SystemError ''ENOENT''), s)
     else if unlink_fails s p then (Inl (SystemError ''unlink''), s)
     else (Inr (), s\<lparr>files := AList.delete p (files s)\<rparr>))"

definition console_warn :: "string \<Rightarrow> unit io" where
  "console_warn msg = (\<lambda>s. (Inr (), s\<lparr>console := console s @ [Warn msg]\<rparr>))"

text \<open>\<open>process.env["DEBUG"]\<close> as a condition: set and not empty.\<close>

definition debug_on :: "sys \<Rightarrow> bool" where
  "debug_on s = (case env_DEBUG s of None \<Rightarrow> False | Some v \<Rightarrow> v \<noteq> [])"

definition message :: "exn \<Rightarrow> string" where
  "message e = (case e of SystemError m \<Rightarrow> m | SyntaxError \<Rightarrow> ''Unexpected token''
                | TypeError m \<Rightarrow> m | PlainError m \<Rightarrow> m)"

section \<open>The validation cache (\<open>src/validator/cache-manager.ts\<close>)\<close>

definition CACHE_VERSION :: string where
  "CACHE_VERSION = ''1.0''"

datatype Severity = Warning | Error

record CachedValidationResult =
  compliant :: bool
  issues :: "string list"
  reason :: string
  severity :: "Severity option"

record DocumentInfo =
  doc_path :: string
  doc_type :: string
  spec_path :: string

record CacheFileData =
  version :: string
  cached_at :: string
  content_hash :: string
  document :: DocumentInfo
  result :: CachedValidationResult

record Metadata =
  documentType :: string
  specPath :: string

datatype OrphanReason = document_missing

record OrphanedCacheFile =
  orphan_file :: string
  orphan_reason :: OrphanReason
  docName :: string
  orphan_type :: string

record CacheManager =
  cacheRoot :: string

text \<open>The objects as the JSON values \<open>JSON.stringify\<close> sees; an absent \<open>severity\<close> has no member.\<close>

definition severity_json :: "Severity \<Rightarrow> json" where
  "severity_json v = (case v of Warning \<Rightarrow> JStr ''warning'' | Error \<Rightarrow> JStr ''error'')"

definition result_json :: "CachedValidationResult \<Rightarrow> json" where
  "result_json r =
     JObj ([(''compliant'', JBool (compliant r)),
            (''issues'', JArr (map JStr (issues r))),
            (''reason'', JStr (reason r))]
           @ (case severity r of None \<Rightarrow> [] | Some v \<Rightarrow> [(''severity'', severity_json v)]))"

definition cache_json :: "CacheFileData \<Rightarrow> json" where
  "cache_json d =
     JObj [(''version'', JStr (version d)),
           (''cached_at'', JStr (cached_at d)),
           (''content_hash'', JStr (content_hash d)),
           (''document'', JObj [(''path'', JStr (doc_path (document d))),
                                (''type'', JStr (doc_type (document d))),
                                (''spec_path'', JStr (spec_path (document d)))]),
           (''result'', result_json (result d))]"

text \<open>
  \<open>sanitizeText\<close>: the characters of \<open>[\x00-\x08\x0B\x0C\x0E-\x1F\x7F]\<close> are removed,
  then every double quote becomes a single quote.
\<close>

definition is_control :: "char \<Rightarrow> bool" where
  "is_control c =
     (let n = code_unit c
      in n \<le> 8 \<or> n = 11 \<or> n = 12 \<or> (14 \<le> n \<and> n \<le> 31) \<or> n = 127)"

definition sanitizeText :: "string \<Rightarrow> string" where
  "sanitizeText text =
     map (\<lambda>c. if c = CHR 0x22 then CHR 0x27 else c) (filter (\<lambda>c. \<not> is_control c) text)"

definition cachePathFor :: "CacheManager \<Rightarrow> string \<Rightarrow> string" where
  "cachePathFor cm documentPath =
     (let relativePath =
            (if includes_str documentPath ''/content/''
             then last (split documentPath ''/content/'')
             else if startsWith documentPath ''content/'' then drop 8 documentPath
             else documentPath);
          dirPath = dirname relativePath;
          base = basename relativePath ''.md''
      in join [cacheRoot cm, dirPath, base @ ''.json''])"

text \<open>
  The \<open>try\<close> block and the \<open>catch\<close> block of \<open>write\<close>. The removal of the file
  sits in a \<open>try\<close> of its own whose \<open>catch\<close> is empty.
\<close>

definition write_try :: "string \<Rightarrow> CacheFileData \<Rightarrow> unit io" where
  "write_try cachePath cacheData =
     bind (mkdirSync (dirname cachePath)) (\<lambda>_.
     bind (lift (JSON_stringify (cache_json cacheData))) (\<lambda>json.
     bind (lift (JSON_parse json)) (\<lambda>_.
     writeFileSync cachePath json)))"

definition write_catch :: "string \<Rightarrow> exn \<Rightarrow> unit io" where
  "write_catch cachePath err =
     bind (try_catch
             (\<lambda>s. if existsSync s cachePath then unlinkSync cachePath s else (Inr (), s))
             (\<lambda>_. return ()))
       (\<lambda>_ s. if debug_on s
                then console_warn (''Warning: Failed to write cache file ('' @ message err @ '')'') s
                else (Inr (), s))"

text \<open>
  The two objects \<open>write\<close> builds: \<open>sanitizedResult\<close> and \<open>cacheData\<close>. \<open>now\<close> is
  what \<open>new Date().toISOString()\<close> returns at the call.
\<close>

definition sanitizedResult :: "CachedValidationResult \<Rightarrow> CachedValidationResult" where
  "sanitizedResult res =
     res\<lparr>reason := sanitizeText (reason res), issues := map sanitizeText (issues res)\<rparr>"

definition cacheData :: "string \<Rightarrow> string \<Rightarrow> string \<Rightarrow> CachedValidationResult \<Rightarrow> Metadata \<Rightarrow> CacheFileData" where
  "cacheData now documentPath fingerprint res metadata =
     \<lparr>version = CACHE_VERSION, cached_at = now, content_hash = fingerprint,
      document = \<lparr>doc_path = documentPath, doc_type = documentType metadata,
                  spec_path = specPath metadata\<rparr>,
      result = sanitizedResult res\<rparr>"

definition CacheManager_write ::
  "CacheManager \<Rightarrow> string \<Rightarrow> string \<Rightarrow> string \<Rightarrow> CachedValidationResult \<Rightarrow> Metadata \<Rightarrow> unit io" where
  "CacheManager_write cm now documentPath fingerprint res metadata =
     (let cachePath = cachePathFor cm documentPath
      in try_catch (write_try cachePath (cacheData now documentPath fingerprint res metadata))
           (write_catch cachePath))"

text \<open>
  \<open>read\<close> returns \<open>null\<close> (here \<open>None\<close>) or whatever the member \<open>result\<close> of the
  parsed file is; a file without that member gives \<open>undefined\<close>, which is \<open>None\<close> too.
  Again the \<open>try\<close> block and the \<open>catch\<close> block come first.
\<close>

definition read_try :: "string \<Rightarrow> string \<Rightarrow> json option io" where
  "read_try cachePath fingerprint =
     bind (readFileSync cachePath) (\<lambda>raw.
     bind (lift (JSON_parse raw)) (\<lambda>cached.
     bind (lift (get_prop cached ''version'')) (\<lambda>v.
       if v \<noteq> Some (JStr CACHE_VERSION) then return None
       else
         bind (lift (get_prop cached ''content_hash'')) (\<lambda>h.
           if h \<noteq> Some (JStr fingerprint) then return None
           else lift (get_prop cached ''result'')))))"

definition read_catch :: "string \<Rightarrow> exn \<Rightarrow> json option io" where
  "read_catch cachePath err =
     bind (try_catch (unlinkSync cachePath) (\<lambda>_. return ()))
       (\<lambda>_ s. if debug_on s
                then bind (console_warn (''Warning: Removed corrupt cache file '' @ cachePath
                             @ '' ('' @ message err @ '')'')) (\<lambda>_. return None) s
                else (Inr None, s))"

definition CacheManager_read :: "CacheManager \<Rightarrow> string \<Rightarrow> string \<Rightarrow> json option io" where
  "CacheManager_read cm documentPath fingerprint =
     (let cachePath = cachePathFor cm documentPath
      in (\<lambda>s.
        if \<not> existsSync s cachePath then (Inr None, s)
        else try_catch (read_try cachePath fingerprint) (read_catch cachePath) s))"

text \<open>An I/O failure during \<open>write\<close>: the directory or the file is refused.\<close>

definition write_fails :: "sys \<Rightarrow> string \<Rightarrow> bool" where
  "write_fails s cachePath =
     (mkdir_fails s (dirname cachePath) \<or> write_fault s cachePath \<noteq> None)"

subsection \<open>Orphan discovery\<close>

text \<open>
  \<open>fast-glob\<close> with its defaults (files only, no dot files, case sensitive) and
  \<open>absolute: true\<close>, for the two patterns the cache uses: \<open>**/*.json\<close> (any depth)
  and \<open>*.md\<close> (the directory itself). \<open>cwd\<close> and the paths of the files are absolute
  and normalised.
\<close>

definition visible :: "string \<Rightarrow> bool" where
  "visible seg = (seg \<noteq> [] \<and> hd seg \<noteq> CHR ''.'')"

definition fg_sync_deep :: "string \<Rightarrow> string \<Rightarrow> sys \<Rightarrow> string list" where
  "fg_sync_deep ext cwd s =
     filter (\<lambda>p. startsWith p (cwd @ ''/'') \<and>
               (let segs = split (drop (length cwd + 1) p) ''/''
                in list_all visible segs \<and> endsWith (last segs) ext))
       (map fst (files s))"

definition fg_sync_flat :: "string \<Rightarrow> string \<Rightarrow> sys \<Rightarrow> string list" where
  "fg_sync_flat ext cwd s =
     filter (\<lambda>p. startsWith p (cwd @ ''/'') \<and>
               (let segs = split (drop (length cwd + 1) p) ''/''
                in length segs = 1 \<and> list_all visible segs \<and> endsWith (last segs) ext))
       (map fst (files s))"

definition documentTypes :: "(string \<times> string) list" where
  "documentTypes =
     [(''roles'', ''roles/README.md''),
      (''responsibilities'', ''responsibilities/README.md''),
      (''reference'', ''reference/README.md''),
      (''context/conventions'', ''context/conventions/README.md''),
      (''context/constitution'', ''context/constitution/README.md'')]"

fun docs_loop :: "string \<Rightarrow> string list \<Rightarrow> string list \<Rightarrow> string list" where
  "docs_loop ty [] documents = documents"
| "docs_loop ty (docPath # rest) documents =
     (let base = basename docPath ''.md''
      in if base = ''README'' \<or> startsWith base ''_'' then docs_loop ty rest documents
         else
           let normalizedType = last (split ty ''/'')
           in docs_loop ty rest (List.insert (normalizedType @ ''/'' @ base) documents))"

fun types_loop :: "sys \<Rightarrow> string \<Rightarrow> (string \<times> string) list \<Rightarrow> string list \<Rightarrow> string list" where
  "types_loop s contentDir [] documents = documents"
| "types_loop s contentDir ((ty, readme) # rest) documents =
     (let typeDir = join [contentDir, ty]
      in if \<not> existsSync s typeDir then types_loop s contentDir rest documents
         else types_loop s contentDir rest (docs_loop ty (fg_sync_flat ''.md'' typeDir s) documents))"

definition buildDocumentMap :: "sys \<Rightarrow> string \<Rightarrow> string list" where
  "buildDocumentMap s contentDir = types_loop s contentDir documentTypes []"

fun orphans_loop :: "CacheManager \<Rightarrow> string list \<Rightarrow> string list \<Rightarrow> OrphanedCacheFile list" where
  "orphans_loop cm validDocuments [] = []"
| "orphans_loop cm validDocuments (cacheFile # rest) =
     (let docName = basename cacheFile ''.json'';
          relativePath = replace_first cacheFile (cacheRoot cm @ ''/'') [];
          ty = hd (split relativePath ''/'');
          docKey = ty @ ''/'' @ docName
      in if docKey \<notin> set validDocuments
         then \<lparr>orphan_file = cacheFile, orphan_reason = document_missing, docName = docName,
               orphan_type = ty\<rparr> # orphans_loop cm validDocuments rest
         else orphans_loop cm validDocuments rest)"

definition orphanedCacheFiles :: "CacheManager \<Rightarrow> string \<Rightarrow> sys \<Rightarrow> OrphanedCacheFile list" where
  "orphanedCacheFiles cm contentDir s =
     orphans_loop cm (buildDocumentMap s contentDir) (fg_sync_deep ''.json'' (cacheRoot cm) s)"

subsection \<open>The fingerprint\<close>

text \<open>
  \<open>createHash("sha256").update(text).digest("hex")\<close>: SHA-256 (FIPS 180-4) of the
  UTF-8 encoding of the text, as 64 lower-case hexadecimal digits.
\<close>

type_synonym u32 = "32 word"

type_synonym hash_state = "u32 \<times> u32 \<times> u32 \<times> u32 \<times> u32 \<times> u32 \<times> u32 \<times> u32"

definition utf8 :: "string \<Rightarrow> 8 word list" where
  "utf8 s =
     concat (map (\<lambda>c. let n = code_unit c
                       in if n < 128 then [of_nat n]
                          else [of_nat (192 + n div 64), of_nat (128 + n mod 64)]) s)"

definition rotr :: "nat \<Rightarrow> u32 \<Rightarrow> u32" where
  "rotr n x = drop_bit n x OR push_bit (32 - n) x"

definition Ch :: "u32 \<Rightarrow> u32 \<Rightarrow> u32 \<Rightarrow> u32" where
  "Ch x y z = (x AND y) XOR (NOT x AND z)"

definition Maj :: "u32 \<Rightarrow> u32 \<Rightarrow> u32 \<Rightarrow> u32" where
  "Maj x y z = (x AND y) XOR (x AND z) XOR (y AND z)"

definition Sigma0 :: "u32 \<Rightarrow> u32" where
  "Sigma0 x = rotr 2 x XOR rotr 13 x XOR rotr 22 x"

definition Sigma1 :: "u32 \<Rightarrow> u32" where
  "Sigma1 x = rotr 6 x XOR rotr 11 x XOR rotr 25 x"

definition sigma0 :: "u32 \<Rightarrow> u32" where
  "sigma0 x = rotr 7 x XOR rotr 18 x XOR drop_bit 3 x"

definition sigma1 :: "u32 \<Rightarrow> u32" where
  "sigma1 x = rotr 17 x XOR rotr 19 x XOR drop_bit 10 x"

text \<open>The round constants of the standard, one row for every eight rounds.\<close>

definition K256 :: "u32 list" where
  "K256 =
     concat [
      [0x428a2f98, 0x71374491, 0xb5c0fbcf, 0xe9b5dba5, 0x3956c25b, 0x59f111f1, 0x923f82a4, 0xab1c5ed5],
      [0xd807aa98, 0x12835b01, 0x243185be, 0x550c7dc3, 0x72be5d74, 0x80deb1fe, 0x9bdc06a7, 0xc19bf174],
      [0xe49b69c1, 0xefbe4786, 0x0fc19dc6, 0x240ca1cc, 0x2de92c6f, 0x4a7484aa, 0x5cb0a9dc, 0x76f988da],
      [0x983e5152, 0xa831c66d, 0xb00327c8, 0xbf597fc7, 0xc6e00bf3, 0xd5a79147, 0x06ca6351, 0x14292967],
      [0x27b70a85, 0x2e1b2138, 0x4d2c6dfc, 0x53380d13, 0x650a7354, 0x766a0abb, 0x81c2c92e, 0x92722c85],
      [0xa2bfe8a1, 0xa81a664b, 0xc24b8b70, 0xc76c51a3, 0xd192e819, 0xd6990624, 0xf40e3585, 0x106aa070],
      [0x19a4c116, 0x1e376c08, 0x2748774c, 0x34b0bcb5, 0x391c0cb3, 0x4ed8aa4a, 0x5b9cca4f, 0x682e6ff3],
      [0x748f82ee, 0x78a5636f, 0x84c87814, 0x8cc70208, 0x90befffa, 0xa4506ceb, 0xbef9a3f7, 0xc67178f2]]"

definition H256 :: hash_state where
  "H256 = (0x6a09e667, 0xbb67ae85, 0x3c6ef372, 0xa54ff53a,
           0x510e527f, 0x9b05688c, 0x1f83d9ab, 0x5be0cd19)"

text \<open>The message schedule, newest word first: 48 words are added to the 16 of the block.\<close>

fun schedule :: "nat \<Rightarrow> u32 list \<Rightarrow> u32 list" where
  "schedule 0 ws = ws"
| "schedule (Suc n) ws =
     schedule n ((sigma1 (ws ! 1) + ws ! 6 + sigma0 (ws ! 14) + ws ! 15) # ws)"

definition sha_round :: "hash_state \<Rightarrow> u32 \<times> u32 \<Rightarrow> hash_state" where
  "sha_round st kw =
     (case st of (a, b, c, d, e, f, g, h) \<Rightarrow>
        (case kw of (k, w) \<Rightarrow>
           (let t1 = h + Sigma1 e + Ch e f g + k + w;
                t2 = Sigma0 a + Maj a b c
            in (t1 + t2, a, b, c, d + t1, e, f, g))))"

definition add_state :: "hash_state \<Rightarrow> hash_state \<Rightarrow> hash_state" where
  "add_state s t =
     (case s of (a, b, c, d, e, f, g, h) \<Rightarrow>
        (case t of (a', b', c', d', e', f', g', h') \<Rightarrow>
           (a + a', b + b', c + c', d + d', e + e', f + f', g + g', h + h')))"

definition compress :: "hash_state \<Rightarrow> u32 list \<Rightarrow> hash_state" where
  "compress hs block =
     add_state hs (foldl sha_round hs (zip K256 (rev (schedule 48 (rev block)))))"

definition be32 :: "8 word list \<Rightarrow> u32" where
  "be32 bs = foldl (\<lambda>acc b. push_bit 8 acc OR ucast b) 0 bs"

fun chunks :: "nat \<Rightarrow> nat \<Rightarrow> 'a list \<Rightarrow> 'a list list" where
  "chunks 0 k xs = []"
| "chunks (Suc n) k xs = take k xs # chunks n k (drop k xs)"

definition pad :: "8 word list \<Rightarrow> 8 word list" where
  "pad m =
     (let l = length m; z = (55 + 64 - l mod 64) mod 64
      in m @ [0x80] @ replicate z 0
           @ map (\<lambda>i. ucast (drop_bit (8 * (7 - i)) (of_nat (8 * l) :: 64 word))) [0..<8])"

definition sha256 :: "8 word list \<Rightarrow> hash_state" where
  "sha256 m =
     (let p = pad m
      in foldl (\<lambda>hs b. compress hs (map be32 (chunks 16 4 b))) H256
           (chunks (length p div 64) 64 p))"

definition hexdigit :: "nat \<Rightarrow> char" where
  "hexdigit n = ''0123456789abcdef'' ! (n mod 16)"

definition hex32 :: "u32 \<Rightarrow> string" where
  "hex32 w = map (\<lambda>i. hexdigit (unat (drop_bit (4 * (7 - i)) w AND 15))) [0..<8]"

fun state_words :: "hash_state \<Rightarrow> u32 list" where
  "state_words (a, b, c, d, e, f, g, h) = [a, b, c, d, e, f, g, h]"

definition sha256_hex :: "string \<Rightarrow> string" where
  "sha256_hex text = concat (map hex32 (state_words (sha256 (utf8 text))))"

definition contentHash :: "string \<Rightarrow> string \<Rightarrow> string" where
  "contentHash documentContent readmeContent =
     take 8 (sha256_hex (documentContent @ readmeContent))"

section \<open>Parsing the reply of the remote check (\<open>document-validator.ts\<close>)\<close>









section \<open>The role compiler (\<open>src/compiler/role-compiler.ts\<close>)\<close>

text \<open>
  What the manifest reader hands over. \<open>frontmatter.ts\<close>, \<open>markdown.ts\<close> and
  \<open>glob-expander.ts\<close> are not among the sources, so their results are inputs here:
  the values \<open>fm.value\<close> and \<open>fm.array\<close> return, the raw value of the key
  \<open>constitution\<close>, the three functions of the expander, and \<open>body_of p\<close> for
  \<open>new Markdown(p).body()\<close>. \<open>logger.warn\<close>, \<open>success\<close> and \<open>info\<close> append
  to the console.
\<close>

datatype yaml = YUndefined | YNull | YBool bool | YStr string | YSeq "string list"

definition truthy :: "yaml \<Rightarrow> bool" where
  "truthy v = (case v of YUndefined \<Rightarrow> False | YNull \<Rightarrow> False | YBool b \<Rightarrow> b
               | YStr t \<Rightarrow> t \<noteq> [] | YSeq _ \<Rightarrow> True)"

record Frontmatter =
  fm_alias :: "string option"
  fm_description :: "string option"
  fm_agent_tools :: "string option"
  fm_agent_model :: "string option"
  fm_agent_permission_mode :: "string option"
  fm_constitution :: yaml
  fm_responsibilities :: "string list"
  fm_context :: "string list"
  fm_refs :: "string list"

record GlobExpander =
  isGlob :: "string \<Rightarrow> bool"
  expand :: "string \<Rightarrow> string list"
  expandAll :: "string list \<Rightarrow> string list"

record AgentMetadata =
  name :: string
  description :: string
  tools :: "string option"
  model :: "string option"
  permissionMode :: "string option"

record PraxisConfig =
  agentProfilesOutputDir :: "string option"
  plugins :: "string list"
  pluginsOutputDir :: string
  pluginName :: string

record RoleCompiler =
  root :: string
  config :: PraxisConfig
  globExpander :: GlobExpander
  body_of :: "string \<Rightarrow> string"

definition logger_warn :: "string \<Rightarrow> unit io" where
  "logger_warn msg = (\<lambda>s. (Inr (), s\<lparr>console := console s @ [Warn msg]\<rparr>))"

definition logger_success :: "string \<Rightarrow> unit io" where
  "logger_success msg = (\<lambda>s. (Inr (), s\<lparr>console := console s @ [Success msg]\<rparr>))"

definition logger_info :: "string \<Rightarrow> unit io" where
  "logger_info msg = (\<lambda>s. (Inr (), s\<lparr>console := console s @ [Info msg]\<rparr>))"

text \<open>A value of \<open>fm.value\<close> used as a condition: present and not empty.\<close>

definition present :: "string option \<Rightarrow> bool" where
  "present v = (case v of None \<Rightarrow> False | Some t \<Rightarrow> t \<noteq> [])"

text \<open>
  Modelled from the spec: \<open>glob-expander.ts\<close> (the class \<open>GlobExpander\<close>) is not
  among the sources. Section 4.2 of the specification: \<open>expand\<close> gives the relative
  paths that exist in the tree under the root and match the pattern; a literal pattern
  is returned as a single-element result if the path exists, and as the empty result if
  it does not; \<open>expandAll\<close> concatenates the results of the patterns in the order of
  their declaration and removes duplicates across the whole set, the first occurrence
  staying. The specification leaves the query of the file system to an external
  capability: \<open>is_glob\<close> says which patterns are glob patterns, \<open>glob_query\<close> gives
  the paths a glob pattern matches, in lexicographic order. \<open>s\<close> is the world whose
  files the expander sees.
\<close>

definition new_GlobExpander ::
  "(string \<Rightarrow> bool) \<Rightarrow> (string \<Rightarrow> string list) \<Rightarrow> string \<Rightarrow> sys \<Rightarrow> GlobExpander" where
  "new_GlobExpander is_glob glob_query rt s =
     (let expand_one = (\<lambda>pattern.
            if is_glob pattern
            then filter (\<lambda>p. existsSync s (join [rt, p])) (glob_query pattern)
            else if existsSync s (join [rt, pattern]) then [pattern] else [])
      in \<lparr>isGlob = is_glob, expand = expand_one,
          expandAll = (\<lambda>patterns. rev (remdups (rev (concat (map expand_one patterns)))))\<rparr>)"

subsection \<open>Agent metadata\<close>

text \<open>
  \<open>replace(/[^a-z0-9]+/g, "-")\<close>: \<open>in_run\<close> says that the character before belongs
  to a run that has its hyphen already.
\<close>

fun collapse_runs :: "bool \<Rightarrow> string \<Rightarrow> string" where
  "collapse_runs in_run [] = []"
| "collapse_runs in_run (c # cs) =
     (if is_lower_alnum c then c # collapse_runs False cs
      else if in_run then collapse_runs True cs
      else CHR ''-'' # collapse_runs True cs)"

text \<open>\<open>replace(/^-|-$/g, "")\<close>: one hyphen at the start and one at the end.\<close>

definition strip_hyphens :: "string \<Rightarrow> string" where
  "strip_hyphens t =
     (let u = (case t of c # cs \<Rightarrow> if c = CHR ''-'' then cs else t | [] \<Rightarrow> [])
      in if u \<noteq> [] \<and> last u = CHR ''-'' then butlast u else u)"

definition agent_name :: "string \<Rightarrow> string" where
  "agent_name roleAlias = strip_hyphens (collapse_runs False (toLowerCase roleAlias))"

definition buildAgentMetadata :: "Frontmatter \<Rightarrow> string \<Rightarrow> AgentMetadata option io" where
  "buildAgentMetadata fm roleAlias =
     (if \<not> present (fm_description fm)
      then bind (logger_warn ''No description found in role, skipping agent metadata'')
             (\<lambda>_. return None)
      else return (Some
        \<lparr>name = agent_name roleAlias,
         description = the (fm_description fm),
         tools = (if present (fm_agent_tools fm) then fm_agent_tools fm else None),
         model = (if present (fm_agent_model fm) then fm_agent_model fm else None),
         permissionMode =
           (if present (fm_agent_permission_mode fm) then fm_agent_permission_mode fm else None)\<rparr>))"

subsection \<open>Inlining the reference groups\<close>

text \<open>
  The \<open>map\<close> and \<open>filter\<close> at the end of \<open>inlineRefs\<close> and of
  \<open>inlineConstitution\<close>: a path without a file is reported and left out. The two
  differ in the words of the warning only, which are the first argument.
\<close>

fun inline_paths :: "string \<Rightarrow> RoleCompiler \<Rightarrow> string list \<Rightarrow> string list io" where
  "inline_paths what rc [] = return []"
| "inline_paths what rc (relPath # rest) =
     (let fullPath = join [root rc, relPath]
      in (\<lambda>s.
        if \<not> existsSync s fullPath
        then bind (logger_warn (what @ relPath)) (\<lambda>_. inline_paths what rc rest) s
        else bind (inline_paths what rc rest) (\<lambda>bodies. return (body_of rc fullPath # bodies)) s))"

fun zero_match_loop :: "RoleCompiler \<Rightarrow> string list \<Rightarrow> unit io" where
  "zero_match_loop rc [] = return ()"
| "zero_match_loop rc (pattern # rest) =
     (if isGlob (globExpander rc) pattern \<and> length (expand (globExpander rc) pattern) = 0
      then bind (logger_warn (''Glob pattern matched zero files: '' @ pattern))
             (\<lambda>_. zero_match_loop rc rest)
      else zero_match_loop rc rest)"

definition inlineRefs :: "RoleCompiler \<Rightarrow> string list \<Rightarrow> string list io" where
  "inlineRefs rc patterns =
     bind (zero_match_loop rc patterns) (\<lambda>_.
       inline_paths ''Referenced file not found: '' rc (expandAll (globExpander rc) patterns))"

definition deprecation_message :: string where
  "deprecation_message =
     ''constitution: true is deprecated. Use an explicit path like: constitution: ''
     @ [CHR 0x22] @ ''context/constitution/*.md'' @ [CHR 0x22]"

definition resolveConstitutionPatterns :: "RoleCompiler \<Rightarrow> yaml \<Rightarrow> string list io" where
  "resolveConstitutionPatterns rc raw =
     (if \<not> truthy raw then return []
      else if raw = YBool True then
        bind (logger_warn deprecation_message) (\<lambda>_. return [])
      else
        let patterns = (case raw of YSeq ps \<Rightarrow> ps | YStr p \<Rightarrow> [p] | _ \<Rightarrow> [])
        in return (expandAll (globExpander rc) patterns))"

definition inlineConstitution :: "RoleCompiler \<Rightarrow> Frontmatter \<Rightarrow> string list io" where
  "inlineConstitution rc fm =
     (let raw = fm_constitution fm
      in bind (resolveConstitutionPatterns rc raw) (\<lambda>expanded.
         bind (if truthy raw \<and> raw \<noteq> YBool True \<and> length expanded = 0
               then logger_warn ''Constitution patterns matched zero files''
               else return ()) (\<lambda>_.
         inline_paths ''Constitution file not found: '' rc expanded)))"

subsection \<open>The profile\<close>

text \<open>
  Modelled from the spec: \<open>output-builder.ts\<close> (the class \<open>OutputBuilder\<close>) is not
  among the sources. Section 4.4 of the specification, step 5: sections are emitted as
  \<open># <SectionName>\<close> followed by each inlined body, blank-line separated, and a
  section that collected no body is omitted entirely; section 3 gives the order Role,
  Responsibilities, Constitution, Context, Reference.
\<close>

record OutputBuilder =
  role_bodies :: "string list"
  responsibilities_bodies :: "string list"
  constitution_bodies :: "string list"
  context_bodies :: "string list"
  reference_bodies :: "string list"

definition blank_line :: string where
  "blank_line = [CHR 0x0A, CHR 0x0A]"

definition render_section :: "string \<times> string list \<Rightarrow> string" where
  "render_section sec = join_with blank_line ((''# '' @ fst sec) # snd sec)"

definition buildProfile :: "OutputBuilder \<Rightarrow> string" where
  "buildProfile b =
     join_with blank_line
       (map render_section
          (filter (\<lambda>sec. snd sec \<noteq> [])
             [(''Role'', role_bodies b),
              (''Responsibilities'', responsibilities_bodies b),
              (''Constitution'', constitution_bodies b),
              (''Context'', context_bodies b),
              (''Reference'', reference_bodies b)]))"

definition buildRoleProfile ::
  "RoleCompiler \<Rightarrow> string \<Rightarrow> Frontmatter \<Rightarrow> string \<Rightarrow> (string \<times> AgentMetadata option) io" where
  "buildRoleProfile rc roleFile fm roleAlias =
     bind (buildAgentMetadata fm roleAlias) (\<lambda>metadata.
     bind (inlineRefs rc (fm_responsibilities fm)) (\<lambda>rs.
     bind (inlineConstitution rc fm) (\<lambda>cs.
     bind (inlineRefs rc (fm_context fm)) (\<lambda>xs.
     bind (inlineRefs rc (fm_refs fm)) (\<lambda>fs.
       return
         (buildProfile
            \<lparr>role_bodies = [body_of rc roleFile], responsibilities_bodies = rs,
             constitution_bodies = cs, context_bodies = xs, reference_bodies = fs\<rparr>,
          metadata))))))"

subsection \<open>The plugin registry (\<open>plugin-registry.ts\<close>) and the Claude Code plugin\<close>

text \<open>
  \<open>PLUGINS[name]\<close> reads a property of an object literal with the one key
  \<open>claude-code\<close>. Like every object it inherits the properties of
  \<open>Object.prototype\<close>: \<open>constructor\<close> is the function \<open>Object\<close>, whose \<open>new\<close>
  returns the options object it is given; the others are values \<open>new\<close> rejects.
\<close>

datatype plugin_constructor = ClaudeCodePlugin_class | Object_function | Not_a_constructor

datatype CompilerPlugin = ClaudeCodePlugin string | OptionsObject

definition object_prototype_names :: "string list" where
  "object_prototype_names =
     [''__defineGetter__'', ''__defineSetter__'', ''hasOwnProperty'', ''__lookupGetter__'',
      ''__lookupSetter__'', ''isPrototypeOf'', ''propertyIsEnumerable'', ''toString'',
      ''valueOf'', ''__proto__'', ''toLocaleString'']"

definition PLUGINS_keys :: "string list" where
  "PLUGINS_keys = [''claude-code'']"

definition PLUGINS :: "string \<Rightarrow> plugin_constructor option" where
  "PLUGINS nm =
     (if nm = ''claude-code'' then Some ClaudeCodePlugin_class
      else if nm = ''constructor'' then Some Object_function
      else if nm \<in> set object_prototype_names then Some Not_a_constructor
      else None)"

text \<open>The constructor of \<open>ClaudeCodePlugin\<close>; it only computes the output directory.\<close>

definition new_ClaudeCodePlugin :: "string \<Rightarrow> string \<Rightarrow> string \<Rightarrow> CompilerPlugin" where
  "new_ClaudeCodePlugin rt outDir plugName =
     ClaudeCodePlugin
       (if outDir \<noteq> [] then join [outDir, plugName, ''agents'']
        else join [rt, ''plugins'', plugName, ''agents''])"

fun resolvePlugins :: "string list \<Rightarrow> string \<Rightarrow> string \<Rightarrow> string \<Rightarrow> exn + CompilerPlugin list" where
  "resolvePlugins [] rt outDir plugName = Inr []"
| "resolvePlugins (nm # rest) rt outDir plugName =
     (case PLUGINS nm of
        None \<Rightarrow>
          Inl (PlainError (''Unknown plugin: '' @ [CHR 0x22] @ nm @ [CHR 0x22]
                           @ ''. Available plugins: '' @ join_with '', '' PLUGINS_keys))
      | Some Not_a_constructor \<Rightarrow> Inl (TypeError ''Constructor is not a constructor'')
      | Some ctor \<Rightarrow>
          (case resolvePlugins rest rt outDir plugName of
             Inl e \<Rightarrow> Inl e
           | Inr ps \<Rightarrow>
               Inr ((case ctor of ClaudeCodePlugin_class \<Rightarrow> new_ClaudeCodePlugin rt outDir plugName
                     | _ \<Rightarrow> OptionsObject) # ps)))"

text \<open>\<open>/[:\[\]{}#&*!|>'"%@`\\]/.test(str) || str.includes("\n")\<close>\<close>

definition needs_quotes :: "string \<Rightarrow> bool" where
  "needs_quotes str =
     (\<exists>c \<in> set str. c \<in> set ('':[]{}#&*!|>%@'' @ [CHR 0x27, CHR 0x22, CHR 0x60, CHR 0x5C, CHR 0x0A]))"

definition quoteIfNeeded :: "string \<Rightarrow> string" where
  "quoteIfNeeded str =
     (if needs_quotes str
      then [CHR 0x22]
           @ concat (map (\<lambda>c. if c = CHR 0x5C then [CHR 0x5C, CHR 0x5C]
                               else if c = CHR 0x22 then [CHR 0x5C, CHR 0x22] else [c]) str)
           @ [CHR 0x22]
      else str)"

definition optional_line :: "string \<Rightarrow> string option \<Rightarrow> string list" where
  "optional_line label v = (if present v then [label @ the v] else [])"

definition buildFrontmatter :: "AgentMetadata option \<Rightarrow> string option" where
  "buildFrontmatter metadata =
     (case metadata of
        None \<Rightarrow> None
      | Some m \<Rightarrow>
          if name m = [] \<or> description m = [] then None
          else Some (join_with [CHR 0x0A]
                 ([''---'', ''name: '' @ name m, ''description: '' @ quoteIfNeeded (description m)]
                  @ optional_line ''tools: '' (tools m)
                  @ optional_line ''model: '' (model m)
                  @ optional_line ''permissionMode: '' (permissionMode m)
                  @ [''---''])))"

fun plugin_compile :: "CompilerPlugin \<Rightarrow> string \<Rightarrow> AgentMetadata option \<Rightarrow> string \<Rightarrow> unit io" where
  "plugin_compile (ClaudeCodePlugin outputDir) profileContent metadata roleAlias =
     bind (\<lambda>s. if \<not> existsSync s outputDir then mkdirSync outputDir s else (Inr (), s)) (\<lambda>_.
       let content = (case buildFrontmatter metadata of
                        Some frontmatter \<Rightarrow> frontmatter @ [CHR 0x0A] @ profileContent
                      | None \<Rightarrow> profileContent)
       in writeFileSync (join [outputDir, toLowerCase roleAlias @ ''.md'']) (PlainText content))"
| "plugin_compile OptionsObject profileContent metadata roleAlias =
     throw (TypeError ''plugin.compile is not a function'')"

fun plugins_loop :: "CompilerPlugin list \<Rightarrow> string \<Rightarrow> AgentMetadata option \<Rightarrow> string \<Rightarrow> unit io" where
  "plugins_loop [] profile metadata roleAlias = return ()"
| "plugins_loop (plugin # rest) profile metadata roleAlias =
     bind (plugin_compile plugin profile metadata roleAlias)
       (\<lambda>_. plugins_loop rest profile metadata roleAlias)"

subsection \<open>Writing the outputs and compiling\<close>

definition write_profile :: "RoleCompiler \<Rightarrow> string \<Rightarrow> string \<Rightarrow> unit io" where
  "write_profile rc profile roleAlias =
     (case agentProfilesOutputDir (config rc) of
        None \<Rightarrow> return ()
      | Some profilesDir \<Rightarrow>
          if profilesDir = [] then return ()
          else
            bind (\<lambda>s. if \<not> existsSync s profilesDir then mkdirSync profilesDir s else (Inr (), s))
              (\<lambda>_. writeFileSync (join [profilesDir, toLowerCase roleAlias @ ''.md''])
                      (PlainText profile)))"

definition writeOutputs :: "RoleCompiler \<Rightarrow> string \<Rightarrow> AgentMetadata option \<Rightarrow> string \<Rightarrow> unit io" where
  "writeOutputs rc profile metadata roleAlias =
     bind (write_profile rc profile roleAlias) (\<lambda>_.
     bind (lift (resolvePlugins (plugins (config rc)) (root rc)
                   (pluginsOutputDir (config rc)) (pluginName (config rc)))) (\<lambda>ps.
       plugins_loop ps profile metadata roleAlias))"

text \<open>A role file as \<open>compile\<close> and \<open>compileAll\<close> see it: its path and its front matter.\<close>

definition compile :: "RoleCompiler \<Rightarrow> string \<times> Frontmatter \<Rightarrow> string option io" where
  "compile rc role =
     (case role of (roleFile, fm) \<Rightarrow>
        if \<not> present (fm_alias fm)
        then bind (logger_warn (''No alias found in '' @ roleFile @ '', skipping''))
               (\<lambda>_. return None)
        else
          let roleAlias = the (fm_alias fm)
          in bind (buildRoleProfile rc roleFile fm roleAlias) (\<lambda>built.
             bind (writeOutputs rc (fst built) (snd built) roleAlias) (\<lambda>_.
             bind (logger_success (''Compiled '' @ toLowerCase roleAlias @ ''.md''))
               (\<lambda>_. return (Some roleAlias)))))"

definition EXCLUDED_FILES :: "string list" where
  "EXCLUDED_FILES = [''_template.md'', ''README.md'']"

fun compile_loop :: "RoleCompiler \<Rightarrow> (string \<times> Frontmatter) list \<Rightarrow> nat \<Rightarrow> nat io" where
  "compile_loop rc [] compiled = return compiled"
| "compile_loop rc ((roleFile, fm) # rest) compiled =
     (if basename roleFile [] \<in> set EXCLUDED_FILES then compile_loop rc rest compiled
      else if \<not> present (fm_alias fm) then compile_loop rc rest compiled
      else
        let roleAlias = the (fm_alias fm)
        in bind (buildRoleProfile rc roleFile fm roleAlias) (\<lambda>built.
           bind (writeOutputs rc (fst built) (snd built) roleAlias) (\<lambda>_.
           bind (logger_success (''Compiled '' @ toLowerCase roleAlias @ ''.md''))
             (\<lambda>_. compile_loop rc rest (compiled + 1)))))"

text \<open>\<open>roleFiles\<close> is the list \<open>fast-glob\<close> finds in the roles directory.\<close>

definition compileAll :: "RoleCompiler \<Rightarrow> (string \<times> Frontmatter) list \<Rightarrow> nat io" where
  "compileAll rc roleFiles =
     bind (compile_loop rc roleFiles 0) (\<lambda>compiled.
     bind (logger_info (''Compiled '' @ show_nat compiled @ '' agent(s) (up-to-date)''))
       (\<lambda>_. return compiled))"

section \<open>Notions the properties are stated with\<close>

text \<open>The world after the removal of a file was tried: gone unless it is refused.\<close>

definition unlinked :: "string \<Rightarrow> sys \<Rightarrow> sys" where
  "unlinked p s =
     (if is_file s p \<and> \<not> unlink_fails s p then s\<lparr>files := AList.delete p (files s)\<rparr> else s)"

text \<open>Two worlds that differ in what was printed only.\<close>

definition only_printed :: "sys \<Rightarrow> sys \<Rightarrow> bool" where
  "only_printed s s' = (\<exists>ws. s' = s\<lparr>console := console s @ ws\<rparr>)"

text \<open>
  For a list of resolved paths: the bodies of those whose file exists, and the
  warnings for the others.
\<close>

definition found_bodies :: "RoleCompiler \<Rightarrow> sys \<Rightarrow> string list \<Rightarrow> string list" where
  "found_bodies rc s ps =
     map (\<lambda>p. body_of rc (join [root rc, p]))
       (filter (\<lambda>p. existsSync s (join [root rc, p])) ps)"

definition missing_warnings :: "string \<Rightarrow> RoleCompiler \<Rightarrow> sys \<Rightarrow> string list \<Rightarrow> diag list" where
  "missing_warnings what rc s ps =
     map (\<lambda>p. Warn (what @ p)) (filter (\<lambda>p. \<not> existsSync s (join [root rc, p])) ps)"

definition zero_match_warnings :: "RoleCompiler \<Rightarrow> string list \<Rightarrow> diag list" where
  "zero_match_warnings rc ps =
     map (\<lambda>p. Warn (''Glob pattern matched zero files: '' @ p))
       (filter (\<lambda>p. isGlob (globExpander rc) p \<and> expand (globExpander rc) p = []) ps)"

text \<open>What \<open>inlineRefs\<close> prints for one group, and what \<open>buildAgentMetadata\<close> prints.\<close>

definition group_warnings :: "RoleCompiler \<Rightarrow> sys \<Rightarrow> string list \<Rightarrow> diag list" where
  "group_warnings rc s ps =
     zero_match_warnings rc ps
     @ missing_warnings ''Referenced file not found: '' rc s (expandAll (globExpander rc) ps)"

definition description_warning :: "Frontmatter \<Rightarrow> diag list" where
  "description_warning fm =
     (if present (fm_description fm) then []
      else [Warn ''No description found in role, skipping agent metadata''])"


fun no_double_hyphen :: "string \<Rightarrow> bool" where
  "no_double_hyphen (a # b # cs) =
     (\<not> (a = CHR ''-'' \<and> b = CHR ''-'') \<and> no_double_hyphen (b # cs))"
| "no_double_hyphen cs = True"

text \<open>A role file that \<open>compileAll\<close> passes over: an excluded name, or no alias.\<close>

definition skipped :: "string \<times> Frontmatter \<Rightarrow> bool" where
  "skipped role = (basename (fst role) [] \<in> set EXCLUDED_FILES \<or> \<not> present (fm_alias (snd role)))"

text \<open>The message of the error for an unknown plugin name.\<close>

definition unknown_plugin_message :: "string \<Rightarrow> string" where
  "unknown_plugin_message nm =
     ''Unknown plugin: '' @ [CHR 0x22] @ nm @ [CHR 0x22] @ ''. Available plugins: claude-code''"

subsection \<open>Worlds and inputs of the examples\<close>

definition quiet_world :: sys where
  "quiet_world =
     \<lparr>files = [], dirs = [], mkdir_fails = (\<lambda>_. False), write_fault = (\<lambda>_. None),
      read_fails = (\<lambda>_. False), unlink_fails = (\<lambda>_. False), env_DEBUG = None, console = []\<rparr>"

definition praxis_cache :: CacheManager where
  "praxis_cache = \<lparr>cacheRoot = ''/p/.praxis/cache/validation''\<rparr>"

definition quoted_result :: CachedValidationResult where
  "quoted_result =
     \<lparr>compliant = False, issues = [''Rename '' @ [CHR 0x22] @ ''Goal'' @ [CHR 0x22]],
      reason = ''No'', severity = Some Error\<rparr>"

definition plain_result :: CachedValidationResult where
  "plain_result = \<lparr>compliant = True, issues = [], reason = ''Yes'', severity = None\<rparr>"

definition role_metadata :: Metadata where
  "role_metadata = \<lparr>documentType = ''role'', specPath = ''content/roles/README.md''\<rparr>"

definition full_disk_world :: sys where
  "full_disk_world =
     quiet_world\<lparr>write_fault := (\<lambda>_. Some (Truncated ''{'')), env_DEBUG := Some ''1''\<rparr>"


text \<open>The same two worlds when the file system refuses to remove a file.\<close>

definition stuck_disk_world :: sys where
  "stuck_disk_world = full_disk_world\<lparr>unlink_fails := (\<lambda>_. True)\<rparr>"


text \<open>
  A cache that holds the entry of \<open>content/roles/a.md\<close> for the fingerprint
  \<open>abcd1234\<close> and whose files cannot be opened for writing; in the second world they
  cannot be removed either.
\<close>

definition stored_entry :: file_text where
  "stored_entry =
     JsonText (cache_json (cacheData ''2026-01-01T00:00:00.000Z'' ''content/roles/a.md''
                             ''abcd1234'' plain_result role_metadata))"

definition protected_world :: sys where
  "protected_world =
     quiet_world\<lparr>files := [(''/p/.praxis/cache/validation/roles/a.json'', stored_entry)],
                  write_fault := (\<lambda>_. Some Refused)\<rparr>"


definition conventions_world :: sys where
  "conventions_world =
     quiet_world\<lparr>files :=
       [(''/p/content/context/conventions/documentation.md'', PlainText ''# Documentation''),
        (''/p/content/roles/a.md'', PlainText ''# A''),
        (''/p/.praxis/cache/validation/roles/a.json'', JsonText JNull),
        (''/p/.praxis/cache/validation/roles/b.json'', JsonText JNull)]\<rparr>"

text \<open>
  The expander of the examples: a pattern is a glob pattern when it has a star, and no
  glob pattern of the examples matches a file.
\<close>

definition example_expander :: "sys \<Rightarrow> GlobExpander" where
  "example_expander s = new_GlobExpander (\<lambda>p. CHR ''*'' \<in> set p) (\<lambda>p. []) ''/p'' s"

definition example_config :: PraxisConfig where
  "example_config =
     \<lparr>agentProfilesOutputDir = Some ''/p/agent-profiles'', plugins = [''slack''],
      pluginsOutputDir = ''/p/plugins'', pluginName = ''praxis''\<rparr>"

definition example_compiler :: RoleCompiler where
  "example_compiler =
     \<lparr>root = ''/p'', config = example_config, globExpander = example_expander quiet_world,
      body_of = (\<lambda>p. ''Body of '' @ p)\<rparr>"

definition profiles_compiler :: RoleCompiler where
  "profiles_compiler = example_compiler\<lparr>config := example_config\<lparr>plugins := []\<rparr>\<rparr>"

definition project_world :: sys where
  "project_world = quiet_world\<lparr>files := [(''/p/a.md'', PlainText ''# A'')]\<rparr>"

definition project_compiler :: RoleCompiler where
  "project_compiler = example_compiler\<lparr>globExpander := example_expander project_world\<rparr>"

definition example_frontmatter :: Frontmatter where
  "example_frontmatter =
     \<lparr>fm_alias = Some ''My Agent'', fm_description = Some ''An agent'', fm_agent_tools = None,
      fm_agent_model = None, fm_agent_permission_mode = None, fm_constitution = YBool True,
      fm_responsibilities = [], fm_context = [], fm_refs = [''a.md'', ''b.md'']\<rparr>"

definition example_roles :: "(string \<times> Frontmatter) list" where
  "example_roles =
     [(''/p/content/roles/README.md'', example_frontmatter),
      (''/p/content/roles/agent.md'', example_frontmatter)]"

definition hex_digits :: "char set" where
  "hex_digits = set ''0123456789abcdef''"

section \<open>Properties of the validation cache\<close>

lemmas io_defs = bind_def try_catch_def lift_def return_def throw_def

subsection \<open>What \<open>read\<close> computes\<close>

lemma read_try_eq:
  "read_try p fp s =
     (case map_of (files s) p of
        None \<Rightarrow> (Inl (SystemError ''ENOENT''), s)
      | Some t \<Rightarrow>
          if read_fails s p then (Inl (SystemError ''read''), s)
          else (case t of
                  PlainText u \<Rightarrow> (Inl SyntaxError, s)
                | JsonText data \<Rightarrow>
                    (case get_prop data ''version'' of
                       Inl e \<Rightarrow> (Inl e, s)
                     | Inr v \<Rightarrow>
                         if v \<noteq> Some (JStr CACHE_VERSION) then (Inr None, s)
                         else (case get_prop data ''content_hash'' of
                                 Inl e \<Rightarrow> (Inl e, s)
                               | Inr h \<Rightarrow>
                                   if h \<noteq> Some (JStr fp) then (Inr None, s)
                                   else (get_prop data ''result'', s)))))"
  by (simp add: read_try_def io_defs readFileSync_def
        split: option.splits file_text.splits sum.splits)


lemma debug_on_unlinked: "debug_on (unlinked p s) = debug_on s"
  by (simp add: unlinked_def debug_on_def)

lemma map_of_unlinked:
  "map_of (files (unlinked p s)) q =
     (if q = p \<and> \<not> unlink_fails s p then None else map_of (files s) q)"
  by (auto simp: unlinked_def is_file_def delete_conv')

lemma unlinked_fields:
  "unlink_fails (unlinked p s) = unlink_fails s"
  "read_fails (unlinked p s) = read_fails s"
  "env_DEBUG (unlinked p s) = env_DEBUG s"
  "console (unlinked p s) = console s"
  by (simp_all add: unlinked_def)






subsection \<open>What \<open>write\<close> computes\<close>

lemma write_try_eq:
  "write_try p d s =
     (if mkdir_fails s (dirname p) then (Inl (SystemError ''mkdir''), s)
      else
        (case write_fault s p of
           None \<Rightarrow>
             (Inr (), s\<lparr>dirs := List.insert (dirname p) (dirs s),
                         files := AList.update p (JsonText (cache_json d)) (files s)\<rparr>)
         | Some Refused \<Rightarrow>
             (Inl (SystemError ''open''), s\<lparr>dirs := List.insert (dirname p) (dirs s)\<rparr>)
         | Some (Truncated part) \<Rightarrow>
             (Inl (SystemError ''write''),
              s\<lparr>dirs := List.insert (dirname p) (dirs s),
                files := AList.update p (PlainText part) (files s)\<rparr>)))"
  by (simp add: write_try_def io_defs mkdirSync_def writeFileSync_def JSON_stringify_def
        split: option.splits write_fault.splits)

lemma is_file_exists: "is_file s p \<Longrightarrow> existsSync s p"
  by (simp add: existsSync_def)

lemma guarded_unlink_eq:
  "try_catch (\<lambda>s. if existsSync s p then unlinkSync p s else (Inr (), s)) (\<lambda>_. return ()) s
     = (Inr (), unlinked p s)"
  using is_file_exists [of s p]
  by (auto simp: io_defs unlinkSync_def unlinked_def)

lemma write_catch_eq:
  "write_catch p e s =
     (Inr (),
      if debug_on s
      then (unlinked p s)\<lparr>console := console (unlinked p s) @
             [Warn (''Warning: Failed to write cache file ('' @ message e @ '')'')]\<rparr>
      else unlinked p s)"
  unfolding write_catch_def bind_def guarded_unlink_eq
  by (simp add: debug_on_unlinked console_warn_def)

lemma write_ok_eq:
  assumes "\<not> write_fails s (cachePathFor cm dp)"
  shows "CacheManager_write cm now dp fp res md s =
           (Inr (), s\<lparr>dirs := List.insert (dirname (cachePathFor cm dp)) (dirs s),
                       files := AList.update (cachePathFor cm dp)
                                  (JsonText (cache_json (cacheData now dp fp res md))) (files s)\<rparr>)"
  using assms
  by (auto simp: CacheManager_write_def Let_def try_catch_def write_try_eq write_fails_def)

text \<open>When the write fails, the \<open>catch\<close> block starts in a world \<open>s1\<close> that differs
  from the first one in the directories and in the file of the entry at most.\<close>

lemma write_fail_eq:
  assumes "write_fails s (cachePathFor cm dp)"
  shows "\<exists>e s1. CacheManager_write cm now dp fp res md s = write_catch (cachePathFor cm dp) e s1 \<and>
           unlink_fails s1 = unlink_fails s \<and> read_fails s1 = read_fails s \<and>
           env_DEBUG s1 = env_DEBUG s \<and> console s1 = console s \<and>
           (\<forall>q. q \<noteq> cachePathFor cm dp \<longrightarrow> map_of (files s1) q = map_of (files s) q) \<and>
           map_of (files s1) (cachePathFor cm dp)
             = (case (if mkdir_fails s (dirname (cachePathFor cm dp)) then None
                      else write_fault s (cachePathFor cm dp)) of
                  Some (Truncated part) \<Rightarrow> Some (PlainText part)
                | _ \<Rightarrow> map_of (files s) (cachePathFor cm dp))"
proof -
  let ?p = "cachePathFor cm dp"
  let ?s1 = "s\<lparr>dirs := List.insert (dirname ?p) (dirs s)\<rparr>"
  consider (mk) "mkdir_fails s (dirname ?p)"
    | (refused) "\<not> mkdir_fails s (dirname ?p)" "write_fault s ?p = Some Refused"
    | (truncated) part where "\<not> mkdir_fails s (dirname ?p)" "write_fault s ?p = Some (Truncated part)"
    using assms by (auto simp: write_fails_def) (metis write_fault.exhaust)
  then show ?thesis
  proof cases
    case mk
    then have "CacheManager_write cm now dp fp res md s = write_catch ?p (SystemError ''mkdir'') s"
      by (simp add: CacheManager_write_def Let_def try_catch_def write_try_eq)
    then show ?thesis
      using mk by (intro exI [of _ "SystemError ''mkdir''"] exI [of _ s]) simp
  next
    case refused
    then have "CacheManager_write cm now dp fp res md s = write_catch ?p (SystemError ''open'') ?s1"
      by (simp add: CacheManager_write_def Let_def try_catch_def write_try_eq)
    then show ?thesis
      using refused by (intro exI [of _ "SystemError ''open''"] exI [of _ ?s1]) simp
  next
    case truncated
    let ?s2 = "s\<lparr>dirs := List.insert (dirname ?p) (dirs s),
                  files := AList.update ?p (PlainText part) (files s)\<rparr>"
    from truncated
    have "CacheManager_write cm now dp fp res md s = write_catch ?p (SystemError ''write'') ?s2"
      by (simp add: CacheManager_write_def Let_def try_catch_def write_try_eq)
    then show ?thesis
      using truncated
      by (intro exI [of _ "SystemError ''write''"] exI [of _ ?s2]) (simp add: update_conv')
  qed
qed

lemma write_effect:
  "\<exists>s'. CacheManager_write cm now dp fp res md s = (Inr (), s') \<and>
     (\<forall>q. q \<noteq> cachePathFor cm dp \<longrightarrow> map_of (files s') q = map_of (files s) q) \<and>
     (\<not> write_fails s (cachePathFor cm dp) \<longrightarrow>
        console s' = console s \<and>
        map_of (files s') (cachePathFor cm dp)
          = Some (JsonText (cache_json (cacheData now dp fp res md)))) \<and>
     (write_fails s (cachePathFor cm dp) \<longrightarrow>
        (\<exists>m. console s' = console s @ (if debug_on s then [Warn m] else [])) \<and>
        map_of (files s') (cachePathFor cm dp)
          = (if \<not> unlink_fails s (cachePathFor cm dp) then None
             else (case (if mkdir_fails s (dirname (cachePathFor cm dp)) then None
                         else write_fault s (cachePathFor cm dp)) of
                     Some (Truncated part) \<Rightarrow> Some (PlainText part)
                   | _ \<Rightarrow> map_of (files s) (cachePathFor cm dp))))"
proof (cases "write_fails s (cachePathFor cm dp)")
  case False
  then show ?thesis by (simp add: write_ok_eq update_conv')
next
  case True
  from write_fail_eq [OF True, of now fp res md] obtain e s1 where
    w: "CacheManager_write cm now dp fp res md s = write_catch (cachePathFor cm dp) e s1"
    and u: "unlink_fails s1 = unlink_fails s"
    and d: "env_DEBUG s1 = env_DEBUG s"
    and c: "console s1 = console s"
    and f: "\<forall>q. q \<noteq> cachePathFor cm dp \<longrightarrow> map_of (files s1) q = map_of (files s) q"
    and l: "map_of (files s1) (cachePathFor cm dp)
             = (case (if mkdir_fails s (dirname (cachePathFor cm dp)) then None
                      else write_fault s (cachePathFor cm dp)) of
                  Some (Truncated part) \<Rightarrow> Some (PlainText part)
                | _ \<Rightarrow> map_of (files s) (cachePathFor cm dp))"
    by blast
  from d have dbg: "debug_on s1 = debug_on s" by (simp add: debug_on_def)
  show ?thesis
    using True f by (simp add: w write_catch_eq dbg map_of_unlinked unlinked_fields c u l)
qed

subsection \<open>Writing, then reading\<close>

lemma severity_json_inj: "severity_json a = severity_json b \<Longrightarrow> a = b"
  by (cases a; cases b) (simp_all add: severity_json_def)

lemma map_JStr_inj: "map JStr xs = map JStr ys \<Longrightarrow> xs = ys"
  by (simp add: inj_on_def)

lemma result_json_inj:
  fixes a b :: CachedValidationResult
  assumes "result_json a = result_json b"
  shows "a = b"
proof -
  from assms have "compliant a = compliant b" "issues a = issues b" "reason a = reason b"
    by (auto simp: result_json_def dest: map_JStr_inj)
  moreover from assms have "severity a = severity b"
    by (auto simp: result_json_def split: option.splits dest: severity_json_inj)
  ultimately show ?thesis by simp
qed

lemma cache_json_props:
  "get_prop (cache_json d) ''version'' = Inr (Some (JStr (version d)))"
  "get_prop (cache_json d) ''content_hash'' = Inr (Some (JStr (content_hash d)))"
  "get_prop (cache_json d) ''result'' = Inr (Some (result_json (result d)))"
  by (simp_all add: cache_json_def)

lemma read_stored:
  assumes "map_of (files s) (cachePathFor cm dp) = Some (JsonText (cache_json d))"
    and "\<not> read_fails s (cachePathFor cm dp)"
    and "version d = CACHE_VERSION" and "content_hash d = fp"
  shows "CacheManager_read cm dp fp s = (Inr (Some (result_json (result d))), s)"
proof -
  from assms(1) have "existsSync s (cachePathFor cm dp)"
    by (simp add: existsSync_def is_file_def)
  then show ?thesis
    using assms
    by (simp add: CacheManager_read_def Let_def try_catch_def read_try_eq cache_json_props)
qed

lemma write_then_read_eq:
  assumes "\<not> write_fails s (cachePathFor cm dp)" and "\<not> read_fails s (cachePathFor cm dp)"
  shows "fst (CacheManager_read cm dp fp (snd (CacheManager_write cm now dp fp res md s)))
           = Inr (Some (result_json (sanitizedResult res)))"
proof -
  let ?s' = "snd (CacheManager_write cm now dp fp res md s)"
  let ?d = "cacheData now dp fp res md"
  have "map_of (files ?s') (cachePathFor cm dp) = Some (JsonText (cache_json ?d))"
    and "\<not> read_fails ?s' (cachePathFor cm dp)"
    using assms by (simp_all add: write_ok_eq update_conv')
  moreover have "version ?d = CACHE_VERSION" "content_hash ?d = fp" "result ?d = sanitizedResult res"
    by (simp_all add: cacheData_def)
  ultimately show ?thesis
    using read_stored [of ?s' cm dp ?d fp] by simp
qed

lemma sanitizedResult_id:
  "sanitizedResult res = res \<longleftrightarrow>
     sanitizeText (reason res) = reason res \<and> map sanitizeText (issues res) = issues res"
proof
  assume "sanitizedResult res = res"
  then have "reason (sanitizedResult res) = reason res" "issues (sanitizedResult res) = issues res"
    by simp_all
  then show "sanitizeText (reason res) = reason res \<and> map sanitizeText (issues res) = issues res"
    by (simp add: sanitizedResult_def)
next
  assume "sanitizeText (reason res) = reason res \<and> map sanitizeText (issues res) = issues res"
  then show "sanitizedResult res = res"
    by (simp add: sanitizedResult_def)
qed


subsection \<open>The claims about the cache\<close>

text \<open>
  C1. Claimed: for every document path, fingerprint, metadata and outcome, \<open>write\<close>
  followed by \<open>read\<close> returns an outcome equal to the one written, the optional
  severity included. As the code has it: when neither the write nor the read is refused
  by the file system, \<open>read\<close> returns the outcome with \<open>reason\<close> and every issue
  passed through \<open>sanitizeText\<close>; the compliant flag and the severity (present or
  absent) are the written ones, and the returned outcome equals the written one exactly
  when sanitizing changes none of its texts.
\<close>

theorem write_then_read:
  assumes "\<not> write_fails s (cachePathFor cm dp)" and "\<not> read_fails s (cachePathFor cm dp)"
  shows "fst (CacheManager_read cm dp fp (snd (CacheManager_write cm now dp fp res md s)))
           = Inr (Some (result_json (sanitizedResult res))) \<and>
         compliant (sanitizedResult res) = compliant res \<and>
         severity (sanitizedResult res) = severity res \<and>
         reason (sanitizedResult res) = sanitizeText (reason res) \<and>
         issues (sanitizedResult res) = map sanitizeText (issues res) \<and>
         (fst (CacheManager_read cm dp fp (snd (CacheManager_write cm now dp fp res md s)))
            = Inr (Some (result_json res))
          \<longleftrightarrow> sanitizeText (reason res) = reason res \<and>
              map sanitizeText (issues res) = issues res)"
proof -
  have "result_json (sanitizedResult res) = result_json res \<longleftrightarrow> sanitizedResult res = res"
    using result_json_inj by auto
  then show ?thesis
    by (simp add: write_then_read_eq [OF assms] sanitizedResult_id) (simp add: sanitizedResult_def)
qed

theorem write_then_read_witness:
  "\<not> write_fails quiet_world (cachePathFor praxis_cache ''content/roles/a.md'') \<and>
   \<not> read_fails quiet_world (cachePathFor praxis_cache ''content/roles/a.md'') \<and>
   fst (CacheManager_read praxis_cache ''content/roles/a.md'' ''abcd1234''
          (snd (CacheManager_write praxis_cache ''2026-01-01T00:00:00.000Z''
                  ''content/roles/a.md'' ''abcd1234'' plain_result role_metadata quiet_world)))
     = Inr (Some (result_json plain_result))"
proof -
  have h1: "\<not> write_fails quiet_world (cachePathFor praxis_cache ''content/roles/a.md'')"
    by (simp add: write_fails_def quiet_world_def)
  have h2: "\<not> read_fails quiet_world (cachePathFor praxis_cache ''content/roles/a.md'')"
    by (simp add: quiet_world_def)
  have clean: "sanitizeText (reason plain_result) = reason plain_result \<and>
               map sanitizeText (issues plain_result) = issues plain_result"
    by code_simp
  from write_then_read [OF h1 h2, of "''abcd1234''" "''2026-01-01T00:00:00.000Z''"
      plain_result role_metadata] clean h1 h2
  show ?thesis by blast
qed

theorem write_then_read_counterexample:
  "fst (CacheManager_read praxis_cache ''content/roles/a.md'' ''abcd1234''
          (snd (CacheManager_write praxis_cache ''2026-01-01T00:00:00.000Z''
                  ''content/roles/a.md'' ''abcd1234'' quoted_result role_metadata quiet_world)))
     \<noteq> Inr (Some (result_json quoted_result))"
  by code_simp




text \<open>
  C9. Claimed: \<open>write\<close> never raises, and on any failure the partly written file
  is removed and the operation degrades to a no-op with at most a debug diagnostic. As
  the code has it: \<open>write\<close> never raises and leaves every other file as it was. A
  write that goes through stores the entry and prints nothing. When the directory or
  the file is refused, nothing is printed unless \<open>DEBUG\<close> is set, in which case one
  warning is printed, and the file at the path of the entry is removed: whatever the
  failed attempt left there, and an entry stored earlier too. The removal sits in a
  \<open>try\<close> whose \<open>catch\<close> is empty: when the file system refuses it, the path
  keeps what the attempt left, the partly written text or the earlier entry.
\<close>

theorem write_never_raises:
  "\<exists>s'. CacheManager_write cm now dp fp res md s = (Inr (), s') \<and>
     (\<forall>q. q \<noteq> cachePathFor cm dp \<longrightarrow> map_of (files s') q = map_of (files s) q) \<and>
     (\<not> write_fails s (cachePathFor cm dp) \<longrightarrow>
        console s' = console s \<and>
        map_of (files s') (cachePathFor cm dp)
          = Some (JsonText (cache_json (cacheData now dp fp res md)))) \<and>
     (write_fails s (cachePathFor cm dp) \<longrightarrow>
        (\<exists>m. console s' = console s @ (if debug_on s then [Warn m] else [])) \<and>
        map_of (files s') (cachePathFor cm dp)
          = (if \<not> unlink_fails s (cachePathFor cm dp) then None
             else (case (if mkdir_fails s (dirname (cachePathFor cm dp)) then None
                         else write_fault s (cachePathFor cm dp)) of
                     Some (Truncated part) \<Rightarrow> Some (PlainText part)
                   | _ \<Rightarrow> map_of (files s) (cachePathFor cm dp))))"
  by (rule write_effect)

theorem write_never_raises_witness:
  "write_fails full_disk_world (cachePathFor praxis_cache ''content/roles/a.md'') \<and>
   \<not> unlink_fails full_disk_world (cachePathFor praxis_cache ''content/roles/a.md'') \<and>
   fst (CacheManager_write praxis_cache ''2026-01-01T00:00:00.000Z'' ''content/roles/a.md''
          ''abcd1234'' plain_result role_metadata full_disk_world) = Inr () \<and>
   map_of (files (snd (CacheManager_write praxis_cache ''2026-01-01T00:00:00.000Z''
                         ''content/roles/a.md'' ''abcd1234'' plain_result role_metadata
                         full_disk_world)))
     (cachePathFor praxis_cache ''content/roles/a.md'') = None"
proof -
  have h1: "write_fails full_disk_world (cachePathFor praxis_cache ''content/roles/a.md'')"
    by (simp add: write_fails_def full_disk_world_def quiet_world_def)
  have h2: "\<not> unlink_fails full_disk_world (cachePathFor praxis_cache ''content/roles/a.md'')"
    by (simp add: full_disk_world_def quiet_world_def)
  from write_never_raises [of praxis_cache "''2026-01-01T00:00:00.000Z''" "''content/roles/a.md''"
      "''abcd1234''" plain_result role_metadata full_disk_world] h1 h2
  show ?thesis by auto
qed

text \<open>
  Where the claim fails. On a full disk whose file system refuses to remove files, the
  partly written file is left behind where there was none before; and where the entry
  for \<open>abcd1234\<close> is stored and the file cannot be opened for writing, the refused
  write for \<open>bbbb2222\<close> removes the stored entry instead of changing nothing.
\<close>

theorem write_never_raises_counterexample:
  "map_of (files stuck_disk_world) (cachePathFor praxis_cache ''content/roles/a.md'') = None \<and>
   map_of (files (snd (CacheManager_write praxis_cache ''2026-01-01T00:00:00.000Z''
                         ''content/roles/a.md'' ''abcd1234'' plain_result role_metadata
                         stuck_disk_world)))
     (cachePathFor praxis_cache ''content/roles/a.md'') = Some (PlainText ''{'') \<and>
   map_of (files protected_world) (cachePathFor praxis_cache ''content/roles/a.md'')
     = Some stored_entry \<and>
   map_of (files (snd (CacheManager_write praxis_cache ''2026-01-02T00:00:00.000Z''
                         ''content/roles/a.md'' ''bbbb2222'' quoted_result role_metadata
                         protected_world)))
     (cachePathFor praxis_cache ''content/roles/a.md'') = None"
  by code_simp


text \<open>
  C4. The claim says that the cache entry of every source document that still exists,
  of every known type, is omitted. Here the document
  \<open>context/conventions/documentation.md\<close> exists and its entry has just been written by
  \<open>write\<close>; \<open>orphanedCacheFiles\<close> reports it as \<open>document_missing\<close>, next to the
  entry of the deleted role \<open>b\<close> (rightly reported) and without the entry of the
  existing role \<open>a\<close> (rightly omitted). The key of a cache file is built from the first
  segment of its path under the cache root (\<open>context\<close>), the key of a document from the
  last segment of its type (\<open>conventions\<close>).
\<close>

theorem orphan_reported_for_existing_convention: "existsSync conventions_world ''/p/content/context/conventions/documentation.md'' \<and>
   orphanedCacheFiles praxis_cache ''/p/content''
     (snd (CacheManager_write praxis_cache ''2026-01-01T00:00:00.000Z''
             ''/p/content/context/conventions/documentation.md'' ''abcd1234'' plain_result
             \<lparr>documentType = ''convention'', specPath = ''/p/content/context/conventions/README.md''\<rparr>
             conventions_world))
   = [\<lparr>orphan_file = ''/p/.praxis/cache/validation/roles/b.json'',
        orphan_reason = document_missing, docName = ''b'', orphan_type = ''roles''\<rparr>,
      \<lparr>orphan_file = ''/p/.praxis/cache/validation/context/conventions/documentation.json'',
        orphan_reason = document_missing, docName = ''documentation'', orphan_type = ''context''\<rparr>]"
  by code_simp

subsection \<open>The fingerprint\<close>

lemma hexdigit_in: "hexdigit n \<in> hex_digits"
proof -
  have "n mod 16 < length ''0123456789abcdef''" by simp
  then show ?thesis unfolding hexdigit_def hex_digits_def by (rule nth_mem)
qed

lemma length_hex32: "length (hex32 w) = 8"
  by (simp add: hex32_def)

lemma set_hex32: "set (hex32 w) \<subseteq> hex_digits"
  unfolding hex32_def using hexdigit_in by auto

lemma length_state_words: "length (state_words st) = 8"
  by (cases st rule: state_words.cases) simp

lemma length_concat_hex32: "length (concat (map hex32 ws)) = 8 * length ws"
  by (induction ws) (simp_all add: length_hex32)

lemma length_sha256_hex: "length (sha256_hex t) = 64"
  by (simp add: sha256_hex_def length_concat_hex32 length_state_words)

lemma set_sha256_hex: "set (sha256_hex t) \<subseteq> hex_digits"
  unfolding sha256_hex_def using set_hex32 by fastforce

lemma length_contentHash: "length (contentHash d r) = 8"
  by (simp add: contentHash_def length_sha256_hex)

lemma set_contentHash: "set (contentHash d r) \<subseteq> hex_digits"
  unfolding contentHash_def by (rule subset_trans [OF set_take_subset set_sha256_hex])

text \<open>Eight hexadecimal digits are finitely many values, and there are infinitely many
  documents: for every specification two different documents share a fingerprint.\<close>

lemma contentHash_collides: "\<exists>d d'. d \<noteq> d' \<and> contentHash d r = contentHash d' r"
proof (rule ccontr)
  assume "\<not> ?thesis"
  then have inj: "inj (\<lambda>d. contentHash d r)"
    by (auto simp: inj_on_def)
  have "range (\<lambda>d. contentHash d r) \<subseteq> {xs. set xs \<subseteq> hex_digits \<and> length xs = 8}"
    using set_contentHash length_contentHash by auto
  moreover have "finite {xs. set xs \<subseteq> hex_digits \<and> length xs = 8}"
    by (rule finite_lists_length_eq) (simp add: hex_digits_def)
  ultimately have "finite (range (\<lambda>d. contentHash d r))"
    by (rule finite_subset)
  then have "finite (UNIV :: string set)"
    using inj by (rule finite_imageD)
  then show False
    using infinite_UNIV_listI by blast
qed

subsection \<open>The fingerprints of the fixtures\<close>

text \<open>
  The fingerprint is evaluated step by step: the padded block, the six times eight words
  the schedule adds, the eight times eight rounds, the final addition and the digits.
\<close>

lemma chunks_numeral:
  "chunks (numeral n) k xs = take k xs # chunks (pred_numeral n) k (drop k xs)"
  by (simp add: numeral_eq_Suc)

lemma replicate_numeral_Cons:
  "replicate (numeral k) x = x # replicate (pred_numeral k) x"
  by (simp add: numeral_eq_Suc)

lemma upt_0_8: "[0..<8] = [0, 1, 2, 3, 4, 5, 6, 7]"
  by (simp add: upt_rec)

lemma schedule_numeral:
  "schedule (numeral k) ws =
     schedule (pred_numeral k) ((sigma1 (ws ! 1) + ws ! 6 + sigma0 (ws ! 14) + ws ! 15) # ws)"
  by (simp add: numeral_eq_Suc)

lemma schedule_add: "schedule (m + n) ws = schedule n (schedule m ws)"
  by (induction m arbitrary: ws) simp_all

lemma schedule_48:
  "schedule 48 ws = schedule 8 (schedule 8 (schedule 8 (schedule 8 (schedule 8 (schedule 8 ws)))))"
  by (simp add: schedule_add [symmetric])

lemma foldl_8:
  "foldl f s (x1 # x2 # x3 # x4 # x5 # x6 # x7 # x8 # rest) =
     foldl f (foldl f s [x1, x2, x3, x4, x5, x6, x7, x8]) rest"
  by simp

text \<open>The fingerprint of \<open>doc A\<close> and \<open>readme\<close>: the block, its schedule, the 64 rounds.\<close>

lemma block_doc_A:
  "sha256 (utf8 ''doc Areadme'') =
     compress H256
      [0x646f6320, 0x41726561, 0x646d6580, 0x00000000, 0x00000000, 0x00000000, 0x00000000, 0x00000000,
      0x00000000, 0x00000000, 0x00000000, 0x00000000, 0x00000000, 0x00000000, 0x00000000, 0x00000058]"
  by (simp add: sha256_def utf8_def pad_def be32_def code_unit_def chunks_numeral
        replicate_numeral_Cons upt_0_8 Let_def)

lemma schedule_doc_A_0:
  "schedule 8
     (0x00000058 # 0x00000000 # 0x00000000 # 0x00000000 # 0x00000000 # 0x00000000 # 0x00000000 # 0x00000000 #
      0x00000000 # 0x00000000 # 0x00000000 # 0x00000000 # 0x00000000 # 0x646d6580 # 0x41726561 # 0x646f6320 # ws) =
      0xc018d8ec # 0x92f86119 # 0x01f55920 # 0x1523d19d # 0xb0dd563d # 0x0b5577a8 # 0x96bed4c1 # 0xb8645b5a #
      0x00000058 # 0x00000000 # 0x00000000 # 0x00000000 # 0x00000000 # 0x00000000 # 0x00000000 # 0x00000000 #
      0x00000000 # 0x00000000 # 0x00000000 # 0x00000000 # 0x00000000 # 0x646d6580 # 0x41726561 # 0x646f6320 # ws"
  by (simp add: schedule_numeral sigma0_def sigma1_def rotr_def)

lemma schedule_doc_A_1:
  "schedule 8
     (0xc018d8ec # 0x92f86119 # 0x01f55920 # 0x1523d19d # 0xb0dd563d # 0x0b5577a8 # 0x96bed4c1 # 0xb8645b5a #
      0x00000058 # 0x00000000 # 0x00000000 # 0x00000000 # 0x00000000 # 0x00000000 # 0x00000000 # 0x00000000 # ws) =
      0x5b426f6b # 0xb30a1851 # 0xa584870a # 0x7728ae0e # 0xa9902ef0 # 0x00d27787 # 0x82b175e1 # 0xd34a19fc #
      0xc018d8ec # 0x92f86119 # 0x01f55920 # 0x1523d19d # 0xb0dd563d # 0x0b5577a8 # 0x96bed4c1 # 0xb8645b5a #
      0x00000058 # 0x00000000 # 0x00000000 # 0x00000000 # 0x00000000 # 0x00000000 # 0x00000000 # 0x00000000 # ws"
  by (simp add: schedule_numeral sigma0_def sigma1_def rotr_def)

lemma schedule_doc_A_2:
  "schedule 8
     (0x5b426f6b # 0xb30a1851 # 0xa584870a # 0x7728ae0e # 0xa9902ef0 # 0x00d27787 # 0x82b175e1 # 0xd34a19fc #
      0xc018d8ec # 0x92f86119 # 0x01f55920 # 0x1523d19d # 0xb0dd563d # 0x0b5577a8 # 0x96bed4c1 # 0xb8645b5a # ws) =
      0xfac4172d # 0xb31c3640 # 0x50ed0fcc # 0x6accb786 # 0x0e8daed1 # 0xa66c3c0e # 0x1e756969 # 0xaeeec13b #
      0x5b426f6b # 0xb30a1851 # 0xa584870a # 0x7728ae0e # 0xa9902ef0 # 0x00d27787 # 0x82b175e1 # 0xd34a19fc #
      0xc018d8ec # 0x92f86119 # 0x01f55920 # 0x1523d19d # 0xb0dd563d # 0x0b5577a8 # 0x96bed4c1 # 0xb8645b5a # ws"
  by (simp add: schedule_numeral sigma0_def sigma1_def rotr_def)

lemma schedule_doc_A_3:
  "schedule 8
     (0xfac4172d # 0xb31c3640 # 0x50ed0fcc # 0x6accb786 # 0x0e8daed1 # 0xa66c3c0e # 0x1e756969 # 0xaeeec13b #
      0x5b426f6b # 0xb30a1851 # 0xa584870a # 0x7728ae0e # 0xa9902ef0 # 0x00d27787 # 0x82b175e1 # 0xd34a19fc # ws) =
      0xef4a62ea # 0x58144d53 # 0x1f0106b0 # 0xc618f580 # 0xac3bd25a # 0x8acc9ceb # 0x4665cf59 # 0x1daf3940 #
      0xfac4172d # 0xb31c3640 # 0x50ed0fcc # 0x6accb786 # 0x0e8daed1 # 0xa66c3c0e # 0x1e756969 # 0xaeeec13b #
      0x5b426f6b # 0xb30a1851 # 0xa584870a # 0x7728ae0e # 0xa9902ef0 # 0x00d27787 # 0x82b175e1 # 0xd34a19fc # ws"
  by (simp add: schedule_numeral sigma0_def sigma1_def rotr_def)

lemma schedule_doc_A_4:
  "schedule 8
     (0xef4a62ea # 0x58144d53 # 0x1f0106b0 # 0xc618f580 # 0xac3bd25a # 0x8acc9ceb # 0x4665cf59 # 0x1daf3940 #
      0xfac4172d # 0xb31c3640 # 0x50ed0fcc # 0x6accb786 # 0x0e8daed1 # 0xa66c3c0e # 0x1e756969 # 0xaeeec13b # ws) =
      0x292882b2 # 0x7bd3dc08 # 0xffe92a1e # 0x88ec3fa1 # 0x65939f47 # 0x7f07b62b # 0x2cd8f58a # 0x30125311 #
      0xef4a62ea # 0x58144d53 # 0x1f0106b0 # 0xc618f580 # 0xac3bd25a # 0x8acc9ceb # 0x4665cf59 # 0x1daf3940 #
      0xfac4172d # 0xb31c3640 # 0x50ed0fcc # 0x6accb786 # 0x0e8daed1 # 0xa66c3c0e # 0x1e756969 # 0xaeeec13b # ws"
  by (simp add: schedule_numeral sigma0_def sigma1_def rotr_def)

lemma schedule_doc_A_5:
  "schedule 8
     (0x292882b2 # 0x7bd3dc08 # 0xffe92a1e # 0x88ec3fa1 # 0x65939f47 # 0x7f07b62b # 0x2cd8f58a # 0x30125311 #
      0xef4a62ea # 0x58144d53 # 0x1f0106b0 # 0xc618f580 # 0xac3bd25a # 0x8acc9ceb # 0x4665cf59 # 0x1daf3940 # ws) =
      0x9c845ab4 # 0x66e5220f # 0x5bf5d1e7 # 0xcbc977bf # 0x4ee55043 # 0x942e527f # 0xf7e9892c # 0xa9ba191a #
      0x292882b2 # 0x7bd3dc08 # 0xffe92a1e # 0x88ec3fa1 # 0x65939f47 # 0x7f07b62b # 0x2cd8f58a # 0x30125311 #
      0xef4a62ea # 0x58144d53 # 0x1f0106b0 # 0xc618f580 # 0xac3bd25a # 0x8acc9ceb # 0x4665cf59 # 0x1daf3940 # ws"
  by (simp add: schedule_numeral sigma0_def sigma1_def rotr_def)

lemma rounds_doc_A_0:
  "foldl sha_round (0x6a09e667, 0xbb67ae85, 0x3c6ef372, 0xa54ff53a, 0x510e527f, 0x9b05688c, 0x1f83d9ab, 0x5be0cd19)
     [(0x428a2f98, 0x646f6320), (0x71374491, 0x41726561), (0xb5c0fbcf, 0x646d6580), (0xe9b5dba5, 0x00000000),
     (0x3956c25b, 0x00000000), (0x59f111f1, 0x00000000), (0x923f82a4, 0x00000000), (0xab1c5ed5, 0x00000000)] =
   (0x20f65711, 0xd376557e, 0xdf5899a7, 0x31225d20, 0x63b9025d, 0xcf6edf16, 0xd5e7bebd, 0x74a60c92)"
  by (simp add: sha_round_def Sigma0_def Sigma1_def Ch_def Maj_def rotr_def)

lemma rounds_doc_A_1:
  "foldl sha_round (0x20f65711, 0xd376557e, 0xdf5899a7, 0x31225d20, 0x63b9025d, 0xcf6edf16, 0xd5e7bebd, 0x74a60c92)
     [(0xd807aa98, 0x00000000), (0x12835b01, 0x00000000), (0x243185be, 0x00000000), (0x550c7dc3, 0x00000000),
     (0x72be5d74, 0x00000000), (0x80deb1fe, 0x00000000), (0x9bdc06a7, 0x00000000), (0xc19bf174, 0x00000058)] =
   (0x890961ca, 0x20aef5ac, 0xe79c6d19, 0xdc6445ef, 0xb26b4395, 0x16353704, 0xe286574c, 0x3cdda79a)"
  by (simp add: sha_round_def Sigma0_def Sigma1_def Ch_def Maj_def rotr_def)

lemma rounds_doc_A_2:
  "foldl sha_round (0x890961ca, 0x20aef5ac, 0xe79c6d19, 0xdc6445ef, 0xb26b4395, 0x16353704, 0xe286574c, 0x3cdda79a)
     [(0xe49b69c1, 0xb8645b5a), (0xefbe4786, 0x96bed4c1), (0x0fc19dc6, 0x0b5577a8), (0x240ca1cc, 0xb0dd563d),
     (0x2de92c6f, 0x1523d19d), (0x4a7484aa, 0x01f55920), (0x5cb0a9dc, 0x92f86119), (0x76f988da, 0xc018d8ec)] =
   (0x9867b17f, 0x48fcfc79, 0x9e468d09, 0x19cb2462, 0x135a4926, 0x3f5d95f1, 0x3f73df94, 0x10e74fd2)"
  by (simp add: sha_round_def Sigma0_def Sigma1_def Ch_def Maj_def rotr_def)

lemma rounds_doc_A_3:
  "foldl sha_round (0x9867b17f, 0x48fcfc79, 0x9e468d09, 0x19cb2462, 0x135a4926, 0x3f5d95f1, 0x3f73df94, 0x10e74fd2)
     [(0x983e5152, 0xd34a19fc), (0xa831c66d, 0x82b175e1), (0xb00327c8, 0x00d27787), (0xbf597fc7, 0xa9902ef0),
     (0xc6e00bf3, 0x7728ae0e), (0xd5a79147, 0xa584870a), (0x06ca6351, 0xb30a1851), (0x14292967, 0x5b426f6b)] =
   (0x971ff636, 0xab1cac9d, 0x162736e9, 0x0ee2e4a3, 0x9eb3b563, 0xe74ada1f, 0xef9871fc, 0x8066d18c)"
  by (simp add: sha_round_def Sigma0_def Sigma1_def Ch_def Maj_def rotr_def)

lemma rounds_doc_A_4:
  "foldl sha_round (0x971ff636, 0xab1cac9d, 0x162736e9, 0x0ee2e4a3, 0x9eb3b563, 0xe74ada1f, 0xef9871fc, 0x8066d18c)
     [(0x27b70a85, 0xaeeec13b), (0x2e1b2138, 0x1e756969), (0x4d2c6dfc, 0xa66c3c0e), (0x53380d13, 0x0e8daed1),
     (0x650a7354, 0x6accb786), (0x766a0abb, 0x50ed0fcc), (0x81c2c92e, 0xb31c3640), (0x92722c85, 0xfac4172d)] =
   (0xc7c615c8, 0xd000d23b, 0x1f2a5fd4, 0xf25e5560, 0x7579c9fc, 0x0245e201, 0xf7e9556c, 0x62b44274)"
  by (simp add: sha_round_def Sigma0_def Sigma1_def Ch_def Maj_def rotr_def)

lemma rounds_doc_A_5:
  "foldl sha_round (0xc7c615c8, 0xd000d23b, 0x1f2a5fd4, 0xf25e5560, 0x7579c9fc, 0x0245e201, 0xf7e9556c, 0x62b44274)
     [(0xa2bfe8a1, 0x1daf3940), (0xa81a664b, 0x4665cf59), (0xc24b8b70, 0x8acc9ceb), (0xc76c51a3, 0xac3bd25a),
     (0xd192e819, 0xc618f580), (0xd6990624, 0x1f0106b0), (0xf40e3585, 0x58144d53), (0x106aa070, 0xef4a62ea)] =
   (0x9bbd58bf, 0xc5ba0487, 0x46e2de07, 0x6c998dab, 0x9519c8c9, 0xf53fd458, 0xe309620a, 0x8ef16363)"
  by (simp add: sha_round_def Sigma0_def Sigma1_def Ch_def Maj_def rotr_def)

lemma rounds_doc_A_6:
  "foldl sha_round (0x9bbd58bf, 0xc5ba0487, 0x46e2de07, 0x6c998dab, 0x9519c8c9, 0xf53fd458, 0xe309620a, 0x8ef16363)
     [(0x19a4c116, 0x30125311), (0x1e376c08, 0x2cd8f58a), (0x2748774c, 0x7f07b62b), (0x34b0bcb5, 0x65939f47),
     (0x391c0cb3, 0x88ec3fa1), (0x4ed8aa4a, 0xffe92a1e), (0x5b9cca4f, 0x7bd3dc08), (0x682e6ff3, 0x292882b2)] =
   (0xb73a196d, 0xe14a6200, 0xabba1789, 0xa47726a9, 0xca97a0f5, 0xb312a813, 0xc06b7f67, 0x4b85108c)"
  by (simp add: sha_round_def Sigma0_def Sigma1_def Ch_def Maj_def rotr_def)

lemma rounds_doc_A_7:
  "foldl sha_round (0xb73a196d, 0xe14a6200, 0xabba1789, 0xa47726a9, 0xca97a0f5, 0xb312a813, 0xc06b7f67, 0x4b85108c)
     [(0x748f82ee, 0xa9ba191a), (0x78a5636f, 0xf7e9892c), (0x84c87814, 0x942e527f), (0x8cc70208, 0x4ee55043),
     (0x90befffa, 0xcbc977bf), (0xa4506ceb, 0x5bf5d1e7), (0xbef9a3f7, 0x66e5220f), (0xc67178f2, 0x9c845ab4)] =
   (0x852ad1fe, 0x3868e842, 0x3cf5781f, 0xb8d535a4, 0xb4c91bd5, 0xc1b31f08, 0x31127f30, 0x2c8d9c14)"
  by (simp add: sha_round_def Sigma0_def Sigma1_def Ch_def Maj_def rotr_def)

lemma compress_doc_A:
  "compress H256
      [0x646f6320, 0x41726561, 0x646d6580, 0x00000000, 0x00000000, 0x00000000, 0x00000000, 0x00000000,
      0x00000000, 0x00000000, 0x00000000, 0x00000000, 0x00000000, 0x00000000, 0x00000000, 0x00000058] =
   (0xef34b865, 0xf3d096c7, 0x79646b91, 0x5e252ade, 0x05d76e54, 0x5cb88794, 0x509658db, 0x886e692d)"
  unfolding compress_def rev.simps append.simps schedule_48
    schedule_doc_A_0 schedule_doc_A_1 schedule_doc_A_2 schedule_doc_A_3 schedule_doc_A_4 schedule_doc_A_5
    K256_def concat.simps zip_Cons_Cons zip_Nil H256_def
  apply (subst foldl_8, subst rounds_doc_A_0)
  apply (subst foldl_8, subst rounds_doc_A_1)
  apply (subst foldl_8, subst rounds_doc_A_2)
  apply (subst foldl_8, subst rounds_doc_A_3)
  apply (subst foldl_8, subst rounds_doc_A_4)
  apply (subst foldl_8, subst rounds_doc_A_5)
  apply (subst foldl_8, subst rounds_doc_A_6)
  apply (subst foldl_8, subst rounds_doc_A_7)
  by (simp add: add_state_def)

lemma contentHash_doc_A: "contentHash ''doc A'' ''readme'' = ''ef34b865''"
  by (simp add: contentHash_def sha256_hex_def block_doc_A compress_doc_A hex32_def hexdigit_def upt_0_8)

text \<open>The fingerprint of \<open>doc B\<close> and \<open>readme\<close>: the block, its schedule, the 64 rounds.\<close>

lemma block_doc_B:
  "sha256 (utf8 ''doc Breadme'') =
     compress H256
      [0x646f6320, 0x42726561, 0x646d6580, 0x00000000, 0x00000000, 0x00000000, 0x00000000, 0x00000000,
      0x00000000, 0x00000000, 0x00000000, 0x00000000, 0x00000000, 0x00000000, 0x00000000, 0x00000058]"
  by (simp add: sha256_def utf8_def pad_def be32_def code_unit_def chunks_numeral
        replicate_numeral_Cons upt_0_8 Let_def)

lemma schedule_doc_B_0:
  "schedule 8
     (0x00000058 # 0x00000000 # 0x00000000 # 0x00000000 # 0x00000000 # 0x00000000 # 0x00000000 # 0x00000000 #
      0x00000000 # 0x00000000 # 0x00000000 # 0x00000000 # 0x00000000 # 0x646d6580 # 0x42726561 # 0x646f6320 # ws) =
      0x3fb6d9d2 # 0xf86b4fa9 # 0x29b15930 # 0x169b3f1b # 0xb0dd169d # 0xca0d7116 # 0x97bed4c1 # 0xb8025c1a #
      0x00000058 # 0x00000000 # 0x00000000 # 0x00000000 # 0x00000000 # 0x00000000 # 0x00000000 # 0x00000000 #
      0x00000000 # 0x00000000 # 0x00000000 # 0x00000000 # 0x00000000 # 0x646d6580 # 0x42726561 # 0x646f6320 # ws"
  by (simp add: schedule_numeral sigma0_def sigma1_def rotr_def)

lemma schedule_doc_B_1:
  "schedule 8
     (0x3fb6d9d2 # 0xf86b4fa9 # 0x29b15930 # 0x169b3f1b # 0xb0dd169d # 0xca0d7116 # 0x97bed4c1 # 0xb8025c1a #
      0x00000058 # 0x00000000 # 0x00000000 # 0x00000000 # 0x00000000 # 0x00000000 # 0x00000000 # 0x00000000 # ws) =
      0xae6e83da # 0x0e959744 # 0xd6097848 # 0x36029b5d # 0x6e49c95c # 0x3377e09c # 0x81ea26b1 # 0x65deaeac #
      0x3fb6d9d2 # 0xf86b4fa9 # 0x29b15930 # 0x169b3f1b # 0xb0dd169d # 0xca0d7116 # 0x97bed4c1 # 0xb8025c1a #
      0x00000058 # 0x00000000 # 0x00000000 # 0x00000000 # 0x00000000 # 0x00000000 # 0x00000000 # 0x00000000 # ws"
  by (simp add: schedule_numeral sigma0_def sigma1_def rotr_def)

lemma schedule_doc_B_2:
  "schedule 8
     (0xae6e83da # 0x0e959744 # 0xd6097848 # 0x36029b5d # 0x6e49c95c # 0x3377e09c # 0x81ea26b1 # 0x65deaeac #
      0x3fb6d9d2 # 0xf86b4fa9 # 0x29b15930 # 0x169b3f1b # 0xb0dd169d # 0xca0d7116 # 0x97bed4c1 # 0xb8025c1a # ws) =
      0xa52a7415 # 0x17166ef6 # 0x7c3c1da4 # 0x04023acf # 0x82eba19c # 0x9b065fd1 # 0xc58454fa # 0xd81e69a6 #
      0xae6e83da # 0x0e959744 # 0xd6097848 # 0x36029b5d # 0x6e49c95c # 0x3377e09c # 0x81ea26b1 # 0x65deaeac #
      0x3fb6d9d2 # 0xf86b4fa9 # 0x29b15930 # 0x169b3f1b # 0xb0dd169d # 0xca0d7116 # 0x97bed4c1 # 0xb8025c1a # ws"
  by (simp add: schedule_numeral sigma0_def sigma1_def rotr_def)

lemma schedule_doc_B_3:
  "schedule 8
     (0xa52a7415 # 0x17166ef6 # 0x7c3c1da4 # 0x04023acf # 0x82eba19c # 0x9b065fd1 # 0xc58454fa # 0xd81e69a6 #
      0xae6e83da # 0x0e959744 # 0xd6097848 # 0x36029b5d # 0x6e49c95c # 0x3377e09c # 0x81ea26b1 # 0x65deaeac # ws) =
      0x7f7ab8f6 # 0x50781275 # 0x77fb06a5 # 0x61f3ca15 # 0x00143134 # 0x3e41c53c # 0x57c0d23e # 0x20960179 #
      0xa52a7415 # 0x17166ef6 # 0x7c3c1da4 # 0x04023acf # 0x82eba19c # 0x9b065fd1 # 0xc58454fa # 0xd81e69a6 #
      0xae6e83da # 0x0e959744 # 0xd6097848 # 0x36029b5d # 0x6e49c95c # 0x3377e09c # 0x81ea26b1 # 0x65deaeac # ws"
  by (simp add: schedule_numeral sigma0_def sigma1_def rotr_def)

lemma schedule_doc_B_4:
  "schedule 8
     (0x7f7ab8f6 # 0x50781275 # 0x77fb06a5 # 0x61f3ca15 # 0x00143134 # 0x3e41c53c # 0x57c0d23e # 0x20960179 #
      0xa52a7415 # 0x17166ef6 # 0x7c3c1da4 # 0x04023acf # 0x82eba19c # 0x9b065fd1 # 0xc58454fa # 0xd81e69a6 # ws) =
      0xeaf393e4 # 0x415114c6 # 0x054960d9 # 0x21b559c8 # 0x1d1b52f4 # 0x3135a3b7 # 0x36e2eab6 # 0x33448b72 #
      0x7f7ab8f6 # 0x50781275 # 0x77fb06a5 # 0x61f3ca15 # 0x00143134 # 0x3e41c53c # 0x57c0d23e # 0x20960179 #
      0xa52a7415 # 0x17166ef6 # 0x7c3c1da4 # 0x04023acf # 0x82eba19c # 0x9b065fd1 # 0xc58454fa # 0xd81e69a6 # ws"
  by (simp add: schedule_numeral sigma0_def sigma1_def rotr_def)

lemma schedule_doc_B_5:
  "schedule 8
     (0xeaf393e4 # 0x415114c6 # 0x054960d9 # 0x21b559c8 # 0x1d1b52f4 # 0x3135a3b7 # 0x36e2eab6 # 0x33448b72 #
      0x7f7ab8f6 # 0x50781275 # 0x77fb06a5 # 0x61f3ca15 # 0x00143134 # 0x3e41c53c # 0x57c0d23e # 0x20960179 # ws) =
      0x16289a8c # 0xa4e9d8a3 # 0x982bd13e # 0x342035cb # 0xe6833bde # 0x8d220d45 # 0x53a67f75 # 0x433cb709 #
      0xeaf393e4 # 0x415114c6 # 0x054960d9 # 0x21b559c8 # 0x1d1b52f4 # 0x3135a3b7 # 0x36e2eab6 # 0x33448b72 #
      0x7f7ab8f6 # 0x50781275 # 0x77fb06a5 # 0x61f3ca15 # 0x00143134 # 0x3e41c53c # 0x57c0d23e # 0x20960179 # ws"
  by (simp add: schedule_numeral sigma0_def sigma1_def rotr_def)

lemma rounds_doc_B_0:
  "foldl sha_round (0x6a09e667, 0xbb67ae85, 0x3c6ef372, 0xa54ff53a, 0x510e527f, 0x9b05688c, 0x1f83d9ab, 0x5be0cd19)
     [(0x428a2f98, 0x646f6320), (0x71374491, 0x42726561), (0xb5c0fbcf, 0x646d6580), (0xe9b5dba5, 0x00000000),
     (0x3956c25b, 0x00000000), (0x59f111f1, 0x00000000), (0x923f82a4, 0x00000000), (0xab1c5ed5, 0x00000000)] =
   (0xb3961c0d, 0xc79fe523, 0x438b9087, 0xd08d5f29, 0xeb06bbe9, 0x3c6ca296, 0x700d7db2, 0x1bfea8da)"
  by (simp add: sha_round_def Sigma0_def Sigma1_def Ch_def Maj_def rotr_def)

lemma rounds_doc_B_1:
  "foldl sha_round (0xb3961c0d, 0xc79fe523, 0x438b9087, 0xd08d5f29, 0xeb06bbe9, 0x3c6ca296, 0x700d7db2, 0x1bfea8da)
     [(0xd807aa98, 0x00000000), (0x12835b01, 0x00000000), (0x243185be, 0x00000000), (0x550c7dc3, 0x00000000),
     (0x72be5d74, 0x00000000), (0x80deb1fe, 0x00000000), (0x9bdc06a7, 0x00000000), (0xc19bf174, 0x00000058)] =
   (0x9f764703, 0x5ddb4c2d, 0x21b2e8b8, 0xbdb252a6, 0xf05a8de5, 0x70220900, 0xe172c281, 0x1c316515)"
  by (simp add: sha_round_def Sigma0_def Sigma1_def Ch_def Maj_def rotr_def)

lemma rounds_doc_B_2:
  "foldl sha_round (0x9f764703, 0x5ddb4c2d, 0x21b2e8b8, 0xbdb252a6, 0xf05a8de5, 0x70220900, 0xe172c281, 0x1c316515)
     [(0xe49b69c1, 0xb8025c1a), (0xefbe4786, 0x97bed4c1), (0x0fc19dc6, 0xca0d7116), (0x240ca1cc, 0xb0dd169d),
     (0x2de92c6f, 0x169b3f1b), (0x4a7484aa, 0x29b15930), (0x5cb0a9dc, 0xf86b4fa9), (0x76f988da, 0x3fb6d9d2)] =
   (0x4db81d82, 0x34b7b959, 0x245d3a87, 0x133bb3a0, 0x8512e33f, 0xb6b95191, 0x0a74aff5, 0x670b9add)"
  by (simp add: sha_round_def Sigma0_def Sigma1_def Ch_def Maj_def rotr_def)

lemma rounds_doc_B_3:
  "foldl sha_round (0x4db81d82, 0x34b7b959, 0x245d3a87, 0x133bb3a0, 0x8512e33f, 0xb6b95191, 0x0a74aff5, 0x670b9add)
     [(0x983e5152, 0x65deaeac), (0xa831c66d, 0x81ea26b1), (0xb00327c8, 0x3377e09c), (0xbf597fc7, 0x6e49c95c),
     (0xc6e00bf3, 0x36029b5d), (0xd5a79147, 0xd6097848), (0x06ca6351, 0x0e959744), (0x14292967, 0xae6e83da)] =
   (0xf49363cb, 0xbef93531, 0x9f363924, 0x0eda5713, 0x35837857, 0xd2daecdb, 0xef14e6ee, 0xd79dd1b4)"
  by (simp add: sha_round_def Sigma0_def Sigma1_def Ch_def Maj_def rotr_def)

lemma rounds_doc_B_4:
  "foldl sha_round (0xf49363cb, 0xbef93531, 0x9f363924, 0x0eda5713, 0x35837857, 0xd2daecdb, 0xef14e6ee, 0xd79dd1b4)
     [(0x27b70a85, 0xd81e69a6), (0x2e1b2138, 0xc58454fa), (0x4d2c6dfc, 0x9b065fd1), (0x53380d13, 0x82eba19c),
     (0x650a7354, 0x04023acf), (0x766a0abb, 0x7c3c1da4), (0x81c2c92e, 0x17166ef6), (0x92722c85, 0xa52a7415)] =
   (0x8aa60095, 0x229d23a0, 0x15ef232f, 0x9b4f3bcc, 0x091133e7, 0xaa54332f, 0x2aac3d61, 0xf2bddbdf)"
  by (simp add: sha_round_def Sigma0_def Sigma1_def Ch_def Maj_def rotr_def)

lemma rounds_doc_B_5:
  "foldl sha_round (0x8aa60095, 0x229d23a0, 0x15ef232f, 0x9b4f3bcc, 0x091133e7, 0xaa54332f, 0x2aac3d61, 0xf2bddbdf)
     [(0xa2bfe8a1, 0x20960179), (0xa81a664b, 0x57c0d23e), (0xc24b8b70, 0x3e41c53c), (0xc76c51a3, 0x00143134),
     (0xd192e819, 0x61f3ca15), (0xd6990624, 0x77fb06a5), (0xf40e3585, 0x50781275), (0x106aa070, 0x7f7ab8f6)] =
   (0xc7d91794, 0x312eefcc, 0x65156ea1, 0x7dcd13e4, 0xa6e96cd6, 0x7062ed34, 0x18b97189, 0x1abc3db6)"
  by (simp add: sha_round_def Sigma0_def Sigma1_def Ch_def Maj_def rotr_def)

lemma rounds_doc_B_6:
  "foldl sha_round (0xc7d91794, 0x312eefcc, 0x65156ea1, 0x7dcd13e4, 0xa6e96cd6, 0x7062ed34, 0x18b97189, 0x1abc3db6)
     [(0x19a4c116, 0x33448b72), (0x1e376c08, 0x36e2eab6), (0x2748774c, 0x3135a3b7), (0x34b0bcb5, 0x1d1b52f4),
     (0x391c0cb3, 0x21b559c8), (0x4ed8aa4a, 0x054960d9), (0x5b9cca4f, 0x415114c6), (0x682e6ff3, 0xeaf393e4)] =
   (0x2ea810a4, 0x97d47888, 0xfb491e48, 0x8808db22, 0xce59492a, 0xb9b5d448, 0xfe71f1c1, 0x9e4ca805)"
  by (simp add: sha_round_def Sigma0_def Sigma1_def Ch_def Maj_def rotr_def)

lemma rounds_doc_B_7:
  "foldl sha_round (0x2ea810a4, 0x97d47888, 0xfb491e48, 0x8808db22, 0xce59492a, 0xb9b5d448, 0xfe71f1c1, 0x9e4ca805)
     [(0x748f82ee, 0x433cb709), (0x78a5636f, 0x53a67f75), (0x84c87814, 0x8d220d45), (0x8cc70208, 0xe6833bde),
     (0x90befffa, 0x342035cb), (0xa4506ceb, 0x982bd13e), (0xbef9a3f7, 0xa4e9d8a3), (0xc67178f2, 0x16289a8c)] =
   (0x44db5ae6, 0xff9578ca, 0x35db36e1, 0x758e2646, 0xfecc301d, 0x1ac13680, 0x666c18b4, 0x999e5e49)"
  by (simp add: sha_round_def Sigma0_def Sigma1_def Ch_def Maj_def rotr_def)

lemma compress_doc_B:
  "compress H256
      [0x646f6320, 0x42726561, 0x646d6580, 0x00000000, 0x00000000, 0x00000000, 0x00000000, 0x00000000,
      0x00000000, 0x00000000, 0x00000000, 0x00000000, 0x00000000, 0x00000000, 0x00000000, 0x00000058] =
   (0xaee5414d, 0xbafd274f, 0x724a2a53, 0x1ade1b80, 0x4fda829c, 0xb5c69f0c, 0x85eff25f, 0xf57f2b62)"
  unfolding compress_def rev.simps append.simps schedule_48
    schedule_doc_B_0 schedule_doc_B_1 schedule_doc_B_2 schedule_doc_B_3 schedule_doc_B_4 schedule_doc_B_5
    K256_def concat.simps zip_Cons_Cons zip_Nil H256_def
  apply (subst foldl_8, subst rounds_doc_B_0)
  apply (subst foldl_8, subst rounds_doc_B_1)
  apply (subst foldl_8, subst rounds_doc_B_2)
  apply (subst foldl_8, subst rounds_doc_B_3)
  apply (subst foldl_8, subst rounds_doc_B_4)
  apply (subst foldl_8, subst rounds_doc_B_5)
  apply (subst foldl_8, subst rounds_doc_B_6)
  apply (subst foldl_8, subst rounds_doc_B_7)
  by (simp add: add_state_def)

lemma contentHash_doc_B: "contentHash ''doc B'' ''readme'' = ''aee5414d''"
  by (simp add: contentHash_def sha256_hex_def block_doc_B compress_doc_B hex32_def hexdigit_def upt_0_8)

text \<open>The fingerprint of \<open>doc\<close> and \<open>readme v1\<close>: the block, its schedule, the 64 rounds.\<close>

lemma block_readme_v1:
  "sha256 (utf8 ''docreadme v1'') =
     compress H256
      [0x646f6372, 0x6561646d, 0x65207631, 0x80000000, 0x00000000, 0x00000000, 0x00000000, 0x00000000,
      0x00000000, 0x00000000, 0x00000000, 0x00000000, 0x00000000, 0x00000000, 0x00000000, 0x00000060]"
  by (simp add: sha256_def utf8_def pad_def be32_def code_unit_def chunks_numeral
        replicate_numeral_Cons upt_0_8 Let_def)

lemma schedule_readme_v1_0:
  "schedule 8
     (0x00000060 # 0x00000000 # 0x00000000 # 0x00000000 # 0x00000000 # 0x00000000 # 0x00000000 # 0x00000000 #
      0x00000000 # 0x00000000 # 0x00000000 # 0x00000000 # 0x80000000 # 0x65207631 # 0x6561646d # 0x646f6372 # ws) =
      0x438dd037 # 0xf88388e0 # 0x2d1a1913 # 0xbb099448 # 0xd2a8484e # 0xa44b92fe # 0xd97f7bcf # 0xf3ed1a8f #
      0x00000060 # 0x00000000 # 0x00000000 # 0x00000000 # 0x00000000 # 0x00000000 # 0x00000000 # 0x00000000 #
      0x00000000 # 0x00000000 # 0x00000000 # 0x00000000 # 0x80000000 # 0x65207631 # 0x6561646d # 0x646f6372 # ws"
  by (simp add: schedule_numeral sigma0_def sigma1_def rotr_def)

lemma schedule_readme_v1_1:
  "schedule 8
     (0x438dd037 # 0xf88388e0 # 0x2d1a1913 # 0xbb099448 # 0xd2a8484e # 0xa44b92fe # 0xd97f7bcf # 0xf3ed1a8f #
      0x00000060 # 0x00000000 # 0x00000000 # 0x00000000 # 0x00000000 # 0x00000000 # 0x00000000 # 0x00000000 # ws) =
      0x632f8612 # 0x10f28e87 # 0xa79eb7e3 # 0x55f81dc3 # 0x746ee7f0 # 0xbabaeb2b # 0xf6593dc1 # 0x8ed1bf82 #
      0x438dd037 # 0xf88388e0 # 0x2d1a1913 # 0xbb099448 # 0xd2a8484e # 0xa44b92fe # 0xd97f7bcf # 0xf3ed1a8f #
      0x00000060 # 0x00000000 # 0x00000000 # 0x00000000 # 0x00000000 # 0x00000000 # 0x00000000 # 0x00000000 # ws"
  by (simp add: schedule_numeral sigma0_def sigma1_def rotr_def)

lemma schedule_readme_v1_2:
  "schedule 8
     (0x632f8612 # 0x10f28e87 # 0xa79eb7e3 # 0x55f81dc3 # 0x746ee7f0 # 0xbabaeb2b # 0xf6593dc1 # 0x8ed1bf82 #
      0x438dd037 # 0xf88388e0 # 0x2d1a1913 # 0xbb099448 # 0xd2a8484e # 0xa44b92fe # 0xd97f7bcf # 0xf3ed1a8f # ws) =
      0xece80fce # 0x3068e3dc # 0xfc437b68 # 0x814ca96f # 0xc546a8e1 # 0x88573e0b # 0xd58c6975 # 0x5b4c96e5 #
      0x632f8612 # 0x10f28e87 # 0xa79eb7e3 # 0x55f81dc3 # 0x746ee7f0 # 0xbabaeb2b # 0xf6593dc1 # 0x8ed1bf82 #
      0x438dd037 # 0xf88388e0 # 0x2d1a1913 # 0xbb099448 # 0xd2a8484e # 0xa44b92fe # 0xd97f7bcf # 0xf3ed1a8f # ws"
  by (simp add: schedule_numeral sigma0_def sigma1_def rotr_def)

lemma schedule_readme_v1_3:
  "schedule 8
     (0xece80fce # 0x3068e3dc # 0xfc437b68 # 0x814ca96f # 0xc546a8e1 # 0x88573e0b # 0xd58c6975 # 0x5b4c96e5 #
      0x632f8612 # 0x10f28e87 # 0xa79eb7e3 # 0x55f81dc3 # 0x746ee7f0 # 0xbabaeb2b # 0xf6593dc1 # 0x8ed1bf82 # ws) =
      0x950d835d # 0xede9c475 # 0x0cb442ed # 0x86f2f1f0 # 0x34abf7f8 # 0x0fc12581 # 0x7fbed3d3 # 0xa44f954d #
      0xece80fce # 0x3068e3dc # 0xfc437b68 # 0x814ca96f # 0xc546a8e1 # 0x88573e0b # 0xd58c6975 # 0x5b4c96e5 #
      0x632f8612 # 0x10f28e87 # 0xa79eb7e3 # 0x55f81dc3 # 0x746ee7f0 # 0xbabaeb2b # 0xf6593dc1 # 0x8ed1bf82 # ws"
  by (simp add: schedule_numeral sigma0_def sigma1_def rotr_def)

lemma schedule_readme_v1_4:
  "schedule 8
     (0x950d835d # 0xede9c475 # 0x0cb442ed # 0x86f2f1f0 # 0x34abf7f8 # 0x0fc12581 # 0x7fbed3d3 # 0xa44f954d #
      0xece80fce # 0x3068e3dc # 0xfc437b68 # 0x814ca96f # 0xc546a8e1 # 0x88573e0b # 0xd58c6975 # 0x5b4c96e5 # ws) =
      0xcd17e74e # 0xcfa4f79c # 0xc8ac8be8 # 0x704ea5b8 # 0x25f08ce3 # 0xa01b7c11 # 0x20c675e5 # 0xa0e27c8f #
      0x950d835d # 0xede9c475 # 0x0cb442ed # 0x86f2f1f0 # 0x34abf7f8 # 0x0fc12581 # 0x7fbed3d3 # 0xa44f954d #
      0xece80fce # 0x3068e3dc # 0xfc437b68 # 0x814ca96f # 0xc546a8e1 # 0x88573e0b # 0xd58c6975 # 0x5b4c96e5 # ws"
  by (simp add: schedule_numeral sigma0_def sigma1_def rotr_def)

lemma schedule_readme_v1_5:
  "schedule 8
     (0xcd17e74e # 0xcfa4f79c # 0xc8ac8be8 # 0x704ea5b8 # 0x25f08ce3 # 0xa01b7c11 # 0x20c675e5 # 0xa0e27c8f #
      0x950d835d # 0xede9c475 # 0x0cb442ed # 0x86f2f1f0 # 0x34abf7f8 # 0x0fc12581 # 0x7fbed3d3 # 0xa44f954d # ws) =
      0xd4183f85 # 0xc616b925 # 0xa16b05f9 # 0x638a03ab # 0x04e063d8 # 0x9ef5ebd0 # 0x79e02fbf # 0xc8209a7f #
      0xcd17e74e # 0xcfa4f79c # 0xc8ac8be8 # 0x704ea5b8 # 0x25f08ce3 # 0xa01b7c11 # 0x20c675e5 # 0xa0e27c8f #
      0x950d835d # 0xede9c475 # 0x0cb442ed # 0x86f2f1f0 # 0x34abf7f8 # 0x0fc12581 # 0x7fbed3d3 # 0xa44f954d # ws"
  by (simp add: schedule_numeral sigma0_def sigma1_def rotr_def)

lemma rounds_readme_v1_0:
  "foldl sha_round (0x6a09e667, 0xbb67ae85, 0x3c6ef372, 0xa54ff53a, 0x510e527f, 0x9b05688c, 0x1f83d9ab, 0x5be0cd19)
     [(0x428a2f98, 0x646f6372), (0x71374491, 0x6561646d), (0xb5c0fbcf, 0x65207631), (0xe9b5dba5, 0x80000000),
     (0x3956c25b, 0x00000000), (0x59f111f1, 0x00000000), (0x923f82a4, 0x00000000), (0xab1c5ed5, 0x00000000)] =
   (0x4d877223, 0x52a8dcb8, 0x619edf08, 0x4dee9e35, 0x4b6f35d2, 0x11bbdf2b, 0xc3e61758, 0x85f78366)"
  by (simp add: sha_round_def Sigma0_def Sigma1_def Ch_def Maj_def rotr_def)

lemma rounds_readme_v1_1:
  "foldl sha_round (0x4d877223, 0x52a8dcb8, 0x619edf08, 0x4dee9e35, 0x4b6f35d2, 0x11bbdf2b, 0xc3e61758, 0x85f78366)
     [(0xd807aa98, 0x00000000), (0x12835b01, 0x00000000), (0x243185be, 0x00000000), (0x550c7dc3, 0x00000000),
     (0x72be5d74, 0x00000000), (0x80deb1fe, 0x00000000), (0x9bdc06a7, 0x00000000), (0xc19bf174, 0x00000060)] =
   (0x2cef3567, 0xea3f48a2, 0xfae40196, 0xd8eb3fdb, 0x592f3981, 0xdc087480, 0x2ee2f8cc, 0xd618f218)"
  by (simp add: sha_round_def Sigma0_def Sigma1_def Ch_def Maj_def rotr_def)

lemma rounds_readme_v1_2:
  "foldl sha_round (0x2cef3567, 0xea3f48a2, 0xfae40196, 0xd8eb3fdb, 0x592f3981, 0xdc087480, 0x2ee2f8cc, 0xd618f218)
     [(0xe49b69c1, 0xf3ed1a8f), (0xefbe4786, 0xd97f7bcf), (0x0fc19dc6, 0xa44b92fe), (0x240ca1cc, 0xd2a8484e),
     (0x2de92c6f, 0xbb099448), (0x4a7484aa, 0x2d1a1913), (0x5cb0a9dc, 0xf88388e0), (0x76f988da, 0x438dd037)] =
   (0x560e89f0, 0x77133015, 0x119bdb96, 0x1e001377, 0x604c9bba, 0x9198af2a, 0x4e823a02, 0x681528ea)"
  by (simp add: sha_round_def Sigma0_def Sigma1_def Ch_def Maj_def rotr_def)

lemma rounds_readme_v1_3:
  "foldl sha_round (0x560e89f0, 0x77133015, 0x119bdb96, 0x1e001377, 0x604c9bba, 0x9198af2a, 0x4e823a02, 0x681528ea)
     [(0x983e5152, 0x8ed1bf82), (0xa831c66d, 0xf6593dc1), (0xb00327c8, 0xbabaeb2b), (0xbf597fc7, 0x746ee7f0),
     (0xc6e00bf3, 0x55f81dc3), (0xd5a79147, 0xa79eb7e3), (0x06ca6351, 0x10f28e87), (0x14292967, 0x632f8612)] =
   (0x2c1d543d, 0xf9faf107, 0x4f6d7ea2, 0x654e41e6, 0xf675d9ab, 0x4aecbc1f, 0xf80be032, 0x1c7c0e14)"
  by (simp add: sha_round_def Sigma0_def Sigma1_def Ch_def Maj_def rotr_def)

lemma rounds_readme_v1_4:
  "foldl sha_round (0x2c1d543d, 0xf9faf107, 0x4f6d7ea2, 0x654e41e6, 0xf675d9ab, 0x4aecbc1f, 0xf80be032, 0x1c7c0e14)
     [(0x27b70a85, 0x5b4c96e5), (0x2e1b2138, 0xd58c6975), (0x4d2c6dfc, 0x88573e0b), (0x53380d13, 0xc546a8e1),
     (0x650a7354, 0x814ca96f), (0x766a0abb, 0xfc437b68), (0x81c2c92e, 0x3068e3dc), (0x92722c85, 0xece80fce)] =
   (0x5adecc16, 0x9b73a549, 0x7f689428, 0xf8814227, 0xae3bf371, 0x843eeb68, 0x99035049, 0xd9993866)"
  by (simp add: sha_round_def Sigma0_def Sigma1_def Ch_def Maj_def rotr_def)

lemma rounds_readme_v1_5:
  "foldl sha_round (0x5adecc16, 0x9b73a549, 0x7f689428, 0xf8814227, 0xae3bf371, 0x843eeb68, 0x99035049, 0xd9993866)
     [(0xa2bfe8a1, 0xa44f954d), (0xa81a664b, 0x7fbed3d3), (0xc24b8b70, 0x0fc12581), (0xc76c51a3, 0x34abf7f8),
     (0xd192e819, 0x86f2f1f0), (0xd6990624, 0x0cb442ed), (0xf40e3585, 0xede9c475), (0x106aa070, 0x950d835d)] =
   (0x382dd0d1, 0x772c8eac, 0x55d943d1, 0x68bbf6d3, 0x5b488cbe, 0x48e20056, 0xf7b48c53, 0x9ff8b633)"
  by (simp add: sha_round_def Sigma0_def Sigma1_def Ch_def Maj_def rotr_def)

lemma rounds_readme_v1_6:
  "foldl sha_round (0x382dd0d1, 0x772c8eac, 0x55d943d1, 0x68bbf6d3, 0x5b488cbe, 0x48e20056, 0xf7b48c53, 0x9ff8b633)
     [(0x19a4c116, 0xa0e27c8f), (0x1e376c08, 0x20c675e5), (0x2748774c, 0xa01b7c11), (0x34b0bcb5, 0x25f08ce3),
     (0x391c0cb3, 0x704ea5b8), (0x4ed8aa4a, 0xc8ac8be8), (0x5b9cca4f, 0xcfa4f79c), (0x682e6ff3, 0xcd17e74e)] =
   (0x4b521748, 0xec99dffc, 0x90993a81, 0xe5c4ae6a, 0x4c19647a, 0xe75e4478, 0xce3c00ef, 0xa2e2b69a)"
  by (simp add: sha_round_def Sigma0_def Sigma1_def Ch_def Maj_def rotr_def)

lemma rounds_readme_v1_7:
  "foldl sha_round (0x4b521748, 0xec99dffc, 0x90993a81, 0xe5c4ae6a, 0x4c19647a, 0xe75e4478, 0xce3c00ef, 0xa2e2b69a)
     [(0x748f82ee, 0xc8209a7f), (0x78a5636f, 0x79e02fbf), (0x84c87814, 0x9ef5ebd0), (0x8cc70208, 0x04e063d8),
     (0x90befffa, 0x638a03ab), (0xa4506ceb, 0xa16b05f9), (0xbef9a3f7, 0xc616b925), (0xc67178f2, 0xd4183f85)] =
   (0x3aa00c9d, 0x6c0c22e6, 0x99efaf7b, 0xae0e21fa, 0x78187284, 0xf28a568b, 0xe878432d, 0x16163137)"
  by (simp add: sha_round_def Sigma0_def Sigma1_def Ch_def Maj_def rotr_def)

lemma compress_readme_v1:
  "compress H256
      [0x646f6372, 0x6561646d, 0x65207631, 0x80000000, 0x00000000, 0x00000000, 0x00000000, 0x00000000,
      0x00000000, 0x00000000, 0x00000000, 0x00000000, 0x00000000, 0x00000000, 0x00000000, 0x00000060] =
   (0xa4a9f304, 0x2773d16b, 0xd65ea2ed, 0x535e1734, 0xc926c503, 0x8d8fbf17, 0x07fc1cd8, 0x71f6fe50)"
  unfolding compress_def rev.simps append.simps schedule_48
    schedule_readme_v1_0 schedule_readme_v1_1 schedule_readme_v1_2 schedule_readme_v1_3 schedule_readme_v1_4 schedule_readme_v1_5
    K256_def concat.simps zip_Cons_Cons zip_Nil H256_def
  apply (subst foldl_8, subst rounds_readme_v1_0)
  apply (subst foldl_8, subst rounds_readme_v1_1)
  apply (subst foldl_8, subst rounds_readme_v1_2)
  apply (subst foldl_8, subst rounds_readme_v1_3)
  apply (subst foldl_8, subst rounds_readme_v1_4)
  apply (subst foldl_8, subst rounds_readme_v1_5)
  apply (subst foldl_8, subst rounds_readme_v1_6)
  apply (subst foldl_8, subst rounds_readme_v1_7)
  by (simp add: add_state_def)

lemma contentHash_readme_v1: "contentHash ''doc'' ''readme v1'' = ''a4a9f304''"
  by (simp add: contentHash_def sha256_hex_def block_readme_v1 compress_readme_v1 hex32_def hexdigit_def upt_0_8)

text \<open>The fingerprint of \<open>doc\<close> and \<open>readme v2\<close>: the block, its schedule, the 64 rounds.\<close>

lemma block_readme_v2:
  "sha256 (utf8 ''docreadme v2'') =
     compress H256
      [0x646f6372, 0x6561646d, 0x65207632, 0x80000000, 0x00000000, 0x00000000, 0x00000000, 0x00000000,
      0x00000000, 0x00000000, 0x00000000, 0x00000000, 0x00000000, 0x00000000, 0x00000000, 0x00000060]"
  by (simp add: sha256_def utf8_def pad_def be32_def code_unit_def chunks_numeral
        replicate_numeral_Cons upt_0_8 Let_def)

lemma schedule_readme_v2_0:
  "schedule 8
     (0x00000060 # 0x00000000 # 0x00000000 # 0x00000000 # 0x00000000 # 0x00000000 # 0x00000000 # 0x00000000 #
      0x00000000 # 0x00000000 # 0x00000000 # 0x00000000 # 0x80000000 # 0x65207632 # 0x6561646d # 0x646f6372 # ws) =
      0xd06df07e # 0xbc838908 # 0x65ae343c # 0xbb093448 # 0x9aa8f6be # 0xa44b92ff # 0xdb803bcf # 0xf3ed1a8f #
      0x00000060 # 0x00000000 # 0x00000000 # 0x00000000 # 0x00000000 # 0x00000000 # 0x00000000 # 0x00000000 #
      0x00000000 # 0x00000000 # 0x00000000 # 0x00000000 # 0x80000000 # 0x65207632 # 0x6561646d # 0x646f6372 # ws"
  by (simp add: schedule_numeral sigma0_def sigma1_def rotr_def)

lemma schedule_readme_v2_1:
  "schedule 8
     (0xd06df07e # 0xbc838908 # 0x65ae343c # 0xbb093448 # 0x9aa8f6be # 0xa44b92ff # 0xdb803bcf # 0xf3ed1a8f #
      0x00000060 # 0x00000000 # 0x00000000 # 0x00000000 # 0x00000000 # 0x00000000 # 0x00000000 # 0x00000000 # ws) =
      0xb8850b1f # 0xcb1800a2 # 0x32fcff4a # 0x5442c40d # 0xd49a70b5 # 0xa0ae4ecb # 0xea503c46 # 0x910aa502 #
      0xd06df07e # 0xbc838908 # 0x65ae343c # 0xbb093448 # 0x9aa8f6be # 0xa44b92ff # 0xdb803bcf # 0xf3ed1a8f #
      0x00000060 # 0x00000000 # 0x00000000 # 0x00000000 # 0x00000000 # 0x00000000 # 0x00000000 # 0x00000000 # ws"
  by (simp add: schedule_numeral sigma0_def sigma1_def rotr_def)

lemma schedule_readme_v2_2:
  "schedule 8
     (0xb8850b1f # 0xcb1800a2 # 0x32fcff4a # 0x5442c40d # 0xd49a70b5 # 0xa0ae4ecb # 0xea503c46 # 0x910aa502 #
      0xd06df07e # 0xbc838908 # 0x65ae343c # 0xbb093448 # 0x9aa8f6be # 0xa44b92ff # 0xdb803bcf # 0xf3ed1a8f # ws) =
      0xa3838316 # 0xb9910b5a # 0x1d911300 # 0xe62bbe4a # 0x3e77ea80 # 0x366b313c # 0xb06ea112 # 0x68ea43b2 #
      0xb8850b1f # 0xcb1800a2 # 0x32fcff4a # 0x5442c40d # 0xd49a70b5 # 0xa0ae4ecb # 0xea503c46 # 0x910aa502 #
      0xd06df07e # 0xbc838908 # 0x65ae343c # 0xbb093448 # 0x9aa8f6be # 0xa44b92ff # 0xdb803bcf # 0xf3ed1a8f # ws"
  by (simp add: schedule_numeral sigma0_def sigma1_def rotr_def)

lemma schedule_readme_v2_3:
  "schedule 8
     (0xa3838316 # 0xb9910b5a # 0x1d911300 # 0xe62bbe4a # 0x3e77ea80 # 0x366b313c # 0xb06ea112 # 0x68ea43b2 #
      0xb8850b1f # 0xcb1800a2 # 0x32fcff4a # 0x5442c40d # 0xd49a70b5 # 0xa0ae4ecb # 0xea503c46 # 0x910aa502 # ws) =
      0x94253952 # 0x8791310d # 0xecff6120 # 0xd4e3b0c5 # 0x1dfbac21 # 0x401c778e # 0xe3635042 # 0x85f0d330 #
      0xa3838316 # 0xb9910b5a # 0x1d911300 # 0xe62bbe4a # 0x3e77ea80 # 0x366b313c # 0xb06ea112 # 0x68ea43b2 #
      0xb8850b1f # 0xcb1800a2 # 0x32fcff4a # 0x5442c40d # 0xd49a70b5 # 0xa0ae4ecb # 0xea503c46 # 0x910aa502 # ws"
  by (simp add: schedule_numeral sigma0_def sigma1_def rotr_def)

lemma schedule_readme_v2_4:
  "schedule 8
     (0x94253952 # 0x8791310d # 0xecff6120 # 0xd4e3b0c5 # 0x1dfbac21 # 0x401c778e # 0xe3635042 # 0x85f0d330 #
      0xa3838316 # 0xb9910b5a # 0x1d911300 # 0xe62bbe4a # 0x3e77ea80 # 0x366b313c # 0xb06ea112 # 0x68ea43b2 # ws) =
      0x08a204d0 # 0x55418d36 # 0x4ae8c38a # 0x25fd1c28 # 0x830e081a # 0xa3c013aa # 0xdf1fe857 # 0xa5fdd0e5 #
      0x94253952 # 0x8791310d # 0xecff6120 # 0xd4e3b0c5 # 0x1dfbac21 # 0x401c778e # 0xe3635042 # 0x85f0d330 #
      0xa3838316 # 0xb9910b5a # 0x1d911300 # 0xe62bbe4a # 0x3e77ea80 # 0x366b313c # 0xb06ea112 # 0x68ea43b2 # ws"
  by (simp add: schedule_numeral sigma0_def sigma1_def rotr_def)

lemma schedule_readme_v2_5:
  "schedule 8
     (0x08a204d0 # 0x55418d36 # 0x4ae8c38a # 0x25fd1c28 # 0x830e081a # 0xa3c013aa # 0xdf1fe857 # 0xa5fdd0e5 #
      0x94253952 # 0x8791310d # 0xecff6120 # 0xd4e3b0c5 # 0x1dfbac21 # 0x401c778e # 0xe3635042 # 0x85f0d330 # ws) =
      0x3d36d3e7 # 0x3b6a343e # 0x2880876e # 0x5d4c7d16 # 0x6e269bc4 # 0x1dcec271 # 0xd373b7c9 # 0xa9f38062 #
      0x08a204d0 # 0x55418d36 # 0x4ae8c38a # 0x25fd1c28 # 0x830e081a # 0xa3c013aa # 0xdf1fe857 # 0xa5fdd0e5 #
      0x94253952 # 0x8791310d # 0xecff6120 # 0xd4e3b0c5 # 0x1dfbac21 # 0x401c778e # 0xe3635042 # 0x85f0d330 # ws"
  by (simp add: schedule_numeral sigma0_def sigma1_def rotr_def)

lemma rounds_readme_v2_0:
  "foldl sha_round (0x6a09e667, 0xbb67ae85, 0x3c6ef372, 0xa54ff53a, 0x510e527f, 0x9b05688c, 0x1f83d9ab, 0x5be0cd19)
     [(0x428a2f98, 0x646f6372), (0x71374491, 0x6561646d), (0xb5c0fbcf, 0x65207632), (0xe9b5dba5, 0x80000000),
     (0x3956c25b, 0x00000000), (0x59f111f1, 0x00000000), (0x923f82a4, 0x00000000), (0xab1c5ed5, 0x00000000)] =
   (0xade40c20, 0xbb7b49cd, 0x7292e8f0, 0xa8ed6386, 0x731d43a2, 0xde57f619, 0xfac5d584, 0x38385fe8)"
  by (simp add: sha_round_def Sigma0_def Sigma1_def Ch_def Maj_def rotr_def)

lemma rounds_readme_v2_1:
  "foldl sha_round (0xade40c20, 0xbb7b49cd, 0x7292e8f0, 0xa8ed6386, 0x731d43a2, 0xde57f619, 0xfac5d584, 0x38385fe8)
     [(0xd807aa98, 0x00000000), (0x12835b01, 0x00000000), (0x243185be, 0x00000000), (0x550c7dc3, 0x00000000),
     (0x72be5d74, 0x00000000), (0x80deb1fe, 0x00000000), (0x9bdc06a7, 0x00000000), (0xc19bf174, 0x00000060)] =
   (0xcf99820a, 0x77be6387, 0xbb657280, 0xfa807a18, 0xd8af9136, 0x548615ea, 0x599d50b9, 0xd44b808b)"
  by (simp add: sha_round_def Sigma0_def Sigma1_def Ch_def Maj_def rotr_def)

lemma rounds_readme_v2_2:
  "foldl sha_round (0xcf99820a, 0x77be6387, 0xbb657280, 0xfa807a18, 0xd8af9136, 0x548615ea, 0x599d50b9, 0xd44b808b)
     [(0xe49b69c1, 0xf3ed1a8f), (0xefbe4786, 0xdb803bcf), (0x0fc19dc6, 0xa44b92ff), (0x240ca1cc, 0x9aa8f6be),
     (0x2de92c6f, 0xbb093448), (0x4a7484aa, 0x65ae343c), (0x5cb0a9dc, 0xbc838908), (0x76f988da, 0xd06df07e)] =
   (0x910e55c2, 0x6d899140, 0xad542e51, 0x7039b189, 0x4436f298, 0xb85d0405, 0x47c6ba5b, 0x08d4517a)"
  by (simp add: sha_round_def Sigma0_def Sigma1_def Ch_def Maj_def rotr_def)

lemma rounds_readme_v2_3:
  "foldl sha_round (0x910e55c2, 0x6d899140, 0xad542e51, 0x7039b189, 0x4436f298, 0xb85d0405, 0x47c6ba5b, 0x08d4517a)
     [(0x983e5152, 0x910aa502), (0xa831c66d, 0xea503c46), (0xb00327c8, 0xa0ae4ecb), (0xbf597fc7, 0xd49a70b5),
     (0xc6e00bf3, 0x5442c40d), (0xd5a79147, 0x32fcff4a), (0x06ca6351, 0xcb1800a2), (0x14292967, 0xb8850b1f)] =
   (0x7fcec351, 0xe347dc6b, 0xb463b5c7, 0x11848e68, 0x6b26d62d, 0xaa699cbe, 0x14115f6a, 0xae1ee938)"
  by (simp add: sha_round_def Sigma0_def Sigma1_def Ch_def Maj_def rotr_def)

lemma rounds_readme_v2_4:
  "foldl sha_round (0x7fcec351, 0xe347dc6b, 0xb463b5c7, 0x11848e68, 0x6b26d62d, 0xaa699cbe, 0x14115f6a, 0xae1ee938)
     [(0x27b70a85, 0x68ea43b2), (0x2e1b2138, 0xb06ea112), (0x4d2c6dfc, 0x366b313c), (0x53380d13, 0x3e77ea80),
     (0x650a7354, 0xe62bbe4a), (0x766a0abb, 0x1d911300), (0x81c2c92e, 0xb9910b5a), (0x92722c85, 0xa3838316)] =
   (0xa6652bc9, 0xffe719f9, 0xe6ad12d4, 0x688128f5, 0xd6ba3740, 0xae454cd7, 0x6fe18f35, 0xb848b7f9)"
  by (simp add: sha_round_def Sigma0_def Sigma1_def Ch_def Maj_def rotr_def)

lemma rounds_readme_v2_5:
  "foldl sha_round (0xa6652bc9, 0xffe719f9, 0xe6ad12d4, 0x688128f5, 0xd6ba3740, 0xae454cd7, 0x6fe18f35, 0xb848b7f9)
     [(0xa2bfe8a1, 0x85f0d330), (0xa81a664b, 0xe3635042), (0xc24b8b70, 0x401c778e), (0xc76c51a3, 0x1dfbac21),
     (0xd192e819, 0xd4e3b0c5), (0xd6990624, 0xecff6120), (0xf40e3585, 0x8791310d), (0x106aa070, 0x94253952)] =
   (0x0986ed1e, 0xf1efec15, 0x2a63ba64, 0x115fd5ff, 0x10ee0fcb, 0x51889b41, 0xa0576fd2, 0x08ef9fd3)"
  by (simp add: sha_round_def Sigma0_def Sigma1_def Ch_def Maj_def rotr_def)

lemma rounds_readme_v2_6:
  "foldl sha_round (0x0986ed1e, 0xf1efec15, 0x2a63ba64, 0x115fd5ff, 0x10ee0fcb, 0x51889b41, 0xa0576fd2, 0x08ef9fd3)
     [(0x19a4c116, 0xa5fdd0e5), (0x1e376c08, 0xdf1fe857), (0x2748774c, 0xa3c013aa), (0x34b0bcb5, 0x830e081a),
     (0x391c0cb3, 0x25fd1c28), (0x4ed8aa4a, 0x4ae8c38a), (0x5b9cca4f, 0x55418d36), (0x682e6ff3, 0x08a204d0)] =
   (0xbe94421d, 0x57e92cb0, 0x94b75006, 0x347626e7, 0x42462f7e, 0x85969bfd, 0x08a460e3, 0x6318588e)"
  by (simp add: sha_round_def Sigma0_def Sigma1_def Ch_def Maj_def rotr_def)

lemma rounds_readme_v2_7:
  "foldl sha_round (0xbe94421d, 0x57e92cb0, 0x94b75006, 0x347626e7, 0x42462f7e, 0x85969bfd, 0x08a460e3, 0x6318588e)
     [(0x748f82ee, 0xa9f38062), (0x78a5636f, 0xd373b7c9), (0x84c87814, 0x1dcec271), (0x8cc70208, 0x6e269bc4),
     (0x90befffa, 0x5d4c7d16), (0xa4506ceb, 0x2880876e), (0xbef9a3f7, 0x3b6a343e), (0xc67178f2, 0x3d36d3e7)] =
   (0x5aa62bb1, 0xc317dfed, 0x4ddf81b1, 0xf193680d, 0xb64544bc, 0x1d468fa9, 0x96dbe25f, 0xfd34ef12)"
  by (simp add: sha_round_def Sigma0_def Sigma1_def Ch_def Maj_def rotr_def)

lemma compress_readme_v2:
  "compress H256
      [0x646f6372, 0x6561646d, 0x65207632, 0x80000000, 0x00000000, 0x00000000, 0x00000000, 0x00000000,
      0x00000000, 0x00000000, 0x00000000, 0x00000000, 0x00000000, 0x00000000, 0x00000000, 0x00000060] =
   (0xc4b01218, 0x7e7f8e72, 0x8a4e7523, 0x96e35d47, 0x0753973b, 0xb84bf835, 0xb65fbc0a, 0x5915bc2b)"
  unfolding compress_def rev.simps append.simps schedule_48
    schedule_readme_v2_0 schedule_readme_v2_1 schedule_readme_v2_2 schedule_readme_v2_3 schedule_readme_v2_4 schedule_readme_v2_5
    K256_def concat.simps zip_Cons_Cons zip_Nil H256_def
  apply (subst foldl_8, subst rounds_readme_v2_0)
  apply (subst foldl_8, subst rounds_readme_v2_1)
  apply (subst foldl_8, subst rounds_readme_v2_2)
  apply (subst foldl_8, subst rounds_readme_v2_3)
  apply (subst foldl_8, subst rounds_readme_v2_4)
  apply (subst foldl_8, subst rounds_readme_v2_5)
  apply (subst foldl_8, subst rounds_readme_v2_6)
  apply (subst foldl_8, subst rounds_readme_v2_7)
  by (simp add: add_state_def)

lemma contentHash_readme_v2: "contentHash ''doc'' ''readme v2'' = ''c4b01218''"
  by (simp add: contentHash_def sha256_hex_def block_readme_v2 compress_readme_v2 hex32_def hexdigit_def upt_0_8)

text \<open>
  C2. Claimed: the fingerprint is a stable digest of eight hexadecimal characters,
  deterministic, and changing either the document or the specification changes it. As
  the code has it: the fingerprint is a function of the concatenation of the two
  contents (so equal inputs give equal output, and so do any two pairs with the same
  concatenation), and it always is eight characters out of \<open>0-9a-f\<close>. On the fixtures
  of the repository's tests it has the values of SHA-256, and changing the document
  (\<open>doc A\<close>, \<open>doc B\<close>) or the specification (\<open>readme v1\<close>, \<open>readme v2\<close>)
  changes it. In general different inputs need not give different fingerprints.
\<close>

theorem contentHash_digest:
  "length (contentHash d r) = 8 \<and>
   set (contentHash d r) \<subseteq> set ''0123456789abcdef'' \<and>
   (\<forall>d' r'. d @ r = d' @ r' \<longrightarrow> contentHash d r = contentHash d' r') \<and>
   contentHash ''doc A'' ''readme'' = ''ef34b865'' \<and>
   contentHash ''doc B'' ''readme'' = ''aee5414d'' \<and>
   contentHash ''doc'' ''readme v1'' = ''a4a9f304'' \<and>
   contentHash ''doc'' ''readme v2'' = ''c4b01218'' \<and>
   contentHash ''doc A'' ''readme'' \<noteq> contentHash ''doc B'' ''readme'' \<and>
   contentHash ''doc'' ''readme v1'' \<noteq> contentHash ''doc'' ''readme v2''"
proof (intro conjI allI impI)
  show "length (contentHash d r) = 8"
    by (rule length_contentHash)
  show "set (contentHash d r) \<subseteq> set ''0123456789abcdef''"
    using set_contentHash by (simp only: hex_digits_def)
  show "contentHash d r = contentHash d' r'" if "d @ r = d' @ r'" for d' r'
    using that by (simp add: contentHash_def)
  show "contentHash ''doc A'' ''readme'' = ''ef34b865''"
    by (rule contentHash_doc_A)
  show "contentHash ''doc B'' ''readme'' = ''aee5414d''"
    by (rule contentHash_doc_B)
  show "contentHash ''doc'' ''readme v1'' = ''a4a9f304''"
    by (rule contentHash_readme_v1)
  show "contentHash ''doc'' ''readme v2'' = ''c4b01218''"
    by (rule contentHash_readme_v2)
  show "contentHash ''doc A'' ''readme'' \<noteq> contentHash ''doc B'' ''readme''"
    by (simp add: contentHash_doc_A contentHash_doc_B)
  show "contentHash ''doc'' ''readme v1'' \<noteq> contentHash ''doc'' ''readme v2''"
    by (simp add: contentHash_readme_v1 contentHash_readme_v2)
qed

theorem contentHash_digest_witness:
  "''ab'' @ ''c'' = ''a'' @ ''bc'' \<and> contentHash ''ab'' ''c'' = contentHash ''a'' ''bc'' \<and>
   length (contentHash ''ab'' ''c'') = 8"
proof -
  have h: "''ab'' @ ''c'' = ''a'' @ ''bc''" by simp
  note whole = contentHash_digest [of "''ab''" "''c''"]
  show ?thesis
    by (intro conjI h whole [THEN conjunct2, THEN conjunct2, THEN conjunct1, rule_format, OF h]
          whole [THEN conjunct1])
qed

theorem contentHash_counterexample:
  "contentHash ''ab'' ''c'' = contentHash ''a'' ''bc'' \<and>
   \<not> (\<forall>d d' r. d \<noteq> d' \<longrightarrow> contentHash d r \<noteq> contentHash d' r) \<and>
   \<not> (\<forall>d r r'. r \<noteq> r' \<longrightarrow> contentHash d r \<noteq> contentHash d r')"
proof (intro conjI)
  show "contentHash ''ab'' ''c'' = contentHash ''a'' ''bc''"
    by (simp add: contentHash_def)
  show "\<not> (\<forall>d d' r. d \<noteq> d' \<longrightarrow> contentHash d r \<noteq> contentHash d' r)"
    using contentHash_collides by blast
  have "\<exists>r r'. r \<noteq> r' \<and> contentHash [] r = contentHash [] r'"
    using contentHash_collides [of "[]"] by (simp add: contentHash_def)
  then show "\<not> (\<forall>d r r'. r \<noteq> r' \<longrightarrow> contentHash d r \<noteq> contentHash d r')"
    by blast
qed

section \<open>Properties of the reply parser\<close>





section \<open>Properties of the role compiler\<close>

subsection \<open>Inlining\<close>

lemma existsSync_console [simp]: "existsSync (s\<lparr>console := c\<rparr>) p = existsSync s p"
  by (simp add: existsSync_def is_file_def)

lemma found_bodies_console [simp]: "found_bodies rc (s\<lparr>console := c\<rparr>) ps = found_bodies rc s ps"
  by (simp add: found_bodies_def)

lemma missing_warnings_console [simp]:
  "missing_warnings what rc (s\<lparr>console := c\<rparr>) ps = missing_warnings what rc s ps"
  by (simp add: missing_warnings_def)

lemma inline_paths_eq:
  "inline_paths what rc ps s =
     (Inr (found_bodies rc s ps), s\<lparr>console := console s @ missing_warnings what rc s ps\<rparr>)"
proof (induction ps arbitrary: s)
  case Nil
  then show ?case by (simp add: return_def found_bodies_def missing_warnings_def)
next
  case (Cons p ps)
  show ?case
  proof (cases "existsSync s (join [root rc, p])")
    case True
    then show ?thesis
      by (simp add: Let_def bind_def return_def Cons.IH found_bodies_def missing_warnings_def)
  next
    case False
    then show ?thesis
      using Cons.IH [of "s\<lparr>console := console s @ [Warn (what @ p)]\<rparr>"]
      by (simp add: Let_def bind_def logger_warn_def found_bodies_def missing_warnings_def)
  qed
qed

lemma zero_match_loop_eq:
  "zero_match_loop rc ps s = (Inr (), s\<lparr>console := console s @ zero_match_warnings rc ps\<rparr>)"
proof (induction ps arbitrary: s)
  case Nil
  then show ?case by (simp add: return_def zero_match_warnings_def)
next
  case (Cons p ps)
  show ?case
    using Cons.IH [of s]
      Cons.IH [of "s\<lparr>console := console s @ [Warn (''Glob pattern matched zero files: '' @ p)]\<rparr>"]
    by (simp add: bind_def logger_warn_def zero_match_warnings_def)
qed

lemma inlineRefs_eq:
  "inlineRefs rc ps s =
     (Inr (found_bodies rc s (expandAll (globExpander rc) ps)),
      s\<lparr>console := console s @ zero_match_warnings rc ps
            @ missing_warnings ''Referenced file not found: '' rc s (expandAll (globExpander rc) ps)\<rparr>)"
  by (simp add: inlineRefs_def bind_def zero_match_loop_eq inline_paths_eq)

lemma resolve_true:
  "resolveConstitutionPatterns rc (YBool True) s =
     (Inr [], s\<lparr>console := console s @ [Warn deprecation_message]\<rparr>)"
  by (simp add: resolveConstitutionPatterns_def truthy_def bind_def logger_warn_def return_def)

lemma inlineConstitution_true:
  "fm_constitution fm = YBool True \<Longrightarrow>
   inlineConstitution rc fm s = (Inr [], s\<lparr>console := console s @ [Warn deprecation_message]\<rparr>)"
  by (simp add: inlineConstitution_def Let_def bind_def resolve_true return_def)

lemma only_printed_refl [simp]: "only_printed s s"
  unfolding only_printed_def by (rule exI [of _ "[]"]) simp

lemma found_bodies_Nil [simp]: "found_bodies rc s [] = []"
  by (simp add: found_bodies_def)

lemma missing_warnings_Nil [simp]: "missing_warnings what rc s [] = []"
  by (simp add: missing_warnings_def)

lemma only_printed_step [simp]: "only_printed s (s\<lparr>console := console s @ ws\<rparr>)"
  by (auto simp: only_printed_def)

lemma only_printed_trans: "only_printed s t \<Longrightarrow> only_printed t u \<Longrightarrow> only_printed s u"
  by (auto simp: only_printed_def)

lemma only_printed_exists: "only_printed s t \<Longrightarrow> existsSync t p = existsSync s p"
  by (auto simp: only_printed_def)

lemma only_printed_files: "only_printed s t \<Longrightarrow> files t = files s"
  by (auto simp: only_printed_def)

lemma only_printed_console: "only_printed s t \<Longrightarrow> \<exists>ws. console t = console s @ ws"
  by (auto simp: only_printed_def)

lemma resolve_printed:
  "\<exists>ps s'. resolveConstitutionPatterns rc raw s = (Inr ps, s') \<and> only_printed s s'"
  by (simp add: resolveConstitutionPatterns_def bind_def logger_warn_def return_def Let_def)

lemma inlineConstitution_printed:
  "\<exists>bodies s'. inlineConstitution rc fm s = (Inr bodies, s') \<and> only_printed s s'"
proof -
  obtain ps s1 where r: "resolveConstitutionPatterns rc (fm_constitution fm) s = (Inr ps, s1)"
    and p1: "only_printed s s1"
    using resolve_printed by blast
  let ?s2 = "if truthy (fm_constitution fm) \<and> fm_constitution fm \<noteq> YBool True \<and> length ps = 0
             then s1\<lparr>console := console s1 @ [Warn ''Constitution patterns matched zero files'']\<rparr>
             else s1"
  have p2: "only_printed s1 ?s2" by simp
  have "inlineConstitution rc fm s =
          (Inr (found_bodies rc ?s2 ps),
           ?s2\<lparr>console := console ?s2 @ missing_warnings ''Constitution file not found: '' rc ?s2 ps\<rparr>)"
    by (simp add: inlineConstitution_def Let_def bind_def r logger_warn_def return_def
          inline_paths_eq)
  moreover have "only_printed s
      (?s2\<lparr>console := console ?s2 @ missing_warnings ''Constitution file not found: '' rc ?s2 ps\<rparr>)"
    using p1 p2 only_printed_step only_printed_trans by blast
  ultimately show ?thesis by blast
qed

lemma buildAgentMetadata_printed:
  "\<exists>m s'. buildAgentMetadata fm a s = (Inr m, s') \<and> only_printed s s'"
  by (simp add: buildAgentMetadata_def bind_def logger_warn_def return_def)

lemma inlineRefs_printed:
  "\<exists>s'. inlineRefs rc ps s = (Inr (found_bodies rc s (expandAll (globExpander rc) ps)), s') \<and>
        only_printed s s' \<and>
        set (missing_warnings ''Referenced file not found: '' rc s (expandAll (globExpander rc) ps))
          \<subseteq> set (console s')"
  by (simp add: inlineRefs_eq) auto

lemma found_bodies_printed: "only_printed s t \<Longrightarrow> found_bodies rc t ps = found_bodies rc s ps"
  by (auto simp: only_printed_def)

lemma missing_warnings_printed:
  "only_printed s t \<Longrightarrow> missing_warnings what rc t ps = missing_warnings what rc s ps"
  by (auto simp: only_printed_def)

lemma only_printed_console_mono: "only_printed s t \<Longrightarrow> set (console s) \<subseteq> set (console t)"
  by (auto simp: only_printed_def)








lemma buildRoleProfile_eq:
  "\<exists>rs cs xs m s'.
     buildRoleProfile rc roleFile fm a s =
       (Inr (buildProfile
               \<lparr>role_bodies = [body_of rc roleFile], responsibilities_bodies = rs,
                constitution_bodies = cs, context_bodies = xs,
                reference_bodies = found_bodies rc s (expandAll (globExpander rc) (fm_refs fm))\<rparr>,
             m), s') \<and>
     only_printed s s' \<and>
     (fm_constitution fm = YBool True \<longrightarrow> cs = []) \<and>
     set (missing_warnings ''Referenced file not found: '' rc s
            (expandAll (globExpander rc) (fm_refs fm))) \<subseteq> set (console s')"
proof -
  obtain m s1 where e1: "buildAgentMetadata fm a s = (Inr m, s1)" and p1: "only_printed s s1"
    using buildAgentMetadata_printed by blast
  obtain s2 where e2: "inlineRefs rc (fm_responsibilities fm) s1 =
        (Inr (found_bodies rc s1 (expandAll (globExpander rc) (fm_responsibilities fm))), s2)"
    and p2: "only_printed s1 s2"
    using inlineRefs_printed by blast
  obtain cs s3 where e3: "inlineConstitution rc fm s2 = (Inr cs, s3)" and p3: "only_printed s2 s3"
    using inlineConstitution_printed by blast
  have cs: "fm_constitution fm = YBool True \<longrightarrow> cs = []"
    using e3 by (auto simp: inlineConstitution_true)
  obtain s4 where e4: "inlineRefs rc (fm_context fm) s3 =
        (Inr (found_bodies rc s3 (expandAll (globExpander rc) (fm_context fm))), s4)"
    and p4: "only_printed s3 s4"
    using inlineRefs_printed by blast
  obtain s5 where e5: "inlineRefs rc (fm_refs fm) s4 =
        (Inr (found_bodies rc s4 (expandAll (globExpander rc) (fm_refs fm))), s5)"
    and p5: "only_printed s4 s5"
    and w5: "set (missing_warnings ''Referenced file not found: '' rc s4
                    (expandAll (globExpander rc) (fm_refs fm))) \<subseteq> set (console s5)"
    using inlineRefs_printed by blast
  have p04: "only_printed s s4"
    using p1 p2 p3 p4 only_printed_trans by blast
  then have p05: "only_printed s s5"
    using p5 only_printed_trans by blast
  have "buildRoleProfile rc roleFile fm a s =
       (Inr (buildProfile
               \<lparr>role_bodies = [body_of rc roleFile],
                responsibilities_bodies =
                  found_bodies rc s1 (expandAll (globExpander rc) (fm_responsibilities fm)),
                constitution_bodies = cs,
                context_bodies = found_bodies rc s3 (expandAll (globExpander rc) (fm_context fm)),
                reference_bodies = found_bodies rc s (expandAll (globExpander rc) (fm_refs fm))\<rparr>,
             m), s5)"
    by (simp add: buildRoleProfile_def bind_def e1 e2 e3 e4 e5 return_def
          found_bodies_printed [OF p04])
  moreover have "set (missing_warnings ''Referenced file not found: '' rc s
            (expandAll (globExpander rc) (fm_refs fm))) \<subseteq> set (console s5)"
    using w5 by (simp add: missing_warnings_printed [OF p04])
  ultimately show ?thesis
    using p05 cs by blast
qed

subsection \<open>What compiling prints\<close>

lemma group_warnings_console [simp]:
  "group_warnings rc (s\<lparr>console := c\<rparr>) ps = group_warnings rc s ps"
  by (simp add: group_warnings_def)

lemma inlineRefs_group:
  "inlineRefs rc ps s =
     (Inr (found_bodies rc s (expandAll (globExpander rc) ps)),
      s\<lparr>console := console s @ group_warnings rc s ps\<rparr>)"
  by (simp add: inlineRefs_eq group_warnings_def)

lemma buildAgentMetadata_eq:
  "\<exists>m. buildAgentMetadata fm a s = (Inr m, s\<lparr>console := console s @ description_warning fm\<rparr>)"
  by (simp add: buildAgentMetadata_def description_warning_def bind_def logger_warn_def
        return_def)

lemma buildRoleProfile_true:
  assumes "fm_constitution fm = YBool True"
  shows "\<exists>m. buildRoleProfile rc roleFile fm a s =
           (Inr (buildProfile
                   \<lparr>role_bodies = [body_of rc roleFile],
                    responsibilities_bodies =
                      found_bodies rc s (expandAll (globExpander rc) (fm_responsibilities fm)),
                    constitution_bodies = [],
                    context_bodies = found_bodies rc s (expandAll (globExpander rc) (fm_context fm)),
                    reference_bodies = found_bodies rc s (expandAll (globExpander rc) (fm_refs fm))\<rparr>,
                 m),
            s\<lparr>console := console s @ description_warning fm
                  @ group_warnings rc s (fm_responsibilities fm)
                  @ [Warn deprecation_message]
                  @ group_warnings rc s (fm_context fm)
                  @ group_warnings rc s (fm_refs fm)\<rparr>)"
proof -
  obtain m where e1: "buildAgentMetadata fm a s
                        = (Inr m, s\<lparr>console := console s @ description_warning fm\<rparr>)"
    using buildAgentMetadata_eq by blast
  show ?thesis
    by (rule exI [of _ m])
       (simp add: buildRoleProfile_def bind_def e1 inlineRefs_group
          inlineConstitution_true [OF assms] return_def)
qed

lemma deprecation_not_group: "Warn deprecation_message \<notin> set (group_warnings rc s ps)"
  by (auto simp: group_warnings_def zero_match_warnings_def missing_warnings_def
        deprecation_message_def)

lemma deprecation_not_description: "Warn deprecation_message \<notin> set (description_warning fm)"
  by (simp add: description_warning_def deprecation_message_def)

lemma deprecation_once:
  "count_list (description_warning fm @ group_warnings rc s rs @ [Warn deprecation_message]
               @ group_warnings rc s xs @ group_warnings rc s fs) (Warn deprecation_message) = 1"
  using deprecation_not_group [of rc s rs] deprecation_not_group [of rc s xs]
    deprecation_not_group [of rc s fs] deprecation_not_description [of fm]
  by (simp add: count_list_0_iff)

text \<open>Writing the outputs prints nothing, whether it fails or not.\<close>

lemma bind_console:
  assumes "\<And>s. console (snd (m s)) = console s"
    and "\<And>x s. console (snd (f x s)) = console s"
  shows "console (snd (bind m f s)) = console s"
proof (cases "m s")
  case (Pair r s1)
  with assms(1) [of s] have c: "console s1 = console s" by simp
  show ?thesis
  proof (cases r)
    case (Inl e)
    with Pair c show ?thesis by (simp add: bind_def)
  next
    case (Inr x)
    with Pair c assms(2) [of x s1] show ?thesis by (simp add: bind_def)
  qed
qed

lemma mkdirSync_console: "console (snd (mkdirSync p s)) = console s"
  by (simp add: mkdirSync_def)

lemma writeFileSync_console: "console (snd (writeFileSync p t s)) = console s"
  by (simp add: writeFileSync_def split: option.splits write_fault.splits)

lemma guarded_mkdir_console:
  "console (snd ((\<lambda>s. if \<not> existsSync s d then mkdirSync d s else (Inr (), s)) s)) = console s"
  by (simp add: mkdirSync_console)

lemma plugin_compile_console: "console (snd (plugin_compile pl pr md a s)) = console s"
proof (cases pl)
  case (ClaudeCodePlugin d)
  show ?thesis
    unfolding ClaudeCodePlugin plugin_compile.simps Let_def
    by (rule bind_console) (simp_all add: mkdirSync_console writeFileSync_console)
next
  case OptionsObject
  then show ?thesis by (simp add: throw_def)
qed

lemma plugins_loop_console: "console (snd (plugins_loop ps pr md a s)) = console s"
proof (induction ps arbitrary: s)
  case Nil
  then show ?case by (simp add: return_def)
next
  case (Cons pl ps)
  show ?case
    unfolding plugins_loop.simps
    by (rule bind_console) (simp_all add: plugin_compile_console Cons.IH)
qed

lemma write_profile_console: "console (snd (write_profile rc pr a s)) = console s"
proof (cases "agentProfilesOutputDir (config rc)")
  case None
  then show ?thesis by (simp add: write_profile_def return_def)
next
  case (Some d)
  show ?thesis
  proof (cases "d = []")
    case True
    with Some show ?thesis by (simp add: write_profile_def return_def)
  next
    case False
    have "console (snd (bind (\<lambda>s. if \<not> existsSync s d then mkdirSync d s else (Inr (), s))
              (\<lambda>_. writeFileSync (join [d, toLowerCase a @ ''.md'']) (PlainText pr)) s)) = console s"
      by (rule bind_console) (simp_all add: mkdirSync_console writeFileSync_console)
    with Some False show ?thesis by (simp add: write_profile_def)
  qed
qed

lemma writeOutputs_console: "console (snd (writeOutputs rc pr md a s)) = console s"
  unfolding writeOutputs_def
proof (rule bind_console)
  show "console (snd (write_profile rc pr a s)) = console s" for s
    by (rule write_profile_console)
  show "console (snd (bind (lift (resolvePlugins (plugins (config rc)) (root rc)
                                    (pluginsOutputDir (config rc)) (pluginName (config rc))))
                        (\<lambda>ps. plugins_loop ps pr md a) s)) = console s" for x :: unit and s
    by (rule bind_console) (simp_all add: lift_def plugins_loop_console)
qed

lemma compile_console:
  assumes "present (fm_alias fm)"
    and "buildRoleProfile rc roleFile fm (the (fm_alias fm)) s = (Inr built, s1)"
  shows "console (snd (compile rc (roleFile, fm) s))
           = console s1 @ (case fst (compile rc (roleFile, fm) s) of
                             Inl e \<Rightarrow> []
                           | Inr r \<Rightarrow> [Success (''Compiled '' @ toLowerCase (the (fm_alias fm))
                                                  @ ''.md'')])"
proof -
  let ?a = "the (fm_alias fm)"
  obtain r s2 where w: "writeOutputs rc (fst built) (snd built) ?a s1 = (r, s2)"
    by (cases "writeOutputs rc (fst built) (snd built) ?a s1")
  with writeOutputs_console [of rc "fst built" "snd built" ?a s1]
  have c: "console s2 = console s1" by simp
  show ?thesis
  proof (cases r)
    case (Inl e)
    with assms w c show ?thesis
      by (simp add: compile_def Let_def bind_def)
  next
    case (Inr u)
    with assms w c show ?thesis
      by (simp add: compile_def Let_def bind_def logger_success_def return_def)
  qed
qed

text \<open>
  C5. Compiling a manifest with \<open>constitution: true\<close> expands nothing: the list of
  constitution paths and the list of constitution bodies are empty whatever the expander
  and the files are, and the one thing printed for the group is the deprecation warning.
  The profile is built with no constitution body and has no Constitution section. What
  building the profile prints is, in this order: the warning of a missing description,
  the warnings of the responsibilities, the deprecation warning, the warnings of the
  context and those of the references; the deprecation warning occurs once among them,
  and \<open>compile\<close> prints just these, followed by its line of success when the outputs
  were written.
\<close>

theorem constitution_true_deprecated:
  assumes "fm_constitution fm = YBool True"
  shows "resolveConstitutionPatterns rc (fm_constitution fm) s
           = (Inr [], s\<lparr>console := console s @ [Warn deprecation_message]\<rparr>) \<and>
         inlineConstitution rc fm s
           = (Inr [], s\<lparr>console := console s @ [Warn deprecation_message]\<rparr>) \<and>
         (\<exists>m. buildRoleProfile rc roleFile fm a s =
            (Inr (buildProfile
                    \<lparr>role_bodies = [body_of rc roleFile],
                     responsibilities_bodies =
                       found_bodies rc s (expandAll (globExpander rc) (fm_responsibilities fm)),
                     constitution_bodies = [],
                     context_bodies =
                       found_bodies rc s (expandAll (globExpander rc) (fm_context fm)),
                     reference_bodies =
                       found_bodies rc s (expandAll (globExpander rc) (fm_refs fm))\<rparr>,
                  m),
             s\<lparr>console := console s @ description_warning fm
                   @ group_warnings rc s (fm_responsibilities fm)
                   @ [Warn deprecation_message]
                   @ group_warnings rc s (fm_context fm)
                   @ group_warnings rc s (fm_refs fm)\<rparr>)) \<and>
         count_list (description_warning fm @ group_warnings rc s (fm_responsibilities fm)
                     @ [Warn deprecation_message] @ group_warnings rc s (fm_context fm)
                     @ group_warnings rc s (fm_refs fm)) (Warn deprecation_message) = 1 \<and>
         (present (fm_alias fm) \<longrightarrow>
            console (snd (compile rc (roleFile, fm) s))
              = console s @ description_warning fm
                  @ group_warnings rc s (fm_responsibilities fm)
                  @ [Warn deprecation_message]
                  @ group_warnings rc s (fm_context fm)
                  @ group_warnings rc s (fm_refs fm)
                  @ (case fst (compile rc (roleFile, fm) s) of
                       Inl e \<Rightarrow> []
                     | Inr r \<Rightarrow> [Success (''Compiled '' @ toLowerCase (the (fm_alias fm))
                                            @ ''.md'')])) \<and>
         (\<forall>r rs xs fs.
            buildProfile \<lparr>role_bodies = r, responsibilities_bodies = rs,
                          constitution_bodies = [], context_bodies = xs, reference_bodies = fs\<rparr>
              = join_with blank_line
                  (map render_section
                     (filter (\<lambda>sec. snd sec \<noteq> [])
                        [(''Role'', r), (''Responsibilities'', rs), (''Context'', xs),
                         (''Reference'', fs)])))"
proof (intro conjI allI impI)
  show "resolveConstitutionPatterns rc (fm_constitution fm) s
           = (Inr [], s\<lparr>console := console s @ [Warn deprecation_message]\<rparr>)"
    by (simp add: assms resolve_true)
  show "inlineConstitution rc fm s
           = (Inr [], s\<lparr>console := console s @ [Warn deprecation_message]\<rparr>)"
    using assms by (rule inlineConstitution_true)
  show "\<exists>m. buildRoleProfile rc roleFile fm a s =
            (Inr (buildProfile
                    \<lparr>role_bodies = [body_of rc roleFile],
                     responsibilities_bodies =
                       found_bodies rc s (expandAll (globExpander rc) (fm_responsibilities fm)),
                     constitution_bodies = [],
                     context_bodies =
                       found_bodies rc s (expandAll (globExpander rc) (fm_context fm)),
                     reference_bodies =
                       found_bodies rc s (expandAll (globExpander rc) (fm_refs fm))\<rparr>,
                  m),
             s\<lparr>console := console s @ description_warning fm
                   @ group_warnings rc s (fm_responsibilities fm)
                   @ [Warn deprecation_message]
                   @ group_warnings rc s (fm_context fm)
                   @ group_warnings rc s (fm_refs fm)\<rparr>)"
    using assms by (rule buildRoleProfile_true)
  show "count_list (description_warning fm @ group_warnings rc s (fm_responsibilities fm)
                     @ [Warn deprecation_message] @ group_warnings rc s (fm_context fm)
                     @ group_warnings rc s (fm_refs fm)) (Warn deprecation_message) = 1"
    by (rule deprecation_once)
  show "console (snd (compile rc (roleFile, fm) s))
              = console s @ description_warning fm
                  @ group_warnings rc s (fm_responsibilities fm)
                  @ [Warn deprecation_message]
                  @ group_warnings rc s (fm_context fm)
                  @ group_warnings rc s (fm_refs fm)
                  @ (case fst (compile rc (roleFile, fm) s) of
                       Inl e \<Rightarrow> []
                     | Inr r \<Rightarrow> [Success (''Compiled '' @ toLowerCase (the (fm_alias fm))
                                            @ ''.md'')])"
    if al: "present (fm_alias fm)"
  proof -
    from buildRoleProfile_true [OF assms, of rc roleFile "the (fm_alias fm)" s]
    obtain built where
      b: "buildRoleProfile rc roleFile fm (the (fm_alias fm)) s =
            (Inr built,
             s\<lparr>console := console s @ description_warning fm
                   @ group_warnings rc s (fm_responsibilities fm)
                   @ [Warn deprecation_message]
                   @ group_warnings rc s (fm_context fm)
                   @ group_warnings rc s (fm_refs fm)\<rparr>)"
      by blast
    show ?thesis
      by (simp add: compile_console [OF al b])
  qed
  show "buildProfile \<lparr>role_bodies = r, responsibilities_bodies = rs,
                          constitution_bodies = [], context_bodies = xs, reference_bodies = fs\<rparr>
              = join_with blank_line
                  (map render_section
                     (filter (\<lambda>sec. snd sec \<noteq> [])
                        [(''Role'', r), (''Responsibilities'', rs), (''Context'', xs),
                         (''Reference'', fs)]))" for r rs xs fs
    by (simp add: buildProfile_def)
qed

theorem constitution_true_deprecated_witness:
  "fm_constitution example_frontmatter = YBool True \<and>
   present (fm_alias example_frontmatter) \<and>
   fst (inlineConstitution project_compiler example_frontmatter project_world) = Inr [] \<and>
   console (snd (inlineConstitution project_compiler example_frontmatter project_world))
     = [Warn deprecation_message] \<and>
   console (snd (compile project_compiler (''/p/content/roles/agent.md'', example_frontmatter)
                   project_world))
     = [Warn deprecation_message]"
proof -
  have h: "fm_constitution example_frontmatter = YBool True"
    by (simp add: example_frontmatter_def)
  have al: "present (fm_alias example_frontmatter)"
    by (simp add: example_frontmatter_def present_def)
  have c: "console project_world = []"
    by (simp add: project_world_def quiet_world_def)
  have d: "description_warning example_frontmatter = []"
    by (simp add: description_warning_def example_frontmatter_def present_def)
  have g1: "group_warnings project_compiler project_world (fm_responsibilities example_frontmatter)
              = []"
    by code_simp
  have g2: "group_warnings project_compiler project_world (fm_context example_frontmatter) = []"
    by code_simp
  have g3: "group_warnings project_compiler project_world (fm_refs example_frontmatter) = []"
    by code_simp
  have f: "fst (compile project_compiler (''/p/content/roles/agent.md'', example_frontmatter)
                  project_world) = Inl (PlainError (unknown_plugin_message ''slack''))"
    by code_simp
  note whole = constitution_true_deprecated [OF h, of project_compiler project_world
      "''/p/content/roles/agent.md''"]
  note eq = whole [THEN conjunct2, THEN conjunct1]
  note pr = whole [THEN conjunct2, THEN conjunct2, THEN conjunct2, THEN conjunct2,
      THEN conjunct1, rule_format, OF al]
  have "console (snd (compile project_compiler (''/p/content/roles/agent.md'', example_frontmatter)
                   project_world)) = [Warn deprecation_message]"
    by (simp add: pr c d g1 g2 g3 f)
  then show ?thesis
    by (simp add: h al eq c)
qed

subsection \<open>References whose file is missing\<close>









subsection \<open>Names, outputs and plugins\<close>

lemma hyphen_not_alnum: "\<not> is_lower_alnum (CHR ''-'')"
  by (simp add: is_lower_alnum_def is_digit_def code_unit_def)

lemma collapse_runs_chars: "c \<in> set (collapse_runs b t) \<Longrightarrow> is_lower_alnum c \<or> c = CHR ''-''"
  by (induction t arbitrary: b) (auto split: if_splits)

lemma no_double_hyphen_Cons:
  "no_double_hyphen (a # t) \<longleftrightarrow>
     (t = [] \<or> (\<not> (a = CHR ''-'' \<and> hd t = CHR ''-'') \<and> no_double_hyphen t))"
  by (cases t) simp_all

lemma collapse_runs_shape:
  "no_double_hyphen (collapse_runs b t) \<and>
   (b \<longrightarrow> collapse_runs b t = [] \<or> hd (collapse_runs b t) \<noteq> CHR ''-'')"
proof (induction t arbitrary: b)
  case Nil
  then show ?case by simp
next
  case (Cons c t)
  show ?case
  proof (cases "is_lower_alnum c")
    case True
    then have "c \<noteq> CHR ''-''" using hyphen_not_alnum by auto
    with True Cons.IH [of False] show ?thesis
      by (simp add: no_double_hyphen_Cons)
  next
    case False
    with Cons.IH [of True] show ?thesis
      by (auto simp: no_double_hyphen_Cons)
  qed
qed

lemma collapse_runs_id: "\<forall>c \<in> set t. is_lower_alnum c \<Longrightarrow> collapse_runs b t = t"
  by (induction t arbitrary: b) simp_all

lemma no_double_hyphen_tl: "no_double_hyphen (a # t) \<Longrightarrow> no_double_hyphen t"
  by (cases t) simp_all

lemma no_double_hyphen_butlast: "no_double_hyphen t \<Longrightarrow> no_double_hyphen (butlast t)"
proof (induction t rule: no_double_hyphen.induct)
  case (1 a b cs)
  then show ?case by (cases cs) auto
qed simp_all

lemma no_double_hyphen_last:
  "no_double_hyphen t \<Longrightarrow> last t = CHR ''-'' \<Longrightarrow> butlast t \<noteq> [] \<Longrightarrow>
   last (butlast t) \<noteq> CHR ''-''"
proof (induction t rule: no_double_hyphen.induct)
  case (1 a b cs)
  then show ?case by (cases cs) (auto split: if_splits)
qed simp_all

lemma hd_butlast: "butlast t \<noteq> [] \<Longrightarrow> hd (butlast t) = hd t"
  by (cases t) (auto split: if_splits)

lemma strip_hyphens_shape:
  assumes "no_double_hyphen t"
  shows "no_double_hyphen (strip_hyphens t) \<and>
         (strip_hyphens t \<noteq> [] \<longrightarrow>
            hd (strip_hyphens t) \<noteq> CHR ''-'' \<and> last (strip_hyphens t) \<noteq> CHR ''-'')"
proof -
  define u where "u = (case t of c # cs \<Rightarrow> if c = CHR ''-'' then cs else t | [] \<Rightarrow> [])"
  have nd: "no_double_hyphen u"
    using assms by (auto simp: u_def dest: no_double_hyphen_tl split: list.splits)
  have h0: "u \<noteq> [] \<longrightarrow> hd u \<noteq> CHR ''-''"
    using assms by (auto simp: u_def no_double_hyphen_Cons split: list.splits if_splits)
  have s: "strip_hyphens t = (if u \<noteq> [] \<and> last u = CHR ''-'' then butlast u else u)"
    by (simp add: strip_hyphens_def u_def Let_def)
  show ?thesis
  proof (cases "u \<noteq> [] \<and> last u = CHR ''-''")
    case True
    then have "strip_hyphens t = butlast u" by (simp add: s)
    moreover have "no_double_hyphen (butlast u)" using nd by (rule no_double_hyphen_butlast)
    moreover have "butlast u \<noteq> [] \<longrightarrow> hd (butlast u) \<noteq> CHR ''-''"
      using h0 True by (auto simp: hd_butlast)
    moreover have "butlast u \<noteq> [] \<longrightarrow> last (butlast u) \<noteq> CHR ''-''"
      using no_double_hyphen_last [OF nd] True by blast
    ultimately show ?thesis by simp
  next
    case False
    then have "strip_hyphens t = u" unfolding s by auto
    with nd h0 False show ?thesis by auto
  qed
qed

lemma strip_hyphens_chars: "c \<in> set (strip_hyphens t) \<Longrightarrow> c \<in> set t"
  by (auto simp: strip_hyphens_def Let_def split: list.splits if_splits dest: in_set_butlastD)

lemma strip_hyphens_id: "\<forall>c \<in> set t. is_lower_alnum c \<Longrightarrow> strip_hyphens t = t"
proof -
  assume a: "\<forall>c \<in> set t. is_lower_alnum c"
  then have "t \<noteq> [] \<Longrightarrow> hd t \<noteq> CHR ''-'' \<and> last t \<noteq> CHR ''-''"
    using hyphen_not_alnum by (metis hd_in_set last_in_set)
  then show ?thesis
    by (cases t) (auto simp: strip_hyphens_def Let_def)
qed

lemma agent_name_shape:
  "(\<forall>c \<in> set (agent_name a). is_lower_alnum c \<or> c = CHR ''-'') \<and>
   no_double_hyphen (agent_name a) \<and>
   (agent_name a \<noteq> [] \<longrightarrow> hd (agent_name a) \<noteq> CHR ''-'' \<and> last (agent_name a) \<noteq> CHR ''-'') \<and>
   ((\<forall>c \<in> set (toLowerCase a). is_lower_alnum c) \<longrightarrow> agent_name a = toLowerCase a)"
proof (intro conjI ballI impI)
  fix c assume "c \<in> set (agent_name a)"
  then show "is_lower_alnum c \<or> c = CHR ''-''"
    unfolding agent_name_def using strip_hyphens_chars collapse_runs_chars by blast
next
  have nd: "no_double_hyphen (collapse_runs False (toLowerCase a))"
    using collapse_runs_shape by blast
  from strip_hyphens_shape [OF nd] show "no_double_hyphen (agent_name a)"
    by (simp add: agent_name_def)
  assume "agent_name a \<noteq> []"
  with strip_hyphens_shape [OF nd]
  show "hd (agent_name a) \<noteq> CHR ''-''" and "last (agent_name a) \<noteq> CHR ''-''"
    by (simp_all add: agent_name_def)
next
  assume "\<forall>c \<in> set (toLowerCase a). is_lower_alnum c"
  then show "agent_name a = toLowerCase a"
    by (simp add: agent_name_def collapse_runs_id strip_hyphens_id)
qed

lemma write_profile_ok:
  assumes "agentProfilesOutputDir (config rc) = Some d" and "d \<noteq> []"
    and "existsSync s d \<or> \<not> mkdir_fails s d"
    and "write_fault s (join [d, toLowerCase a @ ''.md'']) = None"
  shows "write_profile rc profile a s =
           (Inr (),
            (if existsSync s d then s else s\<lparr>dirs := List.insert d (dirs s)\<rparr>)
              \<lparr>files := AList.update (join [d, toLowerCase a @ ''.md'']) (PlainText profile)
                          (files s)\<rparr>)"
  using assms
  by (auto simp: write_profile_def bind_def mkdirSync_def writeFileSync_def)

lemma write_profile_other_files:
  assumes "\<forall>d. agentProfilesOutputDir (config rc) = Some d \<longrightarrow> q \<noteq> join [d, toLowerCase a @ ''.md'']"
  shows "map_of (files (snd (write_profile rc profile a s))) q = map_of (files s) q"
  using assms
  by (auto simp: write_profile_def bind_def return_def mkdirSync_def writeFileSync_def update_conv'
        split: option.splits write_fault.splits)

lemma PLUGINS_keys_joined: "join_with '', '' PLUGINS_keys = ''claude-code''"
  by (simp add: PLUGINS_keys_def)

lemma PLUGINS_claude: "PLUGINS ''claude-code'' = Some ClaudeCodePlugin_class"
  by (simp add: PLUGINS_def)

lemma resolvePlugins_unknown:
  assumes "\<forall>n \<in> set names. n = ''claude-code'' \<or> PLUGINS n = None"
    and "\<exists>n \<in> set names. PLUGINS n = None"
  shows "\<exists>nm \<in> set names. PLUGINS nm = None \<and>
           resolvePlugins names rt od pn = Inl (PlainError (unknown_plugin_message nm))"
  using assms
proof (induction names)
  case Nil
  then show ?case by simp
next
  case (Cons n names)
  show ?case
  proof (cases "PLUGINS n")
    case None
    then have "resolvePlugins (n # names) rt od pn = Inl (PlainError (unknown_plugin_message n))"
      by (simp add: unknown_plugin_message_def PLUGINS_keys_joined)
    with None show ?thesis by auto
  next
    case (Some ctor)
    with Cons.prems have n: "n = ''claude-code''" by auto
    with Some Cons.prems have "\<exists>m \<in> set names. PLUGINS m = None" by auto
    with Cons.IH Cons.prems obtain nm where nm: "nm \<in> set names" "PLUGINS nm = None"
      "resolvePlugins names rt od pn = Inl (PlainError (unknown_plugin_message nm))"
      by auto
    then have "resolvePlugins (n # names) rt od pn = Inl (PlainError (unknown_plugin_message nm))"
      by (simp add: n PLUGINS_claude)
    with nm show ?thesis by auto
  qed
qed

lemma writeOutputs_after_profile:
  "writeOutputs rc profile md a s =
     (case write_profile rc profile a s of
        (Inl e, s1) \<Rightarrow> (Inl e, s1)
      | (Inr u, s1) \<Rightarrow>
          bind (lift (resolvePlugins (plugins (config rc)) (root rc)
                        (pluginsOutputDir (config rc)) (pluginName (config rc))))
            (\<lambda>ps. plugins_loop ps profile md a) s1)"
  by (simp add: writeOutputs_def bind_def split: prod.splits sum.splits)

lemma writeOutputs_unknown:
  assumes "resolvePlugins (plugins (config rc)) (root rc) (pluginsOutputDir (config rc))
             (pluginName (config rc)) = Inl err"
  shows "writeOutputs rc profile md a s =
           (case write_profile rc profile a s of
              (Inl e, s1) \<Rightarrow> (Inl e, s1)
            | (Inr u, s1) \<Rightarrow> (Inl err, s1))"
  by (simp add: writeOutputs_after_profile assms bind_def lift_def split: prod.splits sum.splits)

lemma writeOutputs_unknown_fails:
  assumes "resolvePlugins (plugins (config rc)) (root rc) (pluginsOutputDir (config rc))
             (pluginName (config rc)) = Inl err"
  shows "\<exists>e. writeOutputs rc profile md a s = (Inl e, snd (write_profile rc profile a s))"
  by (auto simp: writeOutputs_unknown [OF assms] split: prod.splits sum.splits)

lemma compile_loop_skip:
  "compile_loop rc roleFiles n s = compile_loop rc (dropWhile skipped roleFiles) n s"
  by (induction roleFiles) (auto simp: skipped_def)

lemma compile_loop_first:
  assumes "\<not> skipped (roleFile, fm)"
    and "resolvePlugins (plugins (config rc)) (root rc) (pluginsOutputDir (config rc))
             (pluginName (config rc)) = Inl err"
  shows "\<exists>pr m s1 e.
           buildRoleProfile rc roleFile fm (the (fm_alias fm)) s = (Inr (pr, m), s1) \<and>
           only_printed s s1 \<and>
           compile_loop rc ((roleFile, fm) # rest) n s
             = (Inl e, snd (write_profile rc pr (the (fm_alias fm)) s1))"
proof -
  from buildRoleProfile_eq [of rc roleFile fm "the (fm_alias fm)" s]
  obtain pr m s1 where b: "buildRoleProfile rc roleFile fm (the (fm_alias fm)) s = (Inr (pr, m), s1)"
    and p: "only_printed s s1"
    by blast
  from writeOutputs_unknown_fails [OF assms(2), of pr m "the (fm_alias fm)" s1]
  obtain e where w: "writeOutputs rc pr m (the (fm_alias fm)) s1
      = (Inl e, snd (write_profile rc pr (the (fm_alias fm)) s1))"
    by blast
  from assms(1) have "compile_loop rc ((roleFile, fm) # rest) n s
      = (Inl e, snd (write_profile rc pr (the (fm_alias fm)) s1))"
    by (simp add: skipped_def Let_def bind_def b w)
  with b p show ?thesis by blast
qed

lemma compileAll_unknown:
  assumes "dropWhile skipped roleFiles = (roleFile, fm) # rest"
    and "resolvePlugins (plugins (config rc)) (root rc) (pluginsOutputDir (config rc))
             (pluginName (config rc)) = Inl err"
  shows "\<exists>pr m s1 e.
           buildRoleProfile rc roleFile fm (the (fm_alias fm)) s = (Inr (pr, m), s1) \<and>
           only_printed s s1 \<and>
           compileAll rc roleFiles s = (Inl e, snd (write_profile rc pr (the (fm_alias fm)) s1))"
proof -
  have "\<not> skipped (roleFile, fm)"
    using assms(1) by (metis hd_dropWhile list.distinct(1) list.sel(1))
  from compile_loop_first [OF this assms(2), of s rest 0]
  obtain pr m s1 e where
    b: "buildRoleProfile rc roleFile fm (the (fm_alias fm)) s = (Inr (pr, m), s1)"
    and p: "only_printed s s1"
    and c: "compile_loop rc ((roleFile, fm) # rest) 0 s
             = (Inl e, snd (write_profile rc pr (the (fm_alias fm)) s1))"
    by blast
  have "compile_loop rc roleFiles 0 s = compile_loop rc ((roleFile, fm) # rest) 0 s"
    by (subst compile_loop_skip) (simp only: assms(1))
  then have "compile_loop rc roleFiles 0 s
      = (Inl e, snd (write_profile rc pr (the (fm_alias fm)) s1))"
    by (simp only: c)
  then have "compileAll rc roleFiles s = (Inl e, snd (write_profile rc pr (the (fm_alias fm)) s1))"
    by (simp add: compileAll_def bind_def)
  with b p show ?thesis by blast
qed

text \<open>
  C7. Claimed: the pure profile is written to one file per alias whose name is the
  alias lower-cased, with every run of non-alphanumeric characters collapsed to one
  hyphen and no hyphen at either end. As the code has it: when a profile directory is
  configured and the file system refuses neither the directory nor the file, the
  profile is written, before any plugin is resolved, to the file named by the alias
  lower-cased and nothing more, followed by \<open>.md\<close>. The hyphenated form is the name
  in the agent metadata: it consists of \<open>a-z\<close>, \<open>0-9\<close> and single hyphens, has no
  hyphen at either end, and is the lower-cased alias whenever that is alphanumeric.
\<close>

theorem profile_file_name:
  assumes "agentProfilesOutputDir (config rc) = Some d" and "d \<noteq> []"
    and "existsSync s d \<or> \<not> mkdir_fails s d"
    and "write_fault s (join [d, toLowerCase a @ ''.md'']) = None"
  shows "fst (write_profile rc profile a s) = Inr () \<and>
         map_of (files (snd (write_profile rc profile a s))) (join [d, toLowerCase a @ ''.md''])
           = Some (PlainText profile) \<and>
         (\<forall>q. q \<noteq> join [d, toLowerCase a @ ''.md''] \<longrightarrow>
            map_of (files (snd (write_profile rc profile a s))) q = map_of (files s) q) \<and>
         writeOutputs rc profile md a s =
           bind (lift (resolvePlugins (plugins (config rc)) (root rc)
                         (pluginsOutputDir (config rc)) (pluginName (config rc))))
             (\<lambda>ps. plugins_loop ps profile md a) (snd (write_profile rc profile a s)) \<and>
         (\<forall>c \<in> set (agent_name a). is_lower_alnum c \<or> c = CHR ''-'') \<and>
         no_double_hyphen (agent_name a) \<and>
         (agent_name a \<noteq> [] \<longrightarrow>
            hd (agent_name a) \<noteq> CHR ''-'' \<and> last (agent_name a) \<noteq> CHR ''-'') \<and>
         ((\<forall>c \<in> set (toLowerCase a). is_lower_alnum c) \<longrightarrow> agent_name a = toLowerCase a)"
proof -
  note w = write_profile_ok [OF assms, of profile]
  have "fst (write_profile rc profile a s) = Inr ()"
    by (simp add: w)
  moreover have "map_of (files (snd (write_profile rc profile a s)))
                   (join [d, toLowerCase a @ ''.md'']) = Some (PlainText profile)"
    by (simp add: w update_conv')
  moreover have "\<forall>q. q \<noteq> join [d, toLowerCase a @ ''.md''] \<longrightarrow>
            map_of (files (snd (write_profile rc profile a s))) q = map_of (files s) q"
    by (simp add: w update_conv')
  moreover have "writeOutputs rc profile md a s =
           bind (lift (resolvePlugins (plugins (config rc)) (root rc)
                         (pluginsOutputDir (config rc)) (pluginName (config rc))))
             (\<lambda>ps. plugins_loop ps profile md a) (snd (write_profile rc profile a s))"
    by (simp add: writeOutputs_after_profile w)
  ultimately show ?thesis
    using agent_name_shape [of a] by blast
qed

theorem profile_file_name_witness:
  "agentProfilesOutputDir (config profiles_compiler) = Some ''/p/agent-profiles'' \<and>
   ''/p/agent-profiles'' \<noteq> [] \<and>
   \<not> mkdir_fails quiet_world ''/p/agent-profiles'' \<and>
   write_fault quiet_world (join [''/p/agent-profiles'', toLowerCase ''My Agent'' @ ''.md'']) = None \<and>
   fst (write_profile profiles_compiler ''# Role'' ''My Agent'' quiet_world) = Inr () \<and>
   map_of (files (snd (write_profile profiles_compiler ''# Role'' ''My Agent'' quiet_world)))
     (join [''/p/agent-profiles'', toLowerCase ''My Agent'' @ ''.md''])
     = Some (PlainText ''# Role'')"
proof -
  have h1: "agentProfilesOutputDir (config profiles_compiler) = Some ''/p/agent-profiles''"
    by (simp add: profiles_compiler_def example_config_def)
  have h2: "''/p/agent-profiles'' \<noteq> []"
    by simp
  have h3: "\<not> mkdir_fails quiet_world ''/p/agent-profiles''"
    by (simp add: quiet_world_def)
  have h4: "write_fault quiet_world
              (join [''/p/agent-profiles'', toLowerCase ''My Agent'' @ ''.md'']) = None"
    by (simp add: quiet_world_def)
  note whole = profile_file_name [OF h1 h2 disjI2 [OF h3] h4, of "''# Role''"]
  show ?thesis
    by (intro conjI h1 h2 h3 h4 whole [THEN conjunct1] whole [THEN conjunct2, THEN conjunct1])
qed

theorem profile_file_name_counterexample:
  "map_of (files (snd (writeOutputs profiles_compiler ''# Role'' None ''My Agent'' quiet_world)))
     ''/p/agent-profiles/my agent.md'' = Some (PlainText ''# Role'') \<and>
   map_of (files (snd (writeOutputs profiles_compiler ''# Role'' None ''My Agent'' quiet_world)))
     ''/p/agent-profiles/my-agent.md'' = None \<and>
   agent_name ''My Agent'' = ''my-agent''"
  by code_simp

text \<open>
  C8. Claimed: a sink name outside the registry makes compilation fail with an error
  that lists the known names, before any output is written. As the code has it: the
  names are resolved inside \<open>writeOutputs\<close>, after the pure profile of the role at hand
  has been written. For a configuration whose names are \<open>claude-code\<close> or names that
  the registry object has no property for, at least one of the latter:
  \<open>resolvePlugins\<close> fails with \<open>Unknown plugin: "name". Available plugins: claude-code\<close>;
  \<open>writeOutputs\<close> fails with that error (or with the error of the profile write) in
  the world the profile write left, so no file but the profile is touched and no
  plugin has run; and \<open>compileAll\<close> stops at the first role it does not pass over, so
  no later role gets any output.
\<close>

theorem unknown_plugin_error:
  assumes "\<forall>n \<in> set (plugins (config rc)). n = ''claude-code'' \<or> PLUGINS n = None"
    and "\<exists>n \<in> set (plugins (config rc)). PLUGINS n = None"
  shows "\<exists>nm \<in> set (plugins (config rc)). PLUGINS nm = None \<and>
           resolvePlugins (plugins (config rc)) (root rc) (pluginsOutputDir (config rc))
             (pluginName (config rc)) = Inl (PlainError (unknown_plugin_message nm)) \<and>
           writeOutputs rc profile md a s =
             (case write_profile rc profile a s of
                (Inl e, s1) \<Rightarrow> (Inl e, s1)
              | (Inr u, s1) \<Rightarrow> (Inl (PlainError (unknown_plugin_message nm)), s1)) \<and>
           (\<forall>q. (\<forall>d. agentProfilesOutputDir (config rc) = Some d \<longrightarrow>
                       q \<noteq> join [d, toLowerCase a @ ''.md'']) \<longrightarrow>
                 map_of (files (snd (writeOutputs rc profile md a s))) q = map_of (files s) q) \<and>
           (\<forall>roleFile fm rest. dropWhile skipped roleFiles = (roleFile, fm) # rest \<longrightarrow>
              (\<exists>pr m s1 e.
                 buildRoleProfile rc roleFile fm (the (fm_alias fm)) s = (Inr (pr, m), s1) \<and>
                 only_printed s s1 \<and>
                 compileAll rc roleFiles s
                   = (Inl e, snd (write_profile rc pr (the (fm_alias fm)) s1))))"
proof -
  from resolvePlugins_unknown [OF assms] obtain nm where nm: "nm \<in> set (plugins (config rc))"
    "PLUGINS nm = None"
    and r: "resolvePlugins (plugins (config rc)) (root rc) (pluginsOutputDir (config rc))
             (pluginName (config rc)) = Inl (PlainError (unknown_plugin_message nm))"
    by blast
  have w: "writeOutputs rc profile md a s =
             (case write_profile rc profile a s of
                (Inl e, s1) \<Rightarrow> (Inl e, s1)
              | (Inr u, s1) \<Rightarrow> (Inl (PlainError (unknown_plugin_message nm)), s1))"
    by (rule writeOutputs_unknown [OF r])
  have "snd (writeOutputs rc profile md a s) = snd (write_profile rc profile a s)"
    using writeOutputs_unknown_fails [OF r, of profile md a s] by auto
  then have f: "\<forall>q. (\<forall>d. agentProfilesOutputDir (config rc) = Some d \<longrightarrow>
                       q \<noteq> join [d, toLowerCase a @ ''.md'']) \<longrightarrow>
                 map_of (files (snd (writeOutputs rc profile md a s))) q = map_of (files s) q"
    by (simp add: write_profile_other_files)
  have c: "\<forall>roleFile fm rest. dropWhile skipped roleFiles = (roleFile, fm) # rest \<longrightarrow>
              (\<exists>pr m s1 e.
                 buildRoleProfile rc roleFile fm (the (fm_alias fm)) s = (Inr (pr, m), s1) \<and>
                 only_printed s s1 \<and>
                 compileAll rc roleFiles s
                   = (Inl e, snd (write_profile rc pr (the (fm_alias fm)) s1)))"
    using compileAll_unknown [OF _ r] by blast
  from nm r w f c show ?thesis by blast
qed

theorem unknown_plugin_error_witness:
  "plugins (config example_compiler) = [''slack''] \<and> PLUGINS ''slack'' = None \<and>
   resolvePlugins (plugins (config example_compiler)) (root example_compiler)
     (pluginsOutputDir (config example_compiler)) (pluginName (config example_compiler))
     = Inl (PlainError (unknown_plugin_message ''slack'')) \<and>
   dropWhile skipped example_roles = [(''/p/content/roles/agent.md'', example_frontmatter)] \<and>
   (\<exists>e s'. compileAll example_compiler example_roles quiet_world = (Inl e, s'))"
proof -
  have pl: "plugins (config example_compiler) = [''slack'']"
    by (simp add: example_compiler_def example_config_def)
  have none: "PLUGINS ''slack'' = None"
    by code_simp
  have h1: "\<forall>n \<in> set (plugins (config example_compiler)). n = ''claude-code'' \<or> PLUGINS n = None"
    by (simp add: pl none)
  have h2: "\<exists>n \<in> set (plugins (config example_compiler)). PLUGINS n = None"
    by (simp add: pl none)
  have h3: "dropWhile skipped example_roles
              = [(''/p/content/roles/agent.md'', example_frontmatter)]"
    by code_simp
  from unknown_plugin_error [OF h1 h2, of _ _ _ quiet_world example_roles]
  obtain nm where nm: "nm \<in> set (plugins (config example_compiler))"
    and r: "resolvePlugins (plugins (config example_compiler)) (root example_compiler)
             (pluginsOutputDir (config example_compiler)) (pluginName (config example_compiler))
             = Inl (PlainError (unknown_plugin_message nm))"
    and c: "\<forall>roleFile fm rest. dropWhile skipped example_roles = (roleFile, fm) # rest \<longrightarrow>
              (\<exists>pr m s1 e.
                 buildRoleProfile example_compiler roleFile fm (the (fm_alias fm)) quiet_world
                   = (Inr (pr, m), s1) \<and>
                 only_printed quiet_world s1 \<and>
                 compileAll example_compiler example_roles quiet_world
                   = (Inl e, snd (write_profile example_compiler pr (the (fm_alias fm)) s1)))"
    by blast
  from nm have "nm = ''slack''" by (simp add: pl)
  with r have r': "resolvePlugins (plugins (config example_compiler)) (root example_compiler)
     (pluginsOutputDir (config example_compiler)) (pluginName (config example_compiler))
     = Inl (PlainError (unknown_plugin_message ''slack''))"
    by simp
  from c [rule_format, OF h3]
  have "\<exists>e s'. compileAll example_compiler example_roles quiet_world = (Inl e, s')"
    by blast
  with pl none r' h3 show ?thesis by (intro conjI)
qed

theorem unknown_plugin_error_counterexample:
  "fst (writeOutputs example_compiler ''# Role'' None ''tester'' quiet_world)
     = Inl (PlainError (unknown_plugin_message ''slack'')) \<and>
   files quiet_world = [] \<and>
   map_of (files (snd (writeOutputs example_compiler ''# Role'' None ''tester'' quiet_world)))
     ''/p/agent-profiles/tester.md'' = Some (PlainText ''# Role'')"
  by code_simp

end
